theory Spec2Isabelle
  imports Complex_Main
begin

section \<open>JavaScript values: strings, numbers, objects\<close>

text \<open>
  The bot (\<^verbatim>\<open>server-whatsapp-payments.js\<close>, held in \<^verbatim>\<open>src/checkout.js\<close>) is an Express server
  with two webhook routes over process-wide mutable maps. The embedding keeps the source's
  names. Four conventions hold throughout.

  \<^item> Strings are \<^typ>\<open>string\<close> (byte lists): a well-formed JavaScript string stands as its
    UTF-8 bytes. Equality, \<^verbatim>\<open>includes\<close> and \<^verbatim>\<open>startsWith\<close> agree on the two encodings, and the
    classes \<^verbatim>\<open>\d\<close>, \<^verbatim>\<open>\w\<close>, \<^verbatim>\<open>\b\<close> and \<^verbatim>\<open>[A-Z]\<close> of the regular expressions of the source
    are ASCII classes in JavaScript too (they carry no \<^verbatim>\<open>u\<close> flag).
  \<^item> Numbers are IEEE 754 doubles, \<open>number\<close> below: every arithmetic operation rounds.
  \<^item> A JSON field that may be missing is an \<^typ>\<open>'a option\<close>; \<^verbatim>\<open>a || b\<close> on strings takes
    \<^verbatim>\<open>b\<close> when \<^verbatim>\<open>a\<close> is missing or empty.
  \<^item> \<^verbatim>\<open>obj[key]\<close> on a plain object finds the members of \<^verbatim>\<open>Object.prototype\<close> as well as the
    keys stored in the object (\<open>lookup\<close> below).
\<close>

subsection \<open>Strings\<close>

definition isDigit :: "char \<Rightarrow> bool" where
  "isDigit c = (c \<in> set ''0123456789'')"

definition isLetter :: "char \<Rightarrow> bool" where
  "isLetter c = (c \<in> set ''abcdefghijklmnopqrstuvwxyzABCDEFGHIJKLMNOPQRSTUVWXYZ'')"

definition isWordChar :: "char \<Rightarrow> bool" where
  "isWordChar c = (isLetter c \<or> isDigit c \<or> c = CHR ''_'')"

definition startsWith :: "string \<Rightarrow> string \<Rightarrow> bool" where
  "startsWith s sub = (take (length sub) s = sub)"

text \<open>\<^verbatim>\<open>s.includes(sub)\<close>: \<^verbatim>\<open>sub\<close> occurs in \<^verbatim>\<open>s\<close> as a contiguous block.\<close>

fun str_includes :: "string \<Rightarrow> string \<Rightarrow> bool" where
  "str_includes [] sub = (sub = [])"
| "str_includes (c # cs) sub = (startsWith (c # cs) sub \<or> str_includes cs sub)"

text \<open>
  The white space of JavaScript (\<^verbatim>\<open>trim\<close>, and \<^verbatim>\<open>\s\<close> in a regular expression): the code
  points U+0009 to U+000D, U+0020, U+00A0, U+1680, U+2000 to U+200A, U+2028, U+2029, U+202F,
  U+205F, U+3000 and U+FEFF, each by its UTF-8 bytes.
\<close>

definition whiteSpace :: "string list" where
  "whiteSpace =
     [[CHR 0x09], [CHR 0x0A], [CHR 0x0B], [CHR 0x0C], [CHR 0x0D], [CHR 0x20],
      [CHR 0xC2, CHR 0xA0],
      [CHR 0xE1, CHR 0x9A, CHR 0x80],
      [CHR 0xE2, CHR 0x80, CHR 0x80], [CHR 0xE2, CHR 0x80, CHR 0x81],
      [CHR 0xE2, CHR 0x80, CHR 0x82], [CHR 0xE2, CHR 0x80, CHR 0x83],
      [CHR 0xE2, CHR 0x80, CHR 0x84], [CHR 0xE2, CHR 0x80, CHR 0x85],
      [CHR 0xE2, CHR 0x80, CHR 0x86], [CHR 0xE2, CHR 0x80, CHR 0x87],
      [CHR 0xE2, CHR 0x80, CHR 0x88], [CHR 0xE2, CHR 0x80, CHR 0x89],
      [CHR 0xE2, CHR 0x80, CHR 0x8A],
      [CHR 0xE2, CHR 0x80, CHR 0xA8], [CHR 0xE2, CHR 0x80, CHR 0xA9],
      [CHR 0xE2, CHR 0x80, CHR 0xAF],
      [CHR 0xE2, CHR 0x81, CHR 0x9F],
      [CHR 0xE3, CHR 0x80, CHR 0x80],
      [CHR 0xEF, CHR 0xBB, CHR 0xBF]]"

text \<open>
  \<open>strip ws s\<close> drops from the front of \<open>s\<close> every leading block that is in \<open>ws\<close>. \<^verbatim>\<open>trim\<close>
  strips the white space at both ends; at the end the bytes are read backwards.
\<close>

fun strip :: "string list \<Rightarrow> string \<Rightarrow> string" where
  "strip ws [] = []"
| "strip ws (c # cs) =
     (case find (startsWith (c # cs)) ws of
        None \<Rightarrow> c # cs
      | Some w \<Rightarrow> strip ws (drop (length w - 1) cs))"

declare strip.simps [simp del]

definition trim :: "string \<Rightarrow> string" where
  "trim s = rev (strip (map rev whiteSpace) (rev (strip whiteSpace s)))"

text \<open>\<^verbatim>\<open>/\s/.test(s)\<close>: some white-space code point occurs in \<open>s\<close>.\<close>

fun hasSpace :: "string \<Rightarrow> bool" where
  "hasSpace [] = False"
| "hasSpace (c # cs) = (find (startsWith (c # cs)) whiteSpace \<noteq> None \<or> hasSpace cs)"

text \<open>
  \<^verbatim>\<open>toLowerCase\<close>: the ASCII letters, and the two code points outside ASCII whose lower case
  holds an ASCII letter, U+0130 (to \<^verbatim>\<open>i\<close> and U+0307) and U+212A, the Kelvin sign (to \<^verbatim>\<open>k\<close>).
  Any other code point outside ASCII is left as it is: its lower case is again outside ASCII,
  the texts that the program compares lower-cased text with hold no letter outside ASCII,
  and no call it makes is modelled as carrying such text.
\<close>

definition lowerChar :: "char \<Rightarrow> char" where
  "lowerChar c =
     (case map_of (zip ''ABCDEFGHIJKLMNOPQRSTUVWXYZ'' ''abcdefghijklmnopqrstuvwxyz'') c of
        Some l \<Rightarrow> l
      | None \<Rightarrow> c)"

fun toLowerCase :: "string \<Rightarrow> string" where
  "toLowerCase [] = []"
| "toLowerCase (c # cs) =
     (if startsWith (c # cs) [CHR 0xC4, CHR 0xB0]
      then [CHR ''i'', CHR 0xCC, CHR 0x87] @ toLowerCase (drop 1 cs)
      else if startsWith (c # cs) [CHR 0xE2, CHR 0x84, CHR 0xAA]
      then CHR ''k'' # toLowerCase (drop 2 cs)
      else lowerChar c # toLowerCase cs)"

declare toLowerCase.simps [simp del]

text \<open>\<^verbatim>\<open>function normalizePhone(phone) { return (phone || '').replace(/\D/g, ""); }\<close>\<close>

definition normalizePhone :: "string \<Rightarrow> string" where
  "normalizePhone phone = filter isDigit phone"

text \<open>\<^verbatim>\<open>a || b\<close> where \<^verbatim>\<open>a\<close> is an optional string: a missing or empty \<^verbatim>\<open>a\<close> is falsy.\<close>

definition or_str :: "string option \<Rightarrow> string \<Rightarrow> string" where
  "or_str a b = (case a of None \<Rightarrow> b | Some s \<Rightarrow> if s = [] then b else s)"

text \<open>
  \<^verbatim>\<open>/\b\d{14}\b/\<close>: fourteen digits with a word boundary on each side. The digits are word
  characters, so the boundary holds exactly when the neighbour on that side is missing or
  is not a word character. \<open>awbSearch\<close> scans from the left and returns the first match,
  as \<^verbatim>\<open>msgBody.match(...)[0]\<close> does; its first argument is the character before the
  scanned suffix.
\<close>

definition awbAt :: "char option \<Rightarrow> string \<Rightarrow> bool" where
  "awbAt prev s =
     ((case prev of None \<Rightarrow> True | Some p \<Rightarrow> \<not> isWordChar p)
      \<and> 14 \<le> length s \<and> list_all isDigit (take 14 s)
      \<and> (case drop 14 s of [] \<Rightarrow> True | c # _ \<Rightarrow> \<not> isWordChar c))"

fun awbSearch :: "char option \<Rightarrow> string \<Rightarrow> string option" where
  "awbSearch prev [] = None"
| "awbSearch prev (c # cs) =
     (if awbAt prev (c # cs) then Some (take 14 (c # cs)) else awbSearch (Some c) cs)"

definition awbMatch :: "string \<Rightarrow> string option" where
  "awbMatch msgBody = awbSearch None msgBody"

text \<open>
  \<^verbatim>\<open>/[A-Z0-9._%+-]+@[A-Z0-9.-]+\.[A-Z]{2,}/i\<close> has a match exactly when some \<^verbatim>\<open>@\<close> is
  preceded by a local character and followed by one or more domain characters, a dot and
  two letters. Only the existence of the match is modelled.
\<close>

definition isEmailLocalChar :: "char \<Rightarrow> bool" where
  "isEmailLocalChar c = (isLetter c \<or> isDigit c \<or> c \<in> set ''._%+-'')"

definition isEmailDomainChar :: "char \<Rightarrow> bool" where
  "isEmailDomainChar c = (isLetter c \<or> isDigit c \<or> c \<in> set ''.-'')"

fun domainMatch :: "nat \<Rightarrow> string \<Rightarrow> bool" where
  "domainMatch n [] = False"
| "domainMatch n (c # cs) =
     ((0 < n \<and> c = CHR ''.'' \<and> (case cs of a # b # _ \<Rightarrow> isLetter a \<and> isLetter b | _ \<Rightarrow> False))
      \<or> (isEmailDomainChar c \<and> domainMatch (Suc n) cs))"

fun emailSearch :: "char option \<Rightarrow> string \<Rightarrow> bool" where
  "emailSearch prev [] = False"
| "emailSearch prev (c # cs) =
     ((c = CHR ''@'' \<and> (case prev of None \<Rightarrow> False | Some p \<Rightarrow> isEmailLocalChar p)
         \<and> domainMatch 0 cs)
      \<or> emailSearch (Some c) cs)"

definition emailMatch :: "string \<Rightarrow> bool" where
  "emailMatch msgBody = emailSearch None msgBody"

text \<open>\<^verbatim>\<open>intent.toLowerCase().replace(/\s+/g, '_')\<close>; the flag says a white-space run is open.\<close>

fun replaceSpaces :: "bool \<Rightarrow> string \<Rightarrow> string" where
  "replaceSpaces run [] = []"
| "replaceSpaces run (c # cs) =
     (case find (startsWith (c # cs)) whiteSpace of
        None \<Rightarrow> c # replaceSpaces False cs
      | Some w \<Rightarrow>
          (if run then [] else ''_'') @ replaceSpaces True (drop (length w - 1) cs))"

subsection \<open>Numbers\<close>

text \<open>
  A JavaScript number is an IEEE 754 binary64 value: a rational that is a double, an
  infinity or \<^verbatim>\<open>NaN\<close>. The sign of zero is not kept; nothing in the program tells \<^verbatim>\<open>-0\<close> from
  \<^verbatim>\<open>0\<close>. The operations below are total on \<open>Num q\<close> for every rational \<open>q\<close>; a number of the
  program is \<open>Num q\<close> only for a double \<open>q\<close>, and a decimal of a JSON text is read by
  \<open>double_of\<close>.
\<close>

datatype number = Num rat | PosInfinity | NegInfinity | NaN

function bit_length :: "int \<Rightarrow> int" where
  "bit_length n = (if n \<le> 0 then 0 else 1 + bit_length (n div 2))"
  by pat_completeness auto

termination
  by (relation "measure nat") auto

declare bit_length.simps [simp del]

text \<open>\<open>ilog2 q\<close> is \<open>\<lfloor>log\<^sub>2 q\<rfloor>\<close> for a positive \<open>q\<close>.\<close>

definition ilog2 :: "rat \<Rightarrow> int" where
  "ilog2 q =
     (if 1 \<le> q then bit_length \<lfloor>q\<rfloor> - 1
      else - bit_length (\<lceil>1 / q\<rceil> - 1))"

definition pow2 :: "int \<Rightarrow> rat" where
  "pow2 k = (if 0 \<le> k then 2 ^ nat k else 1 / 2 ^ nat (- k))"

definition round_half_even :: "rat \<Rightarrow> int" where
  "round_half_even x =
     (let f = \<lfloor>x\<rfloor>; r = x - of_int f
      in if r < 1 / 2 then f else if 1 / 2 < r then f + 1 else if even f then f else f + 1)"

text \<open>
  \<open>double_of q\<close> is the double nearest to the rational \<open>q\<close>, a tie going to the even
  significand: when \<open>2 ^ e \<le> \<bar>q\<bar> < 2 ^ (e + 1)\<close>, the doubles around \<open>q\<close> are the multiples of
  \<open>2 ^ (e - 52)\<close>, and of \<open>2 ^ - 1074\<close> in the subnormal range; a result of magnitude \<open>2 ^ 1024\<close>
  is an infinity. A decimal of a JSON text denotes \<open>double_of\<close> of its value, and \<^verbatim>\<open>a + b\<close>,
  \<^verbatim>\<open>a * b\<close> and \<^verbatim>\<open>a / b\<close> on doubles return \<open>double_of\<close> of the exact result.
\<close>

definition double_of :: "rat \<Rightarrow> number" where
  "double_of q =
     (if q = 0 then Num 0
      else
        let ulp = pow2 (max (ilog2 \<bar>q\<bar> - 52) (- 1074));
            r = of_int (round_half_even (q / ulp)) * ulp
        in if 2 ^ 1024 \<le> r then PosInfinity
           else if r \<le> - (2 ^ 1024) then NegInfinity
           else Num r)"

definition negative :: "number \<Rightarrow> bool" where
  "negative v = (case v of Num a \<Rightarrow> a < 0 | NegInfinity \<Rightarrow> True | _ \<Rightarrow> False)"

definition js_add :: "number \<Rightarrow> number \<Rightarrow> number" where
  "js_add v w =
     (case (v, w) of
        (Num a, Num b) \<Rightarrow> double_of (a + b)
      | (NaN, _) \<Rightarrow> NaN
      | (_, NaN) \<Rightarrow> NaN
      | (PosInfinity, NegInfinity) \<Rightarrow> NaN
      | (NegInfinity, PosInfinity) \<Rightarrow> NaN
      | (Num a, w) \<Rightarrow> w
      | (v, _) \<Rightarrow> v)"

definition js_mul :: "number \<Rightarrow> number \<Rightarrow> number" where
  "js_mul v w =
     (case (v, w) of
        (Num a, Num b) \<Rightarrow> double_of (a * b)
      | _ \<Rightarrow>
          if v = NaN \<or> w = NaN \<or> v = Num 0 \<or> w = Num 0 then NaN
          else if negative v = negative w then PosInfinity else NegInfinity)"

text \<open>\<^verbatim>\<open>v / d\<close> for a positive finite \<open>d\<close>.\<close>

definition js_div :: "number \<Rightarrow> rat \<Rightarrow> number" where
  "js_div v d = (case v of Num a \<Rightarrow> double_of (a / d) | _ \<Rightarrow> v)"

text \<open>
  \<^verbatim>\<open>Math.round\<close> rounds to the nearest integer, a tie towards \<open>+\<infinity>\<close>; the result is a double
  whenever the argument is.
\<close>

definition Math_round :: "number \<Rightarrow> number" where
  "Math_round v = (case v of Num x \<Rightarrow> Num (of_int \<lfloor>x + 1 / 2\<rfloor>) | _ \<Rightarrow> v)"

text \<open>A number is falsy when it is 0 or \<^verbatim>\<open>NaN\<close>; \<^verbatim>\<open>v || d\<close> on numbers.\<close>

definition truthy_number :: "number \<Rightarrow> bool" where
  "truthy_number v = (v \<noteq> Num 0 \<and> v \<noteq> NaN)"

definition or_number :: "number \<Rightarrow> number \<Rightarrow> number" where
  "or_number v d = (if truthy_number v then v else d)"

text \<open>
  \<^verbatim>\<open>String(v)\<close> of a number (\<^verbatim>\<open>Number::toString\<close>): the shortest decimal \<open>s \<times> 10 ^ (n - k)\<close> of
  \<open>k\<close> digits that reads back as \<open>v\<close>, the one nearest to \<open>v\<close> when two do, printed without an
  exponent when \<open>- 6 < n \<le> 21\<close>. \<open>String_digits\<close> prints a natural number.
\<close>

definition digitChar :: "int \<Rightarrow> char" where
  "digitChar d = ''0123456789'' ! nat d"

function String_digits :: "int \<Rightarrow> string" where
  "String_digits n =
     (if n < 10 then [digitChar n] else String_digits (n div 10) @ [digitChar (n mod 10)])"
  by pat_completeness auto

termination
  by (relation "measure nat") auto

declare String_digits.simps [simp del]

definition pow10 :: "int \<Rightarrow> rat" where
  "pow10 k = (if 0 \<le> k then 10 ^ nat k else 1 / 10 ^ nat (- k))"

text \<open>\<open>decimal_point x\<close> is the \<open>n\<close> with \<open>10 ^ (n - 1) \<le> x < 10 ^ n\<close>, for a positive \<open>x\<close>.\<close>

definition decimal_point :: "rat \<Rightarrow> int" where
  "decimal_point x =
     (if 1 \<le> x then int (length (String_digits \<lfloor>x\<rfloor>))
      else 1 - int (length (String_digits (\<lceil>1 / x\<rceil> - 1))))"

definition round_trips :: "rat \<Rightarrow> rat \<Rightarrow> bool" where
  "round_trips x c = (double_of c = Num x)"

text \<open>The decimal of \<open>k\<close> digits that reads back as \<open>x\<close>, if there is one: it is next to \<open>x\<close>.\<close>

definition pick :: "rat \<Rightarrow> int \<Rightarrow> int \<Rightarrow> (int \<times> int) option" where
  "pick x n k =
     (let scale = pow10 (n - k);
          lo = \<lfloor>x / scale\<rfloor>;
          hi = lo + 1;
          ok_lo = round_trips x (of_int lo * scale);
          ok_hi = round_trips x (of_int hi * scale)
      in if ok_lo \<and> ok_hi then
           (if x - of_int lo * scale < of_int hi * scale - x then Some (lo, k)
            else if of_int hi * scale - x < x - of_int lo * scale then Some (hi, k)
            else if even lo then Some (lo, k) else Some (hi, k))
         else if ok_lo then Some (lo, k)
         else if ok_hi then Some (hi, k)
         else None)"

fun shortest_digits :: "nat \<Rightarrow> rat \<Rightarrow> int \<Rightarrow> int \<Rightarrow> int \<times> int" where
  "shortest_digits 0 x n k =
     (case pick x n k of Some r \<Rightarrow> r | None \<Rightarrow> (\<lfloor>x / pow10 (n - k)\<rfloor>, k))"
| "shortest_digits (Suc fuel) x n k =
     (case pick x n k of Some r \<Rightarrow> r | None \<Rightarrow> shortest_digits fuel x n (k + 1))"

definition String_positive :: "rat \<Rightarrow> string" where
  "String_positive x =
     (let n0 = decimal_point x;
          (s0, k0) = shortest_digits 16 x n0 1;
          (s, k, n) = (if s0 = 10 ^ nat k0 then (1, 1, n0 + 1) else (s0, k0, n0));
          ds = String_digits s
      in if k \<le> n \<and> n \<le> 21 then ds @ replicate (nat (n - k)) (CHR ''0'')
         else if 0 < n \<and> n \<le> 21 then take (nat n) ds @ ''.'' @ drop (nat n) ds
         else if - 6 < n \<and> n \<le> 0 then ''0.'' @ replicate (nat (- n)) (CHR ''0'') @ ds
         else (if k = 1 then ds else take 1 ds @ ''.'' @ drop 1 ds)
              @ ''e'' @ (if 0 \<le> n - 1 then ''+'' else ''-'') @ String_digits \<bar>n - 1\<bar>)"

definition String_number :: "number \<Rightarrow> string" where
  "String_number v =
     (case v of
        NaN \<Rightarrow> ''NaN''
      | PosInfinity \<Rightarrow> ''Infinity''
      | NegInfinity \<Rightarrow> ''-Infinity''
      | Num x \<Rightarrow>
          if x = 0 then ''0''
          else if x < 0 then ''-'' @ String_positive (- x)
          else String_positive x)"

text \<open>
  \<^verbatim>\<open>parseInt(v, 10)\<close> of a number reads the digits that \<^verbatim>\<open>String(v)\<close> starts with, after
  its sign: the integer part of \<open>v\<close>, but the leading digit alone when \<^verbatim>\<open>String(v)\<close> has an
  exponent, and \<^verbatim>\<open>NaN\<close> when there is no digit. \<^verbatim>\<open>parseFloat(v)\<close> of a number is \<open>v\<close>.
\<close>

definition digits_value :: "string \<Rightarrow> int" where
  "digits_value ds =
     foldl (\<lambda>acc c. 10 * acc + int (length (takeWhile (\<lambda>d. d \<noteq> c) ''0123456789''))) 0 ds"

definition parseInt_number :: "number \<Rightarrow> number" where
  "parseInt_number v =
     (let s = String_number v;
          neg = startsWith s ''-'';
          ds = takeWhile isDigit (if neg then drop 1 s else s)
      in if ds = [] then NaN
         else double_of (of_int ((if neg then - 1 else 1) * digits_value ds)))"

subsection \<open>Plain objects as tables\<close>

text \<open>
  The program keeps tables in plain objects (\<^verbatim>\<open>const orderSessions = {}\<close>, \<^verbatim>\<open>getProductName\<close>)
  and reads them with \<^verbatim>\<open>obj[key]\<close>. A key that the object does not hold is then looked up in
  \<^verbatim>\<open>Object.prototype\<close>, which has twelve members: eleven functions and \<^verbatim>\<open>__proto__\<close>, which
  reads as \<^verbatim>\<open>Object.prototype\<close> itself. All twelve are truthy objects.

  When the payments webhook takes \<^verbatim>\<open>Object.prototype\<close> for a session, its assignments
  \<^verbatim>\<open>session.payment_status = ...\<close> and \<^verbatim>\<open>session.shipping_charge = ...\<close> add two properties to
  the prototype, which every object inherits from then on; \<open>object_prototype\<close> holds them.
\<close>

definition Object_prototype :: "string list" where
  "Object_prototype =
     [''constructor'', ''__defineGetter__'', ''__defineSetter__'', ''hasOwnProperty'',
      ''__lookupGetter__'', ''__lookupSetter__'', ''isPrototypeOf'', ''propertyIsEnumerable'',
      ''toString'', ''valueOf'', ''__proto__'', ''toLocaleString'']"

datatype payment_state = Paid | Failed

record object_prototype =
  added_payment_status :: "payment_state option"
  added_shipping_charge :: "number option"

datatype 'a property =
    Own 'a
  | Member string
  | AddedStatus payment_state
  | AddedCharge number
  | Undefined

definition lookup :: "object_prototype \<Rightarrow> (string \<rightharpoonup> 'a) \<Rightarrow> string \<Rightarrow> 'a property" where
  "lookup proto obj k =
     (case obj k of
        Some v \<Rightarrow> Own v
      | None \<Rightarrow>
          if k \<in> set Object_prototype then Member k
          else if k = ''payment_status''
          then (case added_payment_status proto of Some p \<Rightarrow> AddedStatus p | None \<Rightarrow> Undefined)
          else if k = ''shipping_charge''
          then (case added_shipping_charge proto of Some c \<Rightarrow> AddedCharge c | None \<Rightarrow> Undefined)
          else Undefined)"

text \<open>
  Whether the value found is truthy, in a table whose own values are (objects, non-empty
  strings, non-zero numbers).
\<close>

definition truthy_property :: "'a property \<Rightarrow> bool" where
  "truthy_property v =
     (case v of
        Own x \<Rightarrow> True
      | Member k \<Rightarrow> True
      | AddedStatus p \<Rightarrow> True
      | AddedCharge c \<Rightarrow> truthy_number c
      | Undefined \<Rightarrow> False)"

definition String_payment_state :: "payment_state \<Rightarrow> string" where
  "String_payment_state p = (case p of Paid \<Rightarrow> ''paid'' | Failed \<Rightarrow> ''failed'')"

text \<open>
  \<^verbatim>\<open>String(v)\<close> of a value found in a table of strings. A member of \<^verbatim>\<open>Object.prototype\<close>
  prints as the source text of a native function (\<^verbatim>\<open>constructor\<close> is the function
  \<^verbatim>\<open>Object\<close>), the prototype itself as \<^verbatim>\<open>[object Object]\<close>.
\<close>

definition String_member :: "string \<Rightarrow> string" where
  "String_member k =
     (if k = ''__proto__'' then ''[object Object]''
      else ''function '' @ (if k = ''constructor'' then ''Object'' else k) @ ''() { [native code] }'')"

definition String_property :: "string property \<Rightarrow> string" where
  "String_property v =
     (case v of
        Own s \<Rightarrow> s
      | Member k \<Rightarrow> String_member k
      | AddedStatus p \<Rightarrow> String_payment_state p
      | AddedCharge c \<Rightarrow> String_number c
      | Undefined \<Rightarrow> ''undefined'')"

text \<open>
  The number that arithmetic makes of a value found in a table of numbers: a function, an
  object, a text that is no numeral and \<^verbatim>\<open>undefined\<close> all convert to \<^verbatim>\<open>NaN\<close>.
\<close>

definition Number_property :: "number property \<Rightarrow> number" where
  "Number_property v = (case v of Own w \<Rightarrow> w | AddedCharge c \<Rightarrow> c | _ \<Rightarrow> NaN)"

section \<open>Data model\<close>

subsection \<open>The intent table\<close>

text \<open>
  \<^verbatim>\<open>let intentBasedQA = new Map()\<close> is process state: it starts empty and
  \<^verbatim>\<open>parseIntentBasedQA\<close> fills it once the PDF has loaded. A \<^verbatim>\<open>Map\<close> iterates in
  insertion order, so it is an association list.
\<close>

record intent_response =
  answer :: string
  intents :: "string list"

type_synonym qa_table = "(string \<times> intent_response) list"

definition parseIntentBasedQA :: qa_table where
  "parseIntentBasedQA = [
    (''buy now'',
      \<lparr>answer =
         ''Amazing choice! Here are our most loved products:'' @ [CHR 0x0A]
         @ ''1. Himalayan White Rajma '' @ [CHR 0xE2, CHR 0x80, CHR 0x93] @ '' ''
         @ [CHR 0xE2, CHR 0x82, CHR 0xB9] @ ''347 / '' @ [CHR 0xE2, CHR 0x82, CHR 0xB9] @ ''691''
         @ [CHR 0x0A] @ ''2. Himalayan Red Rajma '' @ [CHR 0xE2, CHR 0x80, CHR 0x93] @ '' ''
         @ [CHR 0xE2, CHR 0x82, CHR 0xB9] @ ''347 / '' @ [CHR 0xE2, CHR 0x82, CHR 0xB9] @ ''691''
         @ [CHR 0x0A] @ ''3. Badri Cow Ghee '' @ [CHR 0xE2, CHR 0x80, CHR 0x93] @ '' from ''
         @ [CHR 0xE2, CHR 0x82, CHR 0xB9] @ ''450 Onwards.'' @ [CHR 0x0A]
         @ ''4. Himalayan Black Soyabean '' @ [CHR 0xE2, CHR 0x80, CHR 0x93] @ '' ''
         @ [CHR 0xE2, CHR 0x82, CHR 0xB9] @ ''347 / '' @ [CHR 0xE2, CHR 0x82, CHR 0xB9] @ ''691''
         @ [CHR 0x0A] @ ''5. Himalayan Red Rice & Herbs '' @ [CHR 0xE2, CHR 0x80, CHR 0x93] @ '' from ''
         @ [CHR 0xE2, CHR 0x82, CHR 0xB9] @ ''347'',
       intents = [''View Products'', ''Customer Reviews'']\<rparr>),
    (''why people love us'',
      \<lparr>answer =
         ''We'' @ [CHR 0x27] @ ''re glad you'' @ [CHR 0x27] @ ''re curious!''
         @ [CHR 0xF0, CHR 0x9F, CHR 0x92, CHR 0x9A, CHR 0x0A] @ ''Here'' @ [CHR 0xE2, CHR 0x80, CHR 0x99]
         @ ''s why our community loves Orang Utan Organics ''
         @ [CHR 0xF0, CHR 0x9F, CHR 0x91, CHR 0x87, CHR 0x0A] @ ''Pick what you''
         @ [CHR 0xE2, CHR 0x80, CHR 0x99] @ ''d like to explore:'',
       intents = [''Nutrition info'', ''Farmer Impact'', ''Main Menu'']\<rparr>),
    (''back 2 y ppl <3 us'',
      \<lparr>answer =
         ''We'' @ [CHR 0x27] @ ''re glad you'' @ [CHR 0x27] @ ''re curious!!''
         @ [CHR 0xF0, CHR 0x9F, CHR 0x92, CHR 0x9A, CHR 0x0A] @ ''Here'' @ [CHR 0xE2, CHR 0x80, CHR 0x99]
         @ ''s why our community loves Orang Utan Organics ''
         @ [CHR 0xF0, CHR 0x9F, CHR 0x91, CHR 0x87, CHR 0x0A] @ ''Pick what you''
         @ [CHR 0xE2, CHR 0x80, CHR 0x99] @ ''d like to explore:'',
       intents = [''Nutrition info'', ''Farmer Impact'', ''Main Menu'']\<rparr>),
    (''recipes'',
      \<lparr>answer =
         ''Explore farm-fresh, nutritious recipes from our chef community:''
         @ [CHR 0x0A, CHR 0xF0, CHR 0x9F, CHR 0xA5, CHR 0x84] @ '' Red Rajma Curry with Tempering Spice''
         @ [CHR 0x0A, CHR 0xF0, CHR 0x9F, CHR 0xA5, CHR 0x84] @ '' Soyabean Stir-Fry''
         @ [CHR 0x0A, CHR 0xF0, CHR 0x9F, CHR 0xA5, CHR 0x84] @ '' Ghee-roasted Red Rice'' @ [CHR 0x0A]
         @ ''Get one sent to you now? View Recipe: https://orangutanorganics.net/recipes'',
       intents = [''View Products'', ''back 2 nutri info'']\<rparr>),
    (''farmer impact'',
      \<lparr>answer =
         ''We directly reinvest in:'' @ [CHR 0x0A, CHR 0xE2, CHR 0x80, CHR 0xA2]
         @ '' Soil conservation ''
         @ [CHR 0xF0, CHR 0x9F, CHR 0x8C, CHR 0x8D, CHR 0x0A, CHR 0xE2, CHR 0x80, CHR 0xA2]
         @ '' Enhancing livelihoods via our farmers consortium ''
         @ [CHR 0xF0, CHR 0x9F, CHR 0x93, CHR 0x98, CHR 0x0A, CHR 0xE2, CHR 0x80, CHR 0xA2]
         @ '' Organic certifications for villages '' @ [CHR 0xF0, CHR 0x9F, CHR 0xA7, CHR 0xBE, CHR 0x0A]
         @ ''See our Farmer'' @ [CHR 0xE2, CHR 0x80, CHR 0x99]
         @ ''s Impact : https://orangutanorganics.net/farmerimpact'',
       intents = [''View Products'', ''back 2 y ppl <3 us'']\<rparr>),
    (''where we'' @ [CHR 0xE2, CHR 0x80, CHR 0x99] @ ''re from'',
      \<lparr>answer =
         ''We'' @ [CHR 0xE2, CHR 0x80, CHR 0x99]
         @ ''re rooted in Village Bhangeli, 2300m above sea level, in the Gangotri Valley ''
         @ [CHR 0xF0, CHR 0x9F, CHR 0x8F, CHR 0x9E, CHR 0x0A, CHR 0xF0, CHR 0x9F, CHR 0x8C, CHR 0xB1]
         @ '' Certified Organic Base'' @ [CHR 0x0A, CHR 0xF0, CHR 0x9F, CHR 0x93, CHR 0x8D]
         @ '' 46 km from Uttarkashi, Uttarakhand'' @ [CHR 0x0A, CHR 0xF0, CHR 0x9F, CHR 0x92, CHR 0x9A]
         @ '' Home to just 40 small landholder families we support'' @ [CHR 0x0A]
         @ ''Would you like to see what life looks like up here? View Gallery: https://www.instagram.com/orangutan.organics/'',
       intents = [''View Products'', ''Back2 Sourcing Story'']\<rparr>),
    (''why it matters'',
      \<lparr>answer =
         ''We protect:'' @ [CHR 0x0A, CHR 0xE2, CHR 0x80, CHR 0xA2] @ '' Native seeds & biodiversity''
         @ [CHR 0x0A, CHR 0xE2, CHR 0x80, CHR 0xA2] @ '' Water sources & soil health''
         @ [CHR 0x0A, CHR 0xE2, CHR 0x80, CHR 0xA2] @ '' Farmer dignity & livelihoods'' @ [CHR 0x0A]
         @ ''Buying from us = standing up for the planet & Himalayan farmers. Learn about our latest impact project? See Report: https://orangutanorganics.net/whyitmatters'',
       intents = [''View Products'', ''Back2 Sourcing Story'']\<rparr>),
    (''trace your products'',
      \<lparr>answer =
         ''Every product is traceable'' @ [CHR 0xF0, CHR 0x9F, CHR 0x94, CHR 0x81]
         @ '' From seed-to-shelf, you'' @ [CHR 0xE2, CHR 0x80, CHR 0x99] @ ''ll know:''
         @ [CHR 0x0A, CHR 0xE2, CHR 0x80, CHR 0xA2] @ '' The exact farm''
         @ [CHR 0x0A, CHR 0xE2, CHR 0x80, CHR 0xA2] @ '' The harvest date''
         @ [CHR 0x0A, CHR 0xE2, CHR 0x80, CHR 0xA2] @ '' The batch testing results'' @ [CHR 0x0A]
         @ ''Want to trace your future order?'' @ [CHR 0x0A]
         @ ''See how it works: https://orangutanorganics.net/traceability'',
       intents = [''How It Works'', ''View Products'', ''Back2 Sourcing Story'']\<rparr>),
    (''how it works'',
      \<lparr>answer =
         ''We are tracing our products from our Himalayan farm to your plate with just a QR code, launching soon. We''
         @ [CHR 0xE2, CHR 0x80, CHR 0x99] @ ''ll notify you when it'' @ [CHR 0xE2, CHR 0x80, CHR 0x99]
         @ ''s live!'',
       intents = [''View Products'', ''Back2 Sourcing Story'']\<rparr>),
    (''shop & explore'',
      \<lparr>answer =
         ''Amazing choice! Here are our most loved products:'' @ [CHR 0x0A]
         @ ''1. Himalayan White Rajma '' @ [CHR 0xE2, CHR 0x80, CHR 0x93] @ '' ''
         @ [CHR 0xE2, CHR 0x82, CHR 0xB9] @ ''347 / '' @ [CHR 0xE2, CHR 0x82, CHR 0xB9] @ ''691''
         @ [CHR 0x0A] @ ''2. Himalayan Red Rajma '' @ [CHR 0xE2, CHR 0x80, CHR 0x93] @ '' ''
         @ [CHR 0xE2, CHR 0x82, CHR 0xB9] @ ''347 / '' @ [CHR 0xE2, CHR 0x82, CHR 0xB9] @ ''691''
         @ [CHR 0x0A] @ ''3. Badri Cow Ghee '' @ [CHR 0xE2, CHR 0x80, CHR 0x93] @ '' from ''
         @ [CHR 0xE2, CHR 0x82, CHR 0xB9] @ ''450 Onwards.'' @ [CHR 0x0A]
         @ ''4. Himalayan Black Soyabean '' @ [CHR 0xE2, CHR 0x80, CHR 0x93] @ '' ''
         @ [CHR 0xE2, CHR 0x82, CHR 0xB9] @ ''347 / '' @ [CHR 0xE2, CHR 0x82, CHR 0xB9] @ ''691''
         @ [CHR 0x0A] @ ''5. Himalayan Red Rice & Herbs '' @ [CHR 0xE2, CHR 0x80, CHR 0x93] @ '' from ''
         @ [CHR 0xE2, CHR 0x82, CHR 0xB9] @ ''347'',
       intents = [''Buy Products'', ''Customer Reviews'', ''Main Menu'']\<rparr>),
    (''back2 shop & explore'',
      \<lparr>answer =
         ''Amazing choice! Here are our most loved products:'' @ [CHR 0x0A]
         @ ''1. Himalayan White Rajma '' @ [CHR 0xE2, CHR 0x80, CHR 0x93] @ '' ''
         @ [CHR 0xE2, CHR 0x82, CHR 0xB9] @ ''347 / '' @ [CHR 0xE2, CHR 0x82, CHR 0xB9] @ ''691''
         @ [CHR 0x0A] @ ''2. Himalayan Red Rajma '' @ [CHR 0xE2, CHR 0x80, CHR 0x93] @ '' ''
         @ [CHR 0xE2, CHR 0x82, CHR 0xB9] @ ''347 / '' @ [CHR 0xE2, CHR 0x82, CHR 0xB9] @ ''691''
         @ [CHR 0x0A] @ ''3. Badri Cow Ghee '' @ [CHR 0xE2, CHR 0x80, CHR 0x93] @ '' from ''
         @ [CHR 0xE2, CHR 0x82, CHR 0xB9] @ ''450 Onwards.'' @ [CHR 0x0A]
         @ ''4. Himalayan Black Soyabean '' @ [CHR 0xE2, CHR 0x80, CHR 0x93] @ '' ''
         @ [CHR 0xE2, CHR 0x82, CHR 0xB9] @ ''347 / '' @ [CHR 0xE2, CHR 0x82, CHR 0xB9] @ ''691''
         @ [CHR 0x0A] @ ''5. Himalayan Red Rice & Herbs '' @ [CHR 0xE2, CHR 0x80, CHR 0x93] @ '' from ''
         @ [CHR 0xE2, CHR 0x82, CHR 0xB9] @ ''347'',
       intents = [''Buy Products'', ''Customer Reviews'', ''Main Menu'']\<rparr>),
    (''buy products'',
      \<lparr>answer =
         ''Amazing choice! Here are our most loved products:'' @ [CHR 0x0A]
         @ ''1. Himalayan White Rajma '' @ [CHR 0xE2, CHR 0x80, CHR 0x93] @ '' ''
         @ [CHR 0xE2, CHR 0x82, CHR 0xB9] @ ''347 / '' @ [CHR 0xE2, CHR 0x82, CHR 0xB9] @ ''691''
         @ [CHR 0x0A] @ ''2. Himalayan Red Rajma '' @ [CHR 0xE2, CHR 0x80, CHR 0x93] @ '' ''
         @ [CHR 0xE2, CHR 0x82, CHR 0xB9] @ ''347 / '' @ [CHR 0xE2, CHR 0x82, CHR 0xB9] @ ''691''
         @ [CHR 0x0A] @ ''3. Badri Cow Ghee '' @ [CHR 0xE2, CHR 0x80, CHR 0x93] @ '' from ''
         @ [CHR 0xE2, CHR 0x82, CHR 0xB9] @ ''450 Onwards.'' @ [CHR 0x0A]
         @ ''4. Himalayan Black Soyabean '' @ [CHR 0xE2, CHR 0x80, CHR 0x93] @ '' ''
         @ [CHR 0xE2, CHR 0x82, CHR 0xB9] @ ''347 / '' @ [CHR 0xE2, CHR 0x82, CHR 0xB9] @ ''691''
         @ [CHR 0x0A] @ ''5. Himalayan Red Rice & Herbs '' @ [CHR 0xE2, CHR 0x80, CHR 0x93] @ '' from ''
         @ [CHR 0xE2, CHR 0x82, CHR 0xB9] @ ''347'',
       intents = [''View Products'', ''Back2 Shop & Explore'']\<rparr>),
    (''customer reviews'',
      \<lparr>answer =
         ''Don'' @ [CHR 0xE2, CHR 0x80, CHR 0x99] @ ''t just take our word for it ''
         @ [CHR 0xF0, CHR 0x9F, CHR 0x92, CHR 0xAC, CHR 0x0A] @ ''Here'' @ [CHR 0xE2, CHR 0x80, CHR 0x99]
         @ ''s what conscious buyers like you are saying ''
         @ [CHR 0xF0, CHR 0x9F, CHR 0x91, CHR 0x87, CHR 0x0A]
         @ ''Website and amazon review: https://orangutanorganics.net/reviews '' @ [CHR 0x0A]
         @ ''Instagram love: https://www.instagram.com/p/DOIOa4rkv5C/'',
       intents = [''View Products'', ''Back2 Shop & Explore'']\<rparr>),
    (''track your order'',
      \<lparr>answer =
         ''Please type your 14 digit AWB in chat'',
       intents = []\<rparr>),
    (''our story'',
      \<lparr>answer =
         ''We'' @ [CHR 0xE2, CHR 0x80, CHR 0x99] @ ''re not just a brand ''
         @ [CHR 0xE2, CHR 0x80, CHR 0x94] @ '' we'' @ [CHR 0xE2, CHR 0x80, CHR 0x99]
         @ ''re Forest People. Here'' @ [CHR 0xE2, CHR 0x80, CHR 0x99] @ ''s what sets us apart.'',
       intents = [''Where We'' @ [CHR 0xE2, CHR 0x80, CHR 0x99] @ ''re From'', ''Why It Matters'', ''Trace Your Products'']\<rparr>),
    (''buy later'',
      \<lparr>answer =
         ''Still thinking? No rush'' @ [CHR 0xE2, CHR 0x80, CHR 0xA6]
         @ '' but our small-batch treasures don'' @ [CHR 0xE2, CHR 0x80, CHR 0x99]
         @ ''t hang around for long '' @ [CHR 0xE2, CHR 0x9C, CHR 0xA8]
         @ '', ust share your name & email so we can send you exclusive Himalayan food tips, recipes & offers ''
         @ [CHR 0xF0, CHR 0x9F, CHR 0x8C, CHR 0xB1, CHR 0xE2, CHR 0x9C, CHR 0xA8],
       intents = []\<rparr>)
  ]"

text \<open>The loop \<^verbatim>\<open>for (let [key, value] of intentBasedQA.entries())\<close> of \<^verbatim>\<open>findIntentBasedResponse\<close>.\<close>

fun partialMatch :: "qa_table \<Rightarrow> string \<Rightarrow> intent_response option" where
  "partialMatch [] normalizedMessage = None"
| "partialMatch ((key, v) # rest) normalizedMessage =
     (if str_includes normalizedMessage key \<or> str_includes key normalizedMessage then Some v
      else partialMatch rest normalizedMessage)"

definition findIntentBasedResponse :: "qa_table \<Rightarrow> string \<Rightarrow> intent_response option" where
  "findIntentBasedResponse tbl userMessage =
     (let normalizedMessage = trim (toLowerCase userMessage) in
      case map_of tbl normalizedMessage of
        Some v \<Rightarrow> Some v
      | None \<Rightarrow>
          (case partialMatch tbl normalizedMessage of
             Some v \<Rightarrow> Some v
           | None \<Rightarrow>
               if str_includes normalizedMessage ''trace'' \<or> str_includes normalizedMessage ''track''
                  \<or> str_includes normalizedMessage ''origin'' \<or> str_includes normalizedMessage ''source''
               then map_of tbl ''trace your products''
               else None))"

subsection \<open>Product metadata\<close>

text \<open>The two tables \<^verbatim>\<open>getProductName\<close> and \<^verbatim>\<open>getProductWeight\<close>: plain objects, read with \<open>lookup\<close>.\<close>

definition getProductName :: "string \<rightharpoonup> string" where
  "getProductName = map_of
     [(''43mypu8dye'', ''Himalayan badri cow ghee 120gm''),
      (''l722c63kq9'', ''Himalayan badri cow ghee 295gm''),
      (''kkii6r9uvh'', ''Himalayan badri cow ghee 495gm''),
      (''m519x5gv9s'', ''Himalayan White Rajma 500gm''),
      (''294l11gpcm'', ''Himalayan White Rajma 1kg''),
      (''ezg1lu6edm'', ''Himalayan Red Rajma 500gm''),
      (''tzz72lpzz2'', ''Himalayan Red Rajma 1kg''),
      (''esltl7pftq'', ''Wild Himalayan Tempering Spice''),
      (''obdqyehm1w'', ''Himalayan Red Rice'')]"

definition getProductWeight :: "string \<rightharpoonup> number" where
  "getProductWeight = map_of
     [(''43mypu8dye'', Num 120), (''l722c63kq9'', Num 295), (''kkii6r9uvh'', Num 495),
      (''m519x5gv9s'', Num 500), (''294l11gpcm'', Num 1000), (''ezg1lu6edm'', Num 500),
      (''tzz72lpzz2'', Num 1000), (''esltl7pftq'', Num 100), (''obdqyehm1w'', Num 1000)]"

subsection \<open>Inbound messages\<close>

text \<open>
  One element of \<^verbatim>\<open>product_items\<close> of a catalog order, as WhatsApp sends it: the retailer
  id, and \<^verbatim>\<open>quantity\<close> and \<^verbatim>\<open>item_price\<close>, two JSON numbers. The fields \<^verbatim>\<open>retailer_id\<close>, \<^verbatim>\<open>id\<close>,
  \<^verbatim>\<open>name\<close>, \<^verbatim>\<open>price\<close>, \<^verbatim>\<open>qty\<close> and \<^verbatim>\<open>quantity_ordered\<close>, which
  \<^verbatim>\<open>sendWhatsAppOrderDetails\<close> reads as fall-backs, are not part of that payload.
\<close>

record product_item =
  product_retailer_id :: string
  quantity :: number
  item_price :: number

record order_payload =
  catalog_id :: "string option"
  product_items :: "product_item list"

text \<open>
  \<^verbatim>\<open>customerData\<close>, the parsed \<^verbatim>\<open>response_json\<close> of a delivery-details form. Each field is a
  string or missing.
\<close>

record customer =
  c_flow_token :: "string option"
  c_payment_mode :: "string option"
  c_name :: "string option"
  c_phone :: "string option"
  c_email :: "string option"
  c_address1 :: "string option"
  c_address2 :: "string option"
  c_pincode :: "string option"
  c_pin :: "string option"
  c_city :: "string option"
  c_state :: "string option"

text \<open>
  The message \<^verbatim>\<open>req.body.entry[0].changes[0].value.messages[0]\<close>, by its \<^verbatim>\<open>type\<close>. The
  payload that belongs to the type is present (a text has its body, a button reply its
  title); \<^verbatim>\<open>JSON.parse\<close> of a form reply may still give \<^verbatim>\<open>null\<close>, which is \<open>None\<close> here.
\<close>

datatype msg_content =
    TextMsg string
  | ButtonReply string
  | ListReply string
  | NfmReply "customer option"
  | InteractiveOther
  | OrderMsg order_payload
  | ButtonMsg string
  | OtherMsg

record message =
  msg_from :: string
  content :: msg_content

subsection \<open>Sessions and the process state\<close>

text \<open>
  \<^verbatim>\<open>orderSessions\<close> holds two shapes of object in one table: under a phone number the pending
  catalog selection (\<^verbatim>\<open>catalogId\<close>, \<^verbatim>\<open>productItems\<close>, \<^verbatim>\<open>amount\<close>), under an order id the
  session of one order. A field that the object does not have is \<open>None\<close>; a missing
  \<^verbatim>\<open>productItems\<close> is \<open>[]\<close> and a missing \<^verbatim>\<open>amount\<close> is \<^verbatim>\<open>NaN\<close>, which every use in the program
  (\<^verbatim>\<open>|| []\<close>, \<^verbatim>\<open>|| 0\<close>, \<^verbatim>\<open>/ 100\<close>) treats as it treats \<^verbatim>\<open>undefined\<close>.
\<close>

record session =
  orderId :: "string option"
  phone :: "string option"
  customer :: "customer option"
  step :: "nat option"
  catalogId :: "string option"
  productItems :: "product_item list"
  amount :: number
  cod_error :: "bool option"
  payment_mode :: "string option"
  shipping_charge :: "number option"
  payment_status :: "payment_state option"

text \<open>An object with none of these fields: \<^verbatim>\<open>{}\<close>, and what a member of \<^verbatim>\<open>Object.prototype\<close> is when read as a session.\<close>

definition blank_session :: session where
  "blank_session =
     \<lparr>orderId = None, phone = None, customer = None, step = None, catalogId = None,
      productItems = [], amount = NaN, cod_error = None, payment_mode = None,
      shipping_charge = None, payment_status = None\<rparr>"

text \<open>
  A pending timer of the runtime: \<^verbatim>\<open>setTimeout\<close> returns its handle, \<^verbatim>\<open>clearTimeout\<close>
  removes it, and the event loop runs its callback once the clock has reached \<open>timer_due\<close>.
\<close>

record timer =
  timer_id :: nat
  timer_phone :: string
  timer_due :: nat

record state =
  orderSessions :: "string \<rightharpoonup> session"
  phoneToOrderIds :: "string \<rightharpoonup> string list"
  idleTimers :: "string \<rightharpoonup> nat"
  remindedUsers :: "string set"
  completedUsers :: "string set"
  intentBasedQA :: qa_table
  timers :: "timer list"
  next_timer :: nat
  prototype :: object_prototype

definition init_state :: state where
  "init_state =
     \<lparr>orderSessions = Map.empty, phoneToOrderIds = Map.empty, idleTimers = Map.empty,
      remindedUsers = {}, completedUsers = {}, intentBasedQA = [], timers = [], next_timer = 0,
      prototype = \<lparr>added_payment_status = None, added_shipping_charge = None\<rparr>\<rparr>"

subsection \<open>The gateways\<close>

text \<open>
  What the remote services answer is input to a handler. \<^verbatim>\<open>getDelhiveryCharges\<close> throws or
  returns \<^verbatim>\<open>res.data\<close>: a falsy body, an array of quotes (each with its \<^verbatim>\<open>total_amount\<close>, a
  JSON number, or without one) or another object (with or without a \<^verbatim>\<open>total_amount\<close>).
  \<^verbatim>\<open>createDelhiveryShipment\<close> throws or returns \<^verbatim>\<open>res.data\<close>: \<open>None\<close> for an empty body
  (\<^verbatim>\<open>null\<close>), else whether its \<^verbatim>\<open>success\<close> field is truthy. \<^verbatim>\<open>askGemini\<close> throws (\<open>None\<close>) or
  returns a text.
\<close>

datatype charges_data = RespFalsy | RespArray "number option list" | RespObject "number option"

datatype charges_outcome = ChargesThrow | ChargesReturn charges_data

datatype shipment_outcome = ShipmentThrow | ShipmentReturn "bool option"

text \<open>
  The inputs of one handler run: the clock (\<^verbatim>\<open>Date.now()\<close>, in milliseconds), the five digits
  that \<^verbatim>\<open>new ShortUniqueId({ length: 5, dictionary: 'number' }).randomUUID()\<close> draws, the
  answers of the gateways, and the configuration.
\<close>

record env =
  now :: nat
  uid :: string
  chargesResp :: charges_outcome
  delhiveryResp :: shipment_outcome
  orderDetailsPosted :: bool
  PAYMENT_CONFIGURATION_NAME :: "string option"
  customerSheetAppended :: bool
  geminiAnswer :: "string option"

subsection \<open>Outbound calls\<close>

text \<open>
  The texts the bot sends, by template; a template's parameters are kept as values (for an
  amount, the number whose \<^verbatim>\<open>toFixed(2)\<close> the text shows). \<open>Plain\<close> carries a text taken from
  data: an answer of the intent table or of the AI responder, or the empty \<^verbatim>\<open>replyText\<close>. A
  recipient that is \<^verbatim>\<open>undefined\<close> stands as the empty string.
\<close>

datatype text_msg =
    Plain string
  | ThanksReceived string
  | CodOrderPlaced number
  | InvalidFlowData
  | PleaseReviewAndPay string
  | CouldNotInitiatePayment
  | PleaseProvideDetails
  | ThanksSaved
  | IdleReminder
  | HowAreYouReply
  | FineReply
  | ThanksReply
  | PraiseReply
  | AiDefaultReply
  | AiErrorReply
  | PaymentSuccessful
  | ShipmentCreated
  | ShipmentFailed
  | PaymentFailed

record charges_request =
  dest_pin :: string
  cgm :: number
  pt :: string

datatype weight_field = Weight number | WeightBlank

record shipment =
  sh_name :: string
  sh_add :: string
  sh_pin :: string
  sh_city :: string
  sh_state :: string
  sh_phone :: string
  sh_order :: string
  sh_payment_mode :: string
  products_desc :: string
  cod_amount :: string
  total_amount :: string
  weight :: weight_field

text \<open>
  A row of the order sheet. The three amounts are the numbers whose \<^verbatim>\<open>toFixed(2)\<close> the row
  shows (\<open>None\<close> for an empty cell).
\<close>

record sheet_row =
  row_name :: string
  row_phone :: string
  row_email :: string
  row_address :: string
  row_pincode :: string
  row_items :: "product_item list"
  row_mode :: string
  row_status :: string
  row_amount :: number
  row_shipping :: "number option"
  row_cod :: "number option"
  row_orderId :: "string option"

text \<open>
  An item of the \<^verbatim>\<open>order_details\<close> message. Its \<^verbatim>\<open>name\<close> is whatever
  \<^verbatim>\<open>getProductName[retailer_id] || 'Item'\<close> gives, which need not be a string.
\<close>

record order_item =
  oi_retailer_id :: string
  oi_name :: "string property"
  oi_amount :: number
  oi_quantity :: number

record order_details =
  od_reference_id :: "string option"
  od_total :: number
  od_subtotal :: number
  od_shipping :: number
  od_items :: "order_item list"

record button =
  button_id :: string
  button_title :: string

text \<open>
  A call the handler issues, in the order issued, whether or not the remote side accepts it.
  The prompt of \<^verbatim>\<open>askGemini\<close>, which quotes the message, is not kept.
\<close>

datatype effect =
    SendWhatsAppText string text_msg
  | SendWhatsAppInteractiveMessage string text_msg "button list"
  | SendWhatsAppList string
  | SendWhatsAppList_ss string
  | SendWhatsAppList_ni string
  | SendWhatsAppCatalog string
  | SendWhatsAppTemplate string
  | SendWhatsAppFlow string
  | SendWhatsAppTrackingCTA string string
  | SendWhatsAppOrderDetails string order_details
  | GetDelhiveryCharges charges_request
  | CreateDelhiveryShipment shipment
  | AppendToSheet sheet_row
  | AppendCustomerToSheet string
  | AskGemini

datatype js_error = TypeError | GatewayError

text \<open>
  How a run of an \<^verbatim>\<open>async\<close> route handler ends: with \<^verbatim>\<open>res.sendStatus(n)\<close>, or with an
  exception that leaves the handler, which then sends nothing (Express 4 leaves the request
  unanswered; Express 5 would answer 500 from its error handler).
\<close>

datatype response = Status nat | Unacknowledged js_error

text \<open>The arm of the handler that ran; a label of the embedding, not a value of the program.\<close>

datatype branch =
    NoMessage
  | FlowSubmission
  | MainMenu
  | IntentTable
  | AwbRegex
  | Greeting
  | SourcingStory
  | NutritionInfo
  | ViewProducts
  | HaveAQuery
  | HowAreYou
  | Fine
  | Thanks
  | Praise
  | CatalogOrder
  | ReminderFollowup
  | AiFallback
  | PaymentWebhook

record outcome =
  st_after :: state
  effects :: "effect list"
  response :: response
  branch :: branch

section \<open>The idle timer\<close>

text \<open>
  \<^verbatim>\<open>clearTimeout(h)\<close> and \<^verbatim>\<open>setTimeout(callback, delay)\<close> of the runtime, on its list of
  pending timers. A handle is never reused.
\<close>

definition clearTimeout :: "nat \<Rightarrow> state \<Rightarrow> state" where
  "clearTimeout h st = st\<lparr>timers := filter (\<lambda>t. timer_id t \<noteq> h) (timers st)\<rparr>"

definition setTimeout :: "string \<Rightarrow> nat \<Rightarrow> state \<Rightarrow> nat \<times> state" where
  "setTimeout from due st =
     (next_timer st,
      st\<lparr>timers := timers st @ [\<lparr>timer_id = next_timer st, timer_phone = from, timer_due = due\<rparr>],
         next_timer := Suc (next_timer st)\<rparr>)"

definition idle_delay :: nat where
  "idle_delay = 30 * 60 * 1000"

text \<open>
  Lines 1224-1237 of \<^verbatim>\<open>app.post('/')\<close>:
  \<^verbatim>\<open>if (!completedUsers.has(from)) { if (idleTimers[from]) clearTimeout(idleTimers[from]);
  idleTimers[from] = setTimeout(..., 30 * 60 * 1000); }\<close>
\<close>

definition rearm_idle_timer :: "env \<Rightarrow> string \<Rightarrow> state \<Rightarrow> state" where
  "rearm_idle_timer e from st =
     (if from \<in> completedUsers st then st
      else
        let st1 = (case idleTimers st from of None \<Rightarrow> st | Some h \<Rightarrow> clearTimeout h st);
            (h, st2) = setTimeout from (now e + idle_delay) st1
        in st2\<lparr>idleTimers := (idleTimers st2)(from \<mapsto> h)\<rparr>)"

text \<open>
  The callback of the timer: \<^verbatim>\<open>if (!completedUsers.has(from)) { await sendWhatsAppText(from,
  "Still thinking? ..."); remindedUsers.add(from); }\<close>, taken as one step.
\<close>

definition idle_callback :: "string \<Rightarrow> state \<Rightarrow> state \<times> effect list" where
  "idle_callback from st =
     (if from \<in> completedUsers st then (st, [])
      else (st\<lparr>remindedUsers := insert from (remindedUsers st)\<rparr>,
            [SendWhatsAppText from IdleReminder]))"

fun fire_all :: "timer list \<Rightarrow> state \<Rightarrow> state \<times> effect list" where
  "fire_all [] st = (st, [])"
| "fire_all (t # ts) st =
     (let (st1, out1) = idle_callback (timer_phone t) st;
          (st2, out2) = fire_all ts st1
      in (st2, out1 @ out2))"

text \<open>The clock reaches \<open>T\<close>: every pending timer that is due by then fires and leaves the list.\<close>

definition advance_clock :: "nat \<Rightarrow> state \<Rightarrow> state \<times> effect list" where
  "advance_clock T st =
     fire_all (filter (\<lambda>t. timer_due t \<le> T) (timers st))
       (st\<lparr>timers := filter (\<lambda>t. T < timer_due t) (timers st)\<rparr>)"

section \<open>The messaging webhook \<^verbatim>\<open>app.post('/')\<close>\<close>

subsection \<open>Catalog order\<close>

text \<open>
  The loop of lines 1605-1610:
  \<^verbatim>\<open>const priceRupees = parseFloat(item.item_price) || 0;
  const qty = parseInt(item.quantity, 10) || 1;
  totalAmount += priceRupees * 100 * qty;\<close>
\<close>

fun totalAmount :: "product_item list \<Rightarrow> number \<Rightarrow> number" where
  "totalAmount [] acc = acc"
| "totalAmount (item # rest) acc =
     (let priceRupees = or_number (item_price item) (Num 0);
          qty = or_number (parseInt_number (quantity item)) (Num 1)
      in totalAmount rest (js_add acc (js_mul (js_mul priceRupees (Num 100)) qty)))"

text \<open>
  Lines 1601-1612. \<^verbatim>\<open>from\<close> holds digits only, so \<^verbatim>\<open>orderSessions[from]\<close> finds what is stored
  under it and nothing else.
\<close>

definition catalog_order :: "string \<Rightarrow> order_payload option \<Rightarrow> state \<Rightarrow> state" where
  "catalog_order from ord st =
     (let phoneKeySession = (case orderSessions st from of None \<Rightarrow> blank_session | Some s \<Rightarrow> s);
          items = (case ord of None \<Rightarrow> [] | Some d \<Rightarrow> product_items d);
          phoneKeySession' = phoneKeySession
            \<lparr>catalogId := (case ord of None \<Rightarrow> None | Some d \<Rightarrow> catalog_id d),
             productItems := items,
             amount := totalAmount items (Num 0)\<rparr>
      in st\<lparr>orderSessions := (orderSessions st)(from \<mapsto> phoneKeySession')\<rparr>)"

subsection \<open>Delivery-details submission\<close>

definition is_cod_mode :: "string \<Rightarrow> bool" where
  "is_cod_mode paymentMode =
     (paymentMode = ''cod'' \<or> paymentMode = ''cash on delivery'' \<or> paymentMode = ''cash-on-delivery'')"

text \<open>
  \<^verbatim>\<open>total_wgt += getProductWeight[id] * quantity\<close>: an unknown id gives \<^verbatim>\<open>undefined * n\<close>,
  which is \<^verbatim>\<open>NaN\<close> and stays so.
\<close>

fun cod_total_wgt :: "object_prototype \<Rightarrow> product_item list \<Rightarrow> number \<Rightarrow> number" where
  "cod_total_wgt proto [] total_wgt = total_wgt"
| "cod_total_wgt proto (item # rest) total_wgt =
     cod_total_wgt proto rest
       (js_add total_wgt
          (js_mul (Number_property (lookup proto getProductWeight (product_retailer_id item)))
             (quantity item)))"

text \<open>\<^verbatim>\<open>final_product_name += getProductName[id] + "(" + quantity + ")" + "\n"\<close>\<close>

fun cod_product_names :: "object_prototype \<Rightarrow> product_item list \<Rightarrow> string" where
  "cod_product_names proto [] = []"
| "cod_product_names proto (item # rest) =
     String_property (lookup proto getProductName (product_retailer_id item))
     @ ''('' @ String_number (quantity item) @ '')'' @ [CHR 0x0A] @ cod_product_names proto rest"

text \<open>
  Lines 1353-1376: the shipping charge in paise and the flag \<^verbatim>\<open>session.cod_error\<close>, which
  line 1339 has set to \<^verbatim>\<open>true\<close>. \<^verbatim>\<open>chargesResp[0].total_amount\<close> on an empty array or on an
  object that is no array is a \<^verbatim>\<open>TypeError\<close>, caught by the same \<^verbatim>\<open>catch\<close> as a failed call.
\<close>

definition cod_quote :: "charges_outcome \<Rightarrow> number \<times> bool" where
  "cod_quote r =
     (case r of
        ChargesThrow \<Rightarrow> (Num 0, False)
      | ChargesReturn RespFalsy \<Rightarrow> (Num 0, True)
      | ChargesReturn (RespObject t) \<Rightarrow> (Num 0, False)
      | ChargesReturn (RespArray []) \<Rightarrow> (Num 0, False)
      | ChargesReturn (RespArray (None # qs)) \<Rightarrow> (Num 0, False)
      | ChargesReturn (RespArray (Some match # qs)) \<Rightarrow>
          if truthy_number match then (Math_round (js_mul match (Num 100)), True)
          else (Num 0, False))"

definition address_line :: "customer \<Rightarrow> string" where
  "address_line c = trim (or_str (c_address1 c) '''' @ '' '' @ or_str (c_address2 c) '''')"

text \<open>
  Lines 1321-1328 and 1334: the session of the new order takes the pending selection of
  the phone, \<^verbatim>\<open>(orderSessions[from]?.amount) || 0\<close>.
\<close>

definition new_session :: "string \<Rightarrow> string \<Rightarrow> customer option \<Rightarrow> session option \<Rightarrow> session" where
  "new_session oid from customerData pending =
     \<lparr>orderId = Some oid, phone = Some from, customer = customerData, step = Some 4,
      catalogId = None,
      productItems = (case pending of None \<Rightarrow> [] | Some p \<Rightarrow> productItems p),
      amount = (case pending of None \<Rightarrow> Num 0 | Some p \<Rightarrow> or_number (amount p) (Num 0)),
      cod_error = None, payment_mode = None, shipping_charge = None, payment_status = None\<rparr>"

text \<open>\<^verbatim>\<open>`Order_${session.orderId || Date.now()}`\<close>\<close>

definition order_label :: "env \<Rightarrow> session \<Rightarrow> string" where
  "order_label e s = ''Order_'' @ or_str (orderId s) (String_digits (int (now e)))"

definition cod_shipment :: "env \<Rightarrow> string \<Rightarrow> customer \<Rightarrow> session \<Rightarrow> number \<Rightarrow> string \<Rightarrow> shipment" where
  "cod_shipment e from customerData s total_wgt final_product_name =
     \<lparr>sh_name = or_str (c_name customerData) ''Customer'',
      sh_add = address_line customerData,
      sh_pin = or_str (c_pincode customerData) (or_str (c_pin customerData) ''''),
      sh_city = '''',
      sh_state = '''',
      sh_phone = or_str (c_phone customerData) from,
      sh_order = order_label e s,
      sh_payment_mode = ''COD'',
      products_desc = final_product_name,
      cod_amount = String_number (Math_round (js_div (amount s) 100)),
      total_amount = String_number (Math_round (js_div (amount s) 100)),
      weight = Weight total_wgt\<rparr>"

definition cod_row :: "string \<Rightarrow> customer \<Rightarrow> session \<Rightarrow> number \<Rightarrow> sheet_row" where
  "cod_row from customerData s codChargePaise =
     \<lparr>row_name = or_str (c_name customerData) '''',
      row_phone = or_str (c_phone customerData) from,
      row_email = or_str (c_email customerData) '''',
      row_address = address_line customerData,
      row_pincode = or_str (c_pincode customerData) '''',
      row_items = productItems s,
      row_mode = ''COD'',
      row_status = ''Pending'',
      row_amount = js_div (amount s) 100,
      row_shipping = map_option (\<lambda>c. js_div c 100) (shipping_charge s),
      row_cod = Some (js_div codChargePaise 100),
      row_orderId = None\<rparr>"

text \<open>
  Lines 1338-1451, after the session was stored and the receipt text sent (\<open>sent\<close>). Line
  1379 is \<^verbatim>\<open>session.amount = (session.amount || 0) + codChargePaise + shippingChargePaise\<close>.
\<close>

definition cod_branch ::
  "env \<Rightarrow> string \<Rightarrow> customer \<Rightarrow> string \<Rightarrow> session \<Rightarrow> state \<Rightarrow> effect list \<Rightarrow> outcome" where
  "cod_branch e from customerData oid s0 st sent =
     (let codChargePaise = Num (150 * 100);
          product_data = productItems s0;
          total_wgt = cod_total_wgt (prototype st) product_data (Num 0);
          final_product_name =
            cod_product_names (prototype st) product_data @ ''+ COD charge 150 + shipping charge'';
          quote_call = GetDelhiveryCharges
            \<lparr>dest_pin = or_str (c_pincode customerData) (or_str (c_pin customerData) ''''),
             cgm = total_wgt, pt = ''COD''\<rparr>;
          (shippingChargePaise, flag) = cod_quote (chargesResp e);
          s = s0\<lparr>cod_error := Some flag,
                 amount := js_add (js_add (or_number (amount s0) (Num 0)) codChargePaise)
                             shippingChargePaise,
                 payment_mode := Some ''COD'',
                 shipping_charge := Some shippingChargePaise\<rparr>;
          st1 = st\<lparr>orderSessions := (orderSessions st)(oid \<mapsto> s)\<rparr>;
          calls = sent @ [quote_call,
                    CreateDelhiveryShipment
                      (cod_shipment e from customerData s total_wgt final_product_name)]
      in case delhiveryResp e of
           ShipmentThrow \<Rightarrow>
             \<lparr>st_after = st1, effects = calls, response = Unacknowledged GatewayError,
              branch = FlowSubmission\<rparr>
         | ShipmentReturn None \<Rightarrow>
             \<lparr>st_after = st1, effects = calls, response = Unacknowledged TypeError,
              branch = FlowSubmission\<rparr>
         | ShipmentReturn (Some success) \<Rightarrow>
             if success \<and> flag
             then \<lparr>st_after = st1,
                   effects = calls @ [AppendToSheet (cod_row from customerData s codChargePaise),
                                      SendWhatsAppText from (CodOrderPlaced (js_div (amount s) 100))],
                   response = Status 200, branch = FlowSubmission\<rparr>
             else \<lparr>st_after = st1,
                   effects = calls @ [SendWhatsAppText from InvalidFlowData],
                   response = Status 200, branch = FlowSubmission\<rparr>)"

subsection \<open>Prepaid: \<^verbatim>\<open>sendWhatsAppOrderDetails\<close>\<close>

text \<open>
  The quote of the two prepaid paths (lines 960-977 and 1054-1071): the first element of an
  array, or the \<^verbatim>\<open>total_amount\<close> of an object; anything else, a failed call included, is 0.
\<close>

definition prepaid_quote :: "charges_outcome \<Rightarrow> number" where
  "prepaid_quote r =
     (case r of
        ChargesThrow \<Rightarrow> Num 0
      | ChargesReturn RespFalsy \<Rightarrow> Num 0
      | ChargesReturn (RespArray []) \<Rightarrow> Num 0
      | ChargesReturn (RespArray (None # qs)) \<Rightarrow> Num 0
      | ChargesReturn (RespArray (Some t # qs)) \<Rightarrow>
          if truthy_number t then Math_round (js_mul t (Num 100)) else Num 0
      | ChargesReturn (RespObject None) \<Rightarrow> Num 0
      | ChargesReturn (RespObject (Some t)) \<Rightarrow>
          if truthy_number t then Math_round (js_mul t (Num 100)) else Num 0)"

text \<open>\<^verbatim>\<open>total_wgt += ((getProductWeight[id] || 0) * q)\<close> with \<^verbatim>\<open>q = parseInt(quantity, 10) || 1\<close>.\<close>

fun paid_total_wgt :: "object_prototype \<Rightarrow> product_item list \<Rightarrow> number \<Rightarrow> number" where
  "paid_total_wgt proto [] total_wgt = total_wgt"
| "paid_total_wgt proto (item # rest) total_wgt =
     (let q = or_number (parseInt_number (quantity item)) (Num 1);
          found = lookup proto getProductWeight (product_retailer_id item);
          w = (if truthy_property found then Number_property found else Num 0)
      in paid_total_wgt proto rest (js_add total_wgt (js_mul w q)))"

text \<open>
  Lines 935-948, an item of the order card:
  \<^verbatim>\<open>unitPricePaise = Math.round((parseFloat(it.item_price || it.price || 0) || 0) * 100) || 0\<close>,
  \<^verbatim>\<open>qty = parseInt(it.quantity || it.qty || it.quantity_ordered || 1, 10) || 1\<close> and
  \<^verbatim>\<open>amountValue = unitPricePaise || Math.round((session.amount || 0) / Math.max(1, length))\<close>.
\<close>

definition order_item_of :: "object_prototype \<Rightarrow> session \<Rightarrow> product_item \<Rightarrow> order_item" where
  "order_item_of proto s it =
     (let found = lookup proto getProductName (product_retailer_id it);
          unitPricePaise =
            or_number (Math_round (js_mul (or_number (item_price it) (Num 0)) (Num 100))) (Num 0);
          qty = or_number (parseInt_number (or_number (quantity it) (Num 1))) (Num 1);
          amountValue =
            or_number unitPricePaise
              (Math_round (js_div (or_number (amount s) (Num 0))
                 (of_nat (max 1 (length (productItems s))))))
      in \<lparr>oi_retailer_id = product_retailer_id it,
          oi_name = (if truthy_property found then found else Own ''Item''),
          oi_amount = amountValue,
          oi_quantity = qty\<rparr>)"

definition customer_pin :: "session \<Rightarrow> string" where
  "customer_pin s =
     (case customer s of None \<Rightarrow> '''' | Some c \<Rightarrow> or_str (c_pincode c) (or_str (c_pin c) ''''))"

text \<open>
  \<^verbatim>\<open>sendWhatsAppOrderDetails(to, session)\<close>: the session it leaves, the calls it made, and
  whether it threw (no payment configuration, or the POST failed). Line 952 is
  \<^verbatim>\<open>prod_cost = session.amount || items.reduce((s, it) => s + (it.amount?.value || 0) *
  (it.quantity || 1), 0)\<close>.
\<close>

definition sendWhatsAppOrderDetails ::
  "env \<Rightarrow> object_prototype \<Rightarrow> string \<Rightarrow> session \<Rightarrow> session \<times> effect list \<times> bool" where
  "sendWhatsAppOrderDetails e proto to s =
     (if or_str (PAYMENT_CONFIGURATION_NAME e) '''' = '''' then (s, [], True)
      else
        let items = map (order_item_of proto s) (productItems s);
            prod_cost =
              (if truthy_number (amount s) then amount s
               else foldl (\<lambda>acc it. js_add acc
                       (js_mul (or_number (oi_amount it) (Num 0)) (or_number (oi_quantity it) (Num 1))))
                     (Num 0) items);
            total_wgt = paid_total_wgt proto (productItems s) (Num 0);
            quote_call = GetDelhiveryCharges
              \<lparr>dest_pin = customer_pin s, cgm = total_wgt, pt = ''Pre-paid''\<rparr>;
            shippingChargePaise = prepaid_quote (chargesResp e);
            s1 = s\<lparr>shipping_charge := Some shippingChargePaise\<rparr>;
            details =
              \<lparr>od_reference_id = orderId s1,
               od_total = js_add prod_cost shippingChargePaise,
               od_subtotal = prod_cost,
               od_shipping = Math_round (or_number shippingChargePaise (Num 0)),
               od_items = items\<rparr>
        in (s1, [quote_call, SendWhatsAppOrderDetails to details], \<not> orderDetailsPosted e))"

definition awaiting_row :: "string \<Rightarrow> customer \<Rightarrow> session \<Rightarrow> sheet_row" where
  "awaiting_row from customerData s =
     \<lparr>row_name = or_str (c_name customerData) '''',
      row_phone = or_str (c_phone customerData) from,
      row_email = or_str (c_email customerData) '''',
      row_address = address_line customerData,
      row_pincode = or_str (c_pincode customerData) '''',
      row_items = productItems s,
      row_mode = ''Prepaid'',
      row_status = ''Awaiting Payment'',
      row_amount = js_div (amount s) 100,
      row_shipping = None,
      row_cod = None,
      row_orderId = orderId s\<rparr>"

text \<open>Lines 1452-1496.\<close>

definition prepaid_branch ::
  "env \<Rightarrow> string \<Rightarrow> customer \<Rightarrow> string \<Rightarrow> session \<Rightarrow> state \<Rightarrow> effect list \<Rightarrow> outcome" where
  "prepaid_branch e from customerData oid s0 st sent =
     (let (s, calls, threw) =
            sendWhatsAppOrderDetails e (prototype st) from (s0\<lparr>payment_mode := Some ''Prepaid''\<rparr>);
          st1 = st\<lparr>orderSessions := (orderSessions st)(oid \<mapsto> s)\<rparr>
      in if threw
         then \<lparr>st_after = st1,
               effects = sent @ calls @ [SendWhatsAppText from CouldNotInitiatePayment],
               response = Status 200, branch = FlowSubmission\<rparr>
         else \<lparr>st_after = st1,
               effects = sent @ calls @ [SendWhatsAppText from (PleaseReviewAndPay oid),
                                         AppendToSheet (awaiting_row from customerData s)],
               response = Status 200, branch = FlowSubmission\<rparr>)"

text \<open>
  Lines 1306-1497, the handler of \<^verbatim>\<open>msg.interactive.nfm_reply\<close>. The session is stored
  before \<^verbatim>\<open>customerData.payment_mode\<close> is read, which throws on \<^verbatim>\<open>null\<close>.
\<close>

definition flow_submission :: "env \<Rightarrow> string \<Rightarrow> customer option \<Rightarrow> state \<Rightarrow> outcome" where
  "flow_submission e from customerData st =
     (if (case customerData of None \<Rightarrow> False | Some c \<Rightarrow> c_flow_token c = Some ''test_101'')
      then \<lparr>st_after = st, effects = [], response = Status 200, branch = FlowSubmission\<rparr>
      else
        let oid = ''OUO-'' @ uid e;
            s0 = new_session oid from customerData (orderSessions st from);
            st1 = st\<lparr>orderSessions := (orderSessions st)(oid \<mapsto> s0),
                    phoneToOrderIds := (phoneToOrderIds st)
                      (from \<mapsto> (case phoneToOrderIds st from of None \<Rightarrow> [] | Some ids \<Rightarrow> ids) @ [oid])\<rparr>;
            sent = [SendWhatsAppText from (ThanksReceived oid)]
        in case customerData of
             None \<Rightarrow>
               \<lparr>st_after = st1, effects = sent, response = Unacknowledged TypeError,
                branch = FlowSubmission\<rparr>
           | Some c \<Rightarrow>
               if is_cod_mode (toLowerCase (or_str (c_payment_mode c) ''''))
               then cod_branch e from c oid s0 st1 sent
               else prepaid_branch e from c oid s0 st1 sent)"

subsection \<open>Free text, buttons and catalog orders\<close>

text \<open>
  \<^verbatim>\<open>msgBody\<close> as the \<^verbatim>\<open>if/else\<close> chain sees it (lines 1206-1220 and 1508-1513): a text
  and a button title are lower-cased and trimmed, the title of a list reply is only trimmed.
\<close>

definition msgBody_of :: "msg_content \<Rightarrow> string" where
  "msgBody_of c =
     (case c of
        TextMsg body \<Rightarrow> trim (toLowerCase body)
      | ButtonReply title \<Rightarrow> trim (toLowerCase title)
      | ListReply title \<Rightarrow> trim title
      | NfmReply d \<Rightarrow> ''''
      | InteractiveOther \<Rightarrow> ''''
      | OrderMsg d \<Rightarrow> ''order_received''
      | ButtonMsg t \<Rightarrow> trim (toLowerCase t)
      | OtherMsg \<Rightarrow> '''')"

definition buttons_of :: "string list \<Rightarrow> button list" where
  "buttons_of xs = map (\<lambda>intent. \<lparr>button_id = replaceSpaces False (toLowerCase intent), button_title = intent\<rparr>) xs"

text \<open>Lines 1672-1684: the reply is sent and the webhook acknowledged.\<close>

definition finish ::
  "string \<Rightarrow> state \<Rightarrow> effect list \<Rightarrow> text_msg \<Rightarrow> bool \<Rightarrow> button list \<Rightarrow> branch \<Rightarrow> outcome" where
  "finish from st sent replyText useInteractiveMessage buttons br =
     \<lparr>st_after = st,
      effects = sent @
        [if useInteractiveMessage \<and> buttons \<noteq> []
         then SendWhatsAppInteractiveMessage from replyText buttons
         else SendWhatsAppText from replyText],
      response = Status 200,
      branch = br\<rparr>"

text \<open>
  Lines 1617-1646. \<^verbatim>\<open>msgBody.split(/\s+/)\<close> has two or more parts exactly when the text holds
  a white-space character. The name and the e-mail address that the source cuts out of the
  text are not modelled; \<^verbatim>\<open>appendCustomerToSheet\<close> may throw, which skips the confirmation.
\<close>

definition reminder_followup :: "env \<Rightarrow> string \<Rightarrow> string \<Rightarrow> state \<Rightarrow> outcome" where
  "reminder_followup e from msgBody st =
     (if emailMatch msgBody \<and> hasSpace msgBody
      then
        finish from
          (st\<lparr>remindedUsers := remindedUsers st - {from},
              completedUsers := insert from (completedUsers st)\<rparr>)
          (AppendCustomerToSheet from #
             (if customerSheetAppended e then [SendWhatsAppText from ThanksSaved] else []))
          (Plain '''') False [] ReminderFollowup
      else finish from st [] (Plain '''') False [] ReminderFollowup)"

text \<open>The \<^verbatim>\<open>if/else\<close> chain of lines 1520-1668, in the order of the source.\<close>

definition dispatch :: "env \<Rightarrow> string \<Rightarrow> msg_content \<Rightarrow> state \<Rightarrow> outcome" where
  "dispatch e from c st =
     (let msgBody = msgBody_of c;
          intentResponse = findIntentBasedResponse (intentBasedQA st) msgBody
      in
        if msgBody = ''main menu'' then
          finish from st [SendWhatsAppList from] (Plain '''') False [] MainMenu
        else if msgBody = ''Main Menu'' then
          finish from st [SendWhatsAppList from] (Plain '''') False [] MainMenu
        else if intentResponse \<noteq> None then
          (case intentResponse of
             Some r \<Rightarrow> finish from st [] (Plain (answer r)) (intents r \<noteq> []) (buttons_of (intents r)) IntentTable
           | None \<Rightarrow> finish from st [] (Plain '''') False [] IntentTable)
        else if awbMatch msgBody \<noteq> None then
          (case awbMatch msgBody of
             Some awb \<Rightarrow> finish from st [SendWhatsAppTrackingCTA from awb] (Plain '''') False [] AwbRegex
           | None \<Rightarrow> finish from st [] (Plain '''') False [] AwbRegex)
        else if msgBody = ''hi'' \<or> msgBody = ''hello'' \<or> msgBody = ''hey'' then
          finish from st [SendWhatsAppList from] (Plain '''') False [] Greeting
        else if str_includes (toLowerCase msgBody) ''sourcing story''
                \<or> str_includes (toLowerCase msgBody) ''back2 sourcing story'' then
          finish from st [SendWhatsAppList_ss from] (Plain '''') False [] SourcingStory
        else if str_includes (toLowerCase msgBody) ''nutrition info''
                \<or> str_includes (toLowerCase msgBody) ''back 2 nutri info'' then
          finish from st [SendWhatsAppList_ni from] (Plain '''') False [] NutritionInfo
        else if str_includes (toLowerCase msgBody) ''view products'' then
          finish from st [SendWhatsAppCatalog from] (Plain '''') False [] ViewProducts
        else if str_includes (toLowerCase msgBody) ''have a query'' then
          finish from st [SendWhatsAppTemplate from] (Plain '''') True [] HaveAQuery
        else if str_includes msgBody ''how are you'' then
          finish from st [] HowAreYouReply False [] HowAreYou
        else if msgBody = ''fine'' then
          finish from st [] FineReply False [] Fine
        else if str_includes msgBody ''thank you'' \<or> str_includes msgBody ''thanks'' then
          finish from st [] ThanksReply False [] Thanks
        else if str_includes msgBody ''awesome'' \<or> str_includes msgBody ''amazing''
                \<or> str_includes msgBody ''great'' then
          finish from st [] PraiseReply False [] Praise
        else if (case c of OrderMsg d \<Rightarrow> True | _ \<Rightarrow> False) \<or> msgBody = ''order_received'' then
          finish from
            (catalog_order from (case c of OrderMsg d \<Rightarrow> Some d | _ \<Rightarrow> None) st)
            [SendWhatsAppFlow from, SendWhatsAppText from PleaseProvideDetails]
            (Plain '''') False [] CatalogOrder
        else if from \<in> remindedUsers st \<and> from \<notin> completedUsers st then
          reminder_followup e from msgBody st
        else
          finish from st [AskGemini]
            (case geminiAnswer e of
               None \<Rightarrow> AiErrorReply
             | Some reply \<Rightarrow> if reply = [] then AiDefaultReply else Plain reply)
            False [] AiFallback)"

text \<open>Line 1202: \<^verbatim>\<open>if (!phoneToOrderIds[from]) phoneToOrderIds[from] = [];\<close>\<close>

definition ensure_order_list :: "string \<Rightarrow> state \<Rightarrow> state" where
  "ensure_order_list from st =
     (case phoneToOrderIds st from of
        None \<Rightarrow> st\<lparr>phoneToOrderIds := (phoneToOrderIds st)(from \<mapsto> [])\<rparr>
      | Some ids \<Rightarrow> st)"

text \<open>
  \<^verbatim>\<open>app.post('/')\<close>: no message is acknowledged at once; else the list of order ids of the
  sender is created if missing, the idle timer re-armed, and the message handled.
\<close>

definition post_root :: "env \<Rightarrow> state \<Rightarrow> message option \<Rightarrow> outcome" where
  "post_root e st req =
     (case req of
        None \<Rightarrow> \<lparr>st_after = st, effects = [], response = Status 200, branch = NoMessage\<rparr>
      | Some msg \<Rightarrow>
          let from = normalizePhone (msg_from msg);
              st2 = rearm_idle_timer e from (ensure_order_list from st)
          in case content msg of
               NfmReply customerData \<Rightarrow> flow_submission e from customerData st2
             | c \<Rightarrow> dispatch e from c st2)"

section \<open>The payments webhook \<^verbatim>\<open>app.post('/payments-webhook')\<close>\<close>

record payment_entity =
  reference_id :: "string option"
  notes_orderId :: "string option"
  contact :: "string option"

record payment_link_entity =
  link_reference_id :: "string option"
  customer_contact :: "string option"

record webhook_payload =
  payment :: "payment_entity option"
  payment_link :: "payment_link_entity option"

record webhook_body =
  event :: "string option"
  payload :: "webhook_payload option"

definition truthy :: "string option \<Rightarrow> bool" where
  "truthy a = (case a of None \<Rightarrow> False | Some s \<Rightarrow> s \<noteq> [])"

text \<open>
  Line 1700: \<^verbatim>\<open>payment_link?.reference_id || payment?.reference_id ||
  payment?.notes?.orderId || null\<close>.
\<close>

definition payment_link_reference_id :: "webhook_payload \<Rightarrow> string option" where
  "payment_link_reference_id p = (case payment_link p of None \<Rightarrow> None | Some l \<Rightarrow> link_reference_id l)"

definition payment_reference_id :: "webhook_payload \<Rightarrow> string option" where
  "payment_reference_id p = (case payment p of None \<Rightarrow> None | Some y \<Rightarrow> reference_id y)"

definition payment_notes_orderId :: "webhook_payload \<Rightarrow> string option" where
  "payment_notes_orderId p = (case payment p of None \<Rightarrow> None | Some y \<Rightarrow> notes_orderId y)"

definition referenceId_of :: "webhook_payload \<Rightarrow> string option" where
  "referenceId_of p =
     (if truthy (payment_link_reference_id p) then payment_link_reference_id p
      else if truthy (payment_reference_id p) then payment_reference_id p
      else if truthy (payment_notes_orderId p) then payment_notes_orderId p
      else None)"

text \<open>Lines 1719-1723: the phone of the payer, from the payment or else from the payment link.\<close>

definition payer_phone :: "webhook_payload \<Rightarrow> string" where
  "payer_phone p =
     (let phone0 = (case payment p of None \<Rightarrow> '''' | Some y \<Rightarrow> normalizePhone (or_str (contact y) ''''));
          linked = (case payment_link p of None \<Rightarrow> None | Some l \<Rightarrow> customer_contact l)
      in if phone0 = '''' \<and> truthy linked then normalizePhone (or_str linked '''') else phone0)"

text \<open>
  Lines 1714-1729. \<^verbatim>\<open>orderSessions[referenceId]\<close> is a table look-up with a key from the
  request, so it also finds the members of \<^verbatim>\<open>Object.prototype\<close> and what was added to it.
  The handler updates the object it finds in place: a session of the table (\<open>Session\<close>, with
  the key it is stored under), a member of \<^verbatim>\<open>Object.prototype\<close> (\<open>PrototypeMember\<close>), or a
  primitive value, a text or a number inherited from the prototype (\<open>Primitive\<close>).
\<close>

datatype resolved = Session string session | PrototypeMember string | Primitive | NoSession

definition resolve :: "state \<Rightarrow> string \<Rightarrow> resolved" where
  "resolve st k =
     (case lookup (prototype st) (orderSessions st) k of
        Own s \<Rightarrow> Session k s
      | Member m \<Rightarrow> PrototypeMember m
      | AddedStatus p \<Rightarrow> Primitive
      | AddedCharge c \<Rightarrow> if truthy_number c then Primitive else NoSession
      | Undefined \<Rightarrow> NoSession)"

definition lookup_session :: "state \<Rightarrow> webhook_payload \<Rightarrow> resolved" where
  "lookup_session st p =
     (case (case referenceId_of p of None \<Rightarrow> NoSession | Some referenceId \<Rightarrow> resolve st referenceId) of
        NoSession \<Rightarrow>
          (let phone = payer_phone p in
           if phone = '''' then NoSession
           else
             (case phoneToOrderIds st phone of
                None \<Rightarrow> NoSession
              | Some ids \<Rightarrow> if ids = [] then NoSession else resolve st (last ids)))
      | found \<Rightarrow> found)"

text \<open>
  \<^verbatim>\<open>(getProductName[id] || 'Item') + "(" + (quantity || 1) + ")" + "\n"\<close> of
  \<^verbatim>\<open>finalizePaidOrder\<close>.
\<close>

fun paid_product_names :: "object_prototype \<Rightarrow> product_item list \<Rightarrow> string" where
  "paid_product_names proto [] = []"
| "paid_product_names proto (item # rest) =
     (let found = lookup proto getProductName (product_retailer_id item)
      in (if truthy_property found then String_property found else ''Item'')
         @ ''('' @ String_number (or_number (quantity item) (Num 1)) @ '')'' @ [CHR 0x0A]
         @ paid_product_names proto rest)"

definition customer_field :: "session \<Rightarrow> (customer \<Rightarrow> string option) \<Rightarrow> string \<Rightarrow> string" where
  "customer_field s f d = (case customer s of None \<Rightarrow> d | Some c \<Rightarrow> or_str (f c) d)"

definition paid_shipment :: "env \<Rightarrow> object_prototype \<Rightarrow> string \<Rightarrow> session \<Rightarrow> shipment" where
  "paid_shipment e proto ph s =
     \<lparr>sh_name = customer_field s c_name ''Customer'',
      sh_add = (case customer s of None \<Rightarrow> trim '' '' | Some c \<Rightarrow> address_line c),
      sh_pin = customer_pin s,
      sh_city = customer_field s c_city '''',
      sh_state = customer_field s c_state '''',
      sh_phone = customer_field s c_phone ph,
      sh_order = order_label e s,
      sh_payment_mode = ''Prepaid'',
      products_desc = paid_product_names proto (productItems s) @ ''+ shipping charge'',
      cod_amount = ''0'',
      total_amount = String_number (Math_round (js_div (amount s) 100)),
      weight = WeightBlank\<rparr>"

definition paid_row :: "string \<Rightarrow> session \<Rightarrow> sheet_row" where
  "paid_row ph s =
     \<lparr>row_name = customer_field s c_name '''',
      row_phone = customer_field s c_phone ph,
      row_email = customer_field s c_email '''',
      row_address = (case customer s of None \<Rightarrow> trim '' '' | Some c \<Rightarrow> address_line c),
      row_pincode = customer_field s c_pincode '''',
      row_items = productItems s,
      row_mode = ''Prepaid'',
      row_status = ''Paid'',
      row_amount = js_div (amount s) 100,
      row_shipping = map_option (\<lambda>c. js_div c 100) (shipping_charge s),
      row_cod = Some (Num 0),
      row_orderId = orderId s\<rparr>"

text \<open>
  \<^verbatim>\<open>finalizePaidOrder(session, paymentInfo)\<close> on an object: the fields it leaves in the
  object and the calls it makes. A failed shipment creation is caught here.
\<close>

definition finalizePaidOrder :: "env \<Rightarrow> object_prototype \<Rightarrow> session \<Rightarrow> session \<times> effect list" where
  "finalizePaidOrder e proto s0 =
     (let ph = or_str (phone s0) '''';
          shippingChargePaise = prepaid_quote (chargesResp e);
          s = s0\<lparr>payment_status := Some Paid, shipping_charge := Some shippingChargePaise\<rparr>
      in (s,
          [SendWhatsAppText ph PaymentSuccessful,
           GetDelhiveryCharges
             \<lparr>dest_pin = customer_pin s0, cgm = paid_total_wgt proto (productItems s0) (Num 0),
              pt = ''Pre-paid''\<rparr>,
           CreateDelhiveryShipment (paid_shipment e proto ph s),
           SendWhatsAppText ph
             (case delhiveryResp e of ShipmentThrow \<Rightarrow> ShipmentFailed | ShipmentReturn r \<Rightarrow> ShipmentCreated),
           AppendToSheet (paid_row ph s)]))"

text \<open>
  Writing the fields of a session back: into the table for a session stored there, into
  \<^verbatim>\<open>Object.prototype\<close> when that was taken for the session (from then on every object
  inherits \<^verbatim>\<open>payment_status\<close> and \<^verbatim>\<open>shipping_charge\<close>). What is set on one of the eleven
  functions stays on that function, where the program never reads it.
\<close>

definition add_to_prototype :: "session \<Rightarrow> object_prototype \<Rightarrow> object_prototype" where
  "add_to_prototype s proto =
     \<lparr>added_payment_status =
        (case payment_status s of None \<Rightarrow> added_payment_status proto | Some p \<Rightarrow> Some p),
      added_shipping_charge =
        (case shipping_charge s of None \<Rightarrow> added_shipping_charge proto | Some c \<Rightarrow> Some c)\<rparr>"

text \<open>
  \<^verbatim>\<open>Object.prototype\<close> read as a session: the two properties it may have been given, and
  no other field.
\<close>

definition prototype_session :: "object_prototype \<Rightarrow> session" where
  "prototype_session proto =
     blank_session\<lparr>payment_status := added_payment_status proto,
                   shipping_charge := added_shipping_charge proto\<rparr>"

text \<open>
  \<^verbatim>\<open>app.post('/payments-webhook')\<close>. \<^verbatim>\<open>req.body.payload.payment\<close> throws when the body has no
  \<^verbatim>\<open>payload\<close>. The file is an ES module, so its code is strict: an assignment to a property
  of a primitive value throws a \<^verbatim>\<open>TypeError\<close>, which the \<^verbatim>\<open>try\<close> around \<^verbatim>\<open>finalizePaidOrder\<close>
  catches and which nothing catches at \<^verbatim>\<open>session.payment_status = 'failed'\<close>.
\<close>

definition payments_webhook :: "env \<Rightarrow> state \<Rightarrow> webhook_body \<Rightarrow> outcome" where
  "payments_webhook e st body =
     (case payload body of
        None \<Rightarrow> \<lparr>st_after = st, effects = [], response = Unacknowledged TypeError, branch = PaymentWebhook\<rparr>
      | Some p \<Rightarrow>
          let status = toLowerCase (or_str (event body) '''');
              paid = str_includes status ''paid'';
              failed = (str_includes status ''failed'' \<or> str_includes status ''cancel''
                        \<or> str_includes status ''expired'');
              nothing = \<lparr>st_after = st, effects = [], response = Status 200, branch = PaymentWebhook\<rparr>
          in case lookup_session st p of
               NoSession \<Rightarrow> nothing
             | Session k s \<Rightarrow>
                 if paid then
                   (let (s1, calls) = finalizePaidOrder e (prototype st) s in
                    \<lparr>st_after = st\<lparr>orderSessions := (orderSessions st)(k \<mapsto> s1)\<rparr>,
                     effects = calls, response = Status 200, branch = PaymentWebhook\<rparr>)
                 else if failed then
                   \<lparr>st_after = st\<lparr>orderSessions :=
                       (orderSessions st)(k \<mapsto> s\<lparr>payment_status := Some Failed\<rparr>)\<rparr>,
                    effects = [SendWhatsAppText (or_str (phone s) '''') PaymentFailed],
                    response = Status 200, branch = PaymentWebhook\<rparr>
                 else nothing
             | PrototypeMember m \<Rightarrow>
                 (let s = (if m = ''__proto__'' then prototype_session (prototype st) else blank_session);
                      keep = (\<lambda>s1. if m = ''__proto__''
                                    then st\<lparr>prototype := add_to_prototype s1 (prototype st)\<rparr> else st)
                  in if paid then
                       (let (s1, calls) = finalizePaidOrder e (prototype st) s in
                        \<lparr>st_after = keep s1, effects = calls, response = Status 200,
                         branch = PaymentWebhook\<rparr>)
                     else if failed then
                       \<lparr>st_after = keep (s\<lparr>payment_status := Some Failed\<rparr>),
                        effects = [SendWhatsAppText '''' PaymentFailed],
                        response = Status 200, branch = PaymentWebhook\<rparr>
                     else nothing)
             | Primitive \<Rightarrow>
                 if paid then nothing
                 else if failed then
                   \<lparr>st_after = st, effects = [], response = Unacknowledged TypeError,
                    branch = PaymentWebhook\<rparr>
                 else nothing)"

section \<open>Runs of the server\<close>

text \<open>
  The server handles one event after the other: an inbound message or a payment
  notification, each with the inputs of its run, or the clock reaching a time, at which
  the due timers fire.
\<close>

datatype server_event =
    Inbound env "message option"
  | Payment env webhook_body
  | ClockReaches nat

fun handle_event :: "server_event \<Rightarrow> state \<Rightarrow> state \<times> effect list" where
  "handle_event (Inbound e req) st = (st_after (post_root e st req), effects (post_root e st req))"
| "handle_event (Payment e body) st =
     (st_after (payments_webhook e st body), effects (payments_webhook e st body))"
| "handle_event (ClockReaches T) st = advance_clock T st"

fun run :: "server_event list \<Rightarrow> state \<Rightarrow> state \<times> effect list" where
  "run [] st = (st, [])"
| "run (ev # evs) st =
     (let (st1, out1) = handle_event ev st;
          (st2, out2) = run evs st1
      in (st2, out1 @ out2))"

section \<open>What the specification says, and observations on a run\<close>

text \<open>
  The specification's amount of a catalog order,
  \<open>\<Sum> round(item.price \<times> 100) \<times> item.quantity\<close>, in exact arithmetic on the numbers of the
  payload.
\<close>

definition exact_value :: "number \<Rightarrow> rat" where
  "exact_value v = (case v of Num q \<Rightarrow> q | _ \<Rightarrow> 0)"

definition spec_amount :: "product_item list \<Rightarrow> rat" where
  "spec_amount items =
     sum_list (map (\<lambda>item. of_int \<lfloor>exact_value (item_price item) * 100 + 1 / 2\<rfloor>
                             * exact_value (quantity item)) items)"

text \<open>
  The amount stored against a phone by the last catalog order; 0 when there is none, or
  when it is \<^verbatim>\<open>NaN\<close>.
\<close>

definition pending_amount :: "state \<Rightarrow> string \<Rightarrow> number" where
  "pending_amount st from =
     (case orderSessions st from of None \<Rightarrow> Num 0 | Some p \<Rightarrow> or_number (amount p) (Num 0))"

text \<open>The order id that a submission handled with inputs \<open>e\<close> creates.\<close>

definition new_orderId :: "env \<Rightarrow> string" where
  "new_orderId e = ''OUO-'' @ uid e"

text \<open>The required format \<^verbatim>\<open>OUO-<5-digit-number>\<close>.\<close>

definition orderId_format :: "string \<Rightarrow> bool" where
  "orderId_format s = (take 4 s = ''OUO-'' \<and> length (drop 4 s) = 5 \<and> list_all isDigit (drop 4 s))"

text \<open>What \<^verbatim>\<open>randomUUID()\<close> of a generator of length 5 over the digits returns.\<close>

definition five_digits :: "string \<Rightarrow> bool" where
  "five_digits u = (length u = 5 \<and> list_all isDigit u)"

definition shipments_created :: "effect list \<Rightarrow> shipment list" where
  "shipments_created effs =
     concat (map (\<lambda>x. case x of CreateDelhiveryShipment sh \<Rightarrow> [sh] | _ \<Rightarrow> []) effs)"

definition rows_appended :: "effect list \<Rightarrow> sheet_row list" where
  "rows_appended effs = concat (map (\<lambda>x. case x of AppendToSheet r \<Rightarrow> [r] | _ \<Rightarrow> []) effs)"

definition texts_sent :: "string \<Rightarrow> effect list \<Rightarrow> text_msg list" where
  "texts_sent to effs =
     concat (map (\<lambda>x. case x of SendWhatsAppText p m \<Rightarrow> (if p = to then [m] else []) | _ \<Rightarrow> []) effs)"

definition orderIds_announced :: "effect list \<Rightarrow> string list" where
  "orderIds_announced effs =
     concat (map (\<lambda>x. case x of SendWhatsAppText p (ThanksReceived oid) \<Rightarrow> [oid] | _ \<Rightarrow> []) effs)"

text \<open>A delivery-details submission that is not the test payload of the flow builder.\<close>

definition is_submission :: "message \<Rightarrow> bool" where
  "is_submission msg =
     (case content msg of
        NfmReply None \<Rightarrow> True
      | NfmReply (Some c) \<Rightarrow> c_flow_token c \<noteq> Some ''test_101''
      | _ \<Rightarrow> False)"

text \<open>A submission whose \<^verbatim>\<open>payment_mode\<close> is one of the three COD spellings, in any case.\<close>

definition is_cod_submission :: "message \<Rightarrow> bool" where
  "is_cod_submission msg =
     (case content msg of
        NfmReply (Some c) \<Rightarrow>
          c_flow_token c \<noteq> Some ''test_101''
          \<and> is_cod_mode (toLowerCase (or_str (c_payment_mode c) ''''))
      | _ \<Rightarrow> False)"

text \<open>The lookup gave a response whose first quote carries a usable (truthy) total.\<close>

definition quote_parsed :: "charges_outcome \<Rightarrow> bool" where
  "quote_parsed r =
     (case r of ChargesReturn (RespArray (Some t # qs)) \<Rightarrow> truthy_number t | _ \<Rightarrow> False)"

text \<open>
  The total of a rate quote converted to paise, \<^verbatim>\<open>Math.round(total_amount * 100)\<close>; 0 when
  the quote is unparseable.
\<close>

definition quoted_paise :: "charges_outcome \<Rightarrow> number" where
  "quoted_paise r =
     (case r of
        ChargesReturn (RespArray (Some t # qs)) \<Rightarrow>
          if truthy_number t then Math_round (js_mul t (Num 100)) else Num 0
      | _ \<Rightarrow> Num 0)"

subsection \<open>Concrete inputs\<close>

definition ready_state :: state where
  "ready_state = init_state\<lparr>intentBasedQA := parseIntentBasedQA\<rparr>"

definition env0 :: env where
  "env0 =
     \<lparr>now = 0, uid = ''48213'', chargesResp = ChargesReturn (RespArray [Some (Num 50)]),
      delhiveryResp = ShipmentReturn (Some True), orderDetailsPosted = True,
      PAYMENT_CONFIGURATION_NAME = Some ''upi_test'', customerSheetAppended = True,
      geminiAnswer = Some ''Namaste''\<rparr>"

definition phone0 :: string where
  "phone0 = ''919876543210''"

definition text_from :: "string \<Rightarrow> string \<Rightarrow> message" where
  "text_from p body = \<lparr>msg_from = p, content = TextMsg body\<rparr>"

definition order_of :: "string \<Rightarrow> product_item list \<Rightarrow> message" where
  "order_of p items =
     \<lparr>msg_from = p, content = OrderMsg \<lparr>catalog_id = Some ''1180224730488583'', product_items = items\<rparr>\<rparr>"

definition customer0 :: customer where
  "customer0 =
     \<lparr>c_flow_token = Some ''flow_7'', c_payment_mode = Some ''Cash on Delivery'',
      c_name = Some ''Asha'', c_phone = None, c_email = Some ''asha@example.com'',
      c_address1 = Some ''12 Mall Road'', c_address2 = None, c_pincode = Some ''249193'',
      c_pin = None, c_city = None, c_state = None\<rparr>"

definition cod_submission :: message where
  "cod_submission = \<lparr>msg_from = phone0, content = NfmReply (Some customer0)\<rparr>"

text \<open>The state after a catalog order of two packs at 100 rupees: 20000 paise are pending.\<close>

definition ordered_state :: state where
  "ordered_state =
     st_after (post_root env0 ready_state
       (Some (order_of phone0 [\<lparr>product_retailer_id = ''m519x5gv9s'', quantity = Num 2, item_price = Num 100\<rparr>])))"

text \<open>The state after the COD submission of scenario B: one session, created last for its phone.\<close>

definition submitted_state :: state where
  "submitted_state = st_after (post_root env0 ordered_state (Some cod_submission))"

definition link_payload :: "string \<Rightarrow> webhook_payload" where
  "link_payload r =
     \<lparr>payment = None,
      payment_link = Some \<lparr>link_reference_id = Some r, customer_contact = None\<rparr>\<rparr>"

definition contact_payload :: "string \<Rightarrow> string \<Rightarrow> webhook_payload" where
  "contact_payload r c =
     \<lparr>payment = Some \<lparr>reference_id = Some r, notes_orderId = None, contact = Some c\<rparr>,
      payment_link = None\<rparr>"

subsection \<open>The order of the dispatcher\<close>

text \<open>
  An ordered list of cases, each with its own condition; the first case whose condition
  holds handles the event, and the last resort is the AI responder.
\<close>

fun first_match :: "(branch \<times> bool) list \<Rightarrow> branch" where
  "first_match [] = AiFallback"
| "first_match ((b, holds) # rest) = (if holds then b else first_match rest)"

definition is_menu :: "string \<Rightarrow> bool" where
  "is_menu msgBody = (msgBody = ''main menu'' \<or> msgBody = ''Main Menu'')"

definition is_greeting :: "string \<Rightarrow> bool" where
  "is_greeting msgBody = (msgBody = ''hi'' \<or> msgBody = ''hello'' \<or> msgBody = ''hey'')"

definition is_order_event :: "message \<Rightarrow> bool" where
  "is_order_event msg =
     ((case content msg of OrderMsg d \<Rightarrow> True | _ \<Rightarrow> False)
      \<or> msgBody_of (content msg) = ''order_received'')"

definition is_flow_submission :: "message \<Rightarrow> bool" where
  "is_flow_submission msg = (case content msg of NfmReply d \<Rightarrow> True | _ \<Rightarrow> False)"

definition awaits_followup :: "state \<Rightarrow> message \<Rightarrow> bool" where
  "awaits_followup st msg =
     (normalizePhone (msg_from msg) \<in> remindedUsers st
      \<and> normalizePhone (msg_from msg) \<notin> completedUsers st)"

text \<open>
  The order claimed by the specification: menu and greeting, order event, flow submission,
  payment webhook (never an inbound message: it has a route of its own), AWB, intent
  table, reminder follow-up, AI fallback.
\<close>

definition spec_priority :: "state \<Rightarrow> message \<Rightarrow> (branch \<times> bool) list" where
  "spec_priority st msg =
     (let msgBody = msgBody_of (content msg) in
      [(MainMenu, is_menu msgBody),
       (Greeting, is_greeting msgBody),
       (CatalogOrder, is_order_event msg),
       (FlowSubmission, is_flow_submission msg),
       (PaymentWebhook, False),
       (AwbRegex, awbMatch msgBody \<noteq> None),
       (IntentTable, findIntentBasedResponse (intentBasedQA st) msgBody \<noteq> None),
       (ReminderFollowup, awaits_followup st msg),
       (AiFallback, True)])"

text \<open>The order of the source, with the keyword replies that the specification does not list.\<close>

definition code_priority :: "state \<Rightarrow> message \<Rightarrow> (branch \<times> bool) list" where
  "code_priority st msg =
     (let msgBody = msgBody_of (content msg) in
      [(FlowSubmission, is_flow_submission msg),
       (MainMenu, is_menu msgBody),
       (IntentTable, findIntentBasedResponse (intentBasedQA st) msgBody \<noteq> None),
       (AwbRegex, awbMatch msgBody \<noteq> None),
       (Greeting, is_greeting msgBody),
       (SourcingStory, str_includes (toLowerCase msgBody) ''sourcing story''
                       \<or> str_includes (toLowerCase msgBody) ''back2 sourcing story''),
       (NutritionInfo, str_includes (toLowerCase msgBody) ''nutrition info''
                       \<or> str_includes (toLowerCase msgBody) ''back 2 nutri info''),
       (ViewProducts, str_includes (toLowerCase msgBody) ''view products''),
       (HaveAQuery, str_includes (toLowerCase msgBody) ''have a query''),
       (HowAreYou, str_includes msgBody ''how are you''),
       (Fine, msgBody = ''fine''),
       (Thanks, str_includes msgBody ''thank you'' \<or> str_includes msgBody ''thanks''),
       (Praise, str_includes msgBody ''awesome'' \<or> str_includes msgBody ''amazing''
                \<or> str_includes msgBody ''great''),
       (CatalogOrder, is_order_event msg),
       (ReminderFollowup, awaits_followup st msg),
       (AiFallback, True)])"

subsection \<open>Pending idle timers\<close>

definition pending_for :: "string \<Rightarrow> state \<Rightarrow> timer list" where
  "pending_for p st = filter (\<lambda>t. timer_phone t = p) (timers st)"

text \<open>
  Every pending timer is the one that \<^verbatim>\<open>idleTimers\<close> holds for its phone, and handles are
  distinct and below the next handle.
\<close>

definition timer_inv :: "state \<Rightarrow> bool" where
  "timer_inv st =
     (list_all (\<lambda>t. idleTimers st (timer_phone t) = Some (timer_id t) \<and> timer_id t < next_timer st)
        (timers st)
      \<and> distinct (map timer_id (timers st)))"

definition reminders_to :: "string \<Rightarrow> effect list \<Rightarrow> nat" where
  "reminders_to p effs = length (filter (\<lambda>x. x = SendWhatsAppText p IdleReminder) effs)"

text \<open>
  Two inbound messages and the clock: the second message arrives at \<open>now e2\<close>, and the
  clock then runs on to \<open>T\<close>.
\<close>

definition two_messages :: "env \<Rightarrow> message \<Rightarrow> env \<Rightarrow> message \<Rightarrow> nat \<Rightarrow> server_event list" where
  "two_messages e1 m1 e2 m2 T =
     [Inbound e1 (Some m1), ClockReaches (now e2), Inbound e2 (Some m2), ClockReaches T]"

subsection \<open>Runs of submissions\<close>

definition submissions :: "(env \<times> message) list \<Rightarrow> server_event list" where
  "submissions xs = map (\<lambda>x. Inbound (fst x) (Some (snd x))) xs"

section \<open>Facts used throughout\<close>

lemma orderSessions_rearm [simp]:
  "orderSessions (rearm_idle_timer e p st) = orderSessions st"
  by (simp add: rearm_idle_timer_def setTimeout_def clearTimeout_def Let_def split: option.splits)

lemma orderSessions_ensure [simp]:
  "orderSessions (ensure_order_list p st) = orderSessions st"
  by (simp add: ensure_order_list_def split: option.splits)

lemma intentBasedQA_rearm [simp]:
  "intentBasedQA (rearm_idle_timer e p st) = intentBasedQA st"
  by (simp add: rearm_idle_timer_def setTimeout_def clearTimeout_def Let_def split: option.splits)

lemma intentBasedQA_ensure [simp]:
  "intentBasedQA (ensure_order_list p st) = intentBasedQA st"
  by (simp add: ensure_order_list_def split: option.splits)

lemma remindedUsers_rearm [simp]:
  "remindedUsers (rearm_idle_timer e p st) = remindedUsers st"
  by (simp add: rearm_idle_timer_def setTimeout_def clearTimeout_def Let_def split: option.splits)

lemma remindedUsers_ensure [simp]:
  "remindedUsers (ensure_order_list p st) = remindedUsers st"
  by (simp add: ensure_order_list_def split: option.splits)

lemma completedUsers_rearm [simp]:
  "completedUsers (rearm_idle_timer e p st) = completedUsers st"
  by (simp add: rearm_idle_timer_def setTimeout_def clearTimeout_def Let_def split: option.splits)

lemma completedUsers_ensure [simp]:
  "completedUsers (ensure_order_list p st) = completedUsers st"
  by (simp add: ensure_order_list_def split: option.splits)

lemma prototype_rearm [simp]:
  "prototype (rearm_idle_timer e p st) = prototype st"
  by (simp add: rearm_idle_timer_def setTimeout_def clearTimeout_def Let_def split: option.splits)

lemma prototype_ensure [simp]:
  "prototype (ensure_order_list p st) = prototype st"
  by (simp add: ensure_order_list_def split: option.splits)

lemma normalizePhone_phone0 [simp]: "normalizePhone phone0 = phone0"
  by (simp add: normalizePhone_def phone0_def isDigit_def)

subsection \<open>Evaluating numbers and their texts\<close>

lemma floor_rat_numeral: "\<lfloor>numeral a / numeral b :: rat\<rfloor> = numeral a div numeral b"
  by (metis floor_divide_of_int_eq of_int_numeral)

lemma ceiling_rat_numeral: "\<lceil>numeral a / numeral b :: rat\<rceil> = - (- numeral a div numeral b)"
  by (metis ceiling_def floor_divide_of_int_eq of_int_numeral of_int_minus minus_divide_left)

lemma shortest_digits_numeral:
  "shortest_digits (numeral m) x n k =
     (case pick x n k of Some r \<Rightarrow> r | None \<Rightarrow> shortest_digits (pred_numeral m) x n (k + 1))"
  by (simp add: numeral_eq_Suc)

lemma replicate_numeral: "replicate (numeral m) x = x # replicate (pred_numeral m) x"
  by (simp add: numeral_eq_Suc)

lemmas double_eval =
  double_of_def ilog2_def pow2_def round_half_even_def bit_length.simps Let_def
  floor_rat_numeral ceiling_rat_numeral

lemmas number_eval =
  js_add_def js_mul_def js_div_def Math_round_def or_number_def truthy_number_def negative_def

lemmas String_eval =
  String_number_def String_positive_def decimal_point_def shortest_digits_numeral
  shortest_digits.simps pick_def round_trips_def pow10_def String_digits.simps digitChar_def
  replicate_numeral

lemmas parseInt_eval = parseInt_number_def digits_value_def startsWith_def isDigit_def

lemmas text_eval =
  trim_def strip.simps toLowerCase.simps whiteSpace_def startsWith_def lowerChar_def

lemma String_number_1: "String_number (Num 1) = ''1''"
  by (simp add: String_eval double_eval)

lemma String_number_2: "String_number (Num 2) = ''2''"
  by (simp add: String_eval double_eval)

lemma parseInt_number_1: "parseInt_number (Num 1) = Num 1"
  by (simp add: String_number_1 parseInt_eval double_eval)

lemma parseInt_number_2: "parseInt_number (Num 2) = Num 2"
  by (simp add: String_number_2 parseInt_eval double_eval)

subsection \<open>Integers below \<open>2 ^ 53\<close> are doubles\<close>

lemma bit_length_le: "n < 2 ^ k \<Longrightarrow> bit_length n \<le> int k"
proof (induction k arbitrary: n)
  case 0
  then show ?case by (simp add: bit_length.simps)
next
  case (Suc k)
  show ?case
  proof (cases "n \<le> 0")
    case True
    then show ?thesis by (simp add: bit_length.simps)
  next
    case False
    have "n div 2 < 2 ^ k"
      using Suc.prems by simp
    then have "bit_length (n div 2) \<le> int k"
      by (rule Suc.IH)
    then show ?thesis
      using False by (subst bit_length.simps) simp
  qed
qed

lemma bit_length_pos: "1 \<le> n \<Longrightarrow> 1 \<le> bit_length n"
proof -
  assume n: "1 \<le> n"
  have "0 \<le> bit_length m" for m
    by (induction m rule: bit_length.induct) (subst bit_length.simps, simp)
  from this[of "n div 2"] n show ?thesis
    by (subst bit_length.simps) simp
qed

lemma round_half_even_of_int: "round_half_even (of_int k) = k"
  by (simp add: round_half_even_def)

lemma double_of_int:
  assumes "\<bar>n\<bar> < 2 ^ 53"
  shows "double_of (of_int n) = Num (of_int n)"
proof (cases "n = 0")
  case True
  then show ?thesis by (simp add: double_of_def)
next
  case False
  define m where "m = \<bar>n\<bar>"
  have m: "1 \<le> m" "m < 2 ^ 53"
    using False assms by (simp_all add: m_def)
  define d where "d = nat (53 - bit_length m)"
  have bl: "1 \<le> bit_length m" "bit_length m \<le> 53"
    using bit_length_pos[OF m(1)] bit_length_le[OF m(2)] by simp_all
  have il: "ilog2 \<bar>of_int n\<bar> = bit_length m - 1"
  proof -
    have "\<bar>of_int n :: rat\<bar> = of_int m"
      by (simp add: m_def)
    then show ?thesis
      using m(1) by (simp add: ilog2_def)
  qed
  have ulp: "pow2 (max (ilog2 \<bar>of_int n\<bar> - 52) (- 1074)) = 1 / 2 ^ d"
  proof -
    have "max (bit_length m - 1 - 52) (- 1074) = - int d"
      using bl by (simp add: d_def)
    then show ?thesis
      unfolding il using bl by (auto simp add: pow2_def d_def)
  qed
  have q: "(of_int n :: rat) / (1 / 2 ^ d) = of_int (n * 2 ^ d)"
    by simp
  have r: "of_int (round_half_even (of_int n / (1 / 2 ^ d))) * (1 / 2 ^ d) = (of_int n :: rat)"
    unfolding q round_half_even_of_int by simp
  have b1: "\<not> (2 :: rat) ^ 1024 \<le> of_int n"
  proof -
    have "(of_int n :: rat) < of_int (2 ^ 53)"
      using assms by (simp only: of_int_less_iff)
    also have "\<dots> \<le> 2 ^ 1024"
      by simp
    finally show ?thesis by simp
  qed
  have b2: "\<not> (of_int n :: rat) \<le> - (2 ^ 1024)"
  proof -
    have "(of_int (- (2 ^ 53)) :: rat) < of_int n"
      using assms by (simp only: of_int_less_iff abs_less_iff) linarith
    moreover have "- ((2 :: rat) ^ 1024) \<le> of_int (- (2 ^ 53))"
      by simp
    ultimately show ?thesis by simp
  qed
  have z: "(of_int n :: rat) \<noteq> 0"
    using False by simp
  show ?thesis
    unfolding double_of_def Let_def ulp r
    by (simp only: z b1 b2 if_False)
qed

lemma js_add_int:
  assumes "\<bar>a + b\<bar> < 2 ^ 53"
  shows "js_add (Num (of_int a)) (Num (of_int b)) = Num (of_int (a + b))"
  using double_of_int[OF assms] by (simp add: js_add_def)

subsection \<open>The populated intent table\<close>

lemma table_keys:
  "map fst parseIntentBasedQA =
     [''buy now'', ''why people love us'', ''back 2 y ppl <3 us'', ''recipes'', ''farmer impact'',
      ''where we'' @ [CHR 0xE2, CHR 0x80, CHR 0x99] @ ''re from'', ''why it matters'',
      ''trace your products'', ''how it works'', ''shop & explore'', ''back2 shop & explore'',
      ''buy products'', ''customer reviews'', ''track your order'', ''our story'', ''buy later'']"
  by (simp add: parseIntentBasedQA_def)

lemma partialMatch_None:
  "partialMatch tbl m = None \<longleftrightarrow>
   list_all (\<lambda>k. \<not> str_includes m k \<and> \<not> str_includes k m) (map fst tbl)"
  by (induction tbl) (auto split: if_splits)

lemma map_of_None_keys: "map_of tbl k = None \<longleftrightarrow> k \<notin> set (map fst tbl)"
  by (simp add: map_of_eq_None_iff)

lemma order_received_no_intent:
  "findIntentBasedResponse parseIntentBasedQA ''order_received'' = None"
proof -
  have n: "trim (toLowerCase ''order_received'') = ''order_received''"
    by (simp add: text_eval)
  have a: "map_of parseIntentBasedQA ''order_received'' = None"
    unfolding map_of_None_keys table_keys by simp
  have b: "partialMatch parseIntentBasedQA ''order_received'' = None"
    unfolding partialMatch_None table_keys by (simp add: startsWith_def)
  show ?thesis
    by (simp add: findIntentBasedResponse_def n a b text_eval)
qed

section \<open>Catalog orders\<close>

lemma dispatch_order:
  assumes "findIntentBasedResponse (intentBasedQA st) ''order_received'' = None"
  shows "dispatch e p (OrderMsg d) st =
     finish p (catalog_order p (Some d) st)
       [SendWhatsAppFlow p, SendWhatsAppText p PleaseProvideDetails] (Plain '''') False [] CatalogOrder"
proof -
  have a: "awbMatch ''order_received'' = None"
    by (simp add: awbMatch_def awbAt_def isDigit_def)
  show ?thesis
    by (simp add: dispatch_def msgBody_of_def assms a text_eval)
qed

lemma post_root_order_amount:
  assumes "content msg = OrderMsg d"
    and "findIntentBasedResponse (intentBasedQA st) ''order_received'' = None"
  shows "map_option amount
           (orderSessions (st_after (post_root e st (Some msg))) (normalizePhone (msg_from msg))) =
         Some (totalAmount (product_items d) (Num 0))"
  using assms
  by (simp add: post_root_def Let_def dispatch_order finish_def catalog_order_def)

lemma order_stored:
  "map_option amount
     (orderSessions (st_after (post_root env0 ready_state (Some (order_of phone0 items)))) phone0) =
   Some (totalAmount items (Num 0))"
  using post_root_order_amount[of "order_of phone0 items"
      "\<lparr>catalog_id = Some ''1180224730488583'', product_items = items\<rparr>" ready_state env0]
  by (simp add: order_of_def ready_state_def order_received_no_intent)

lemma pending_ordered_state: "pending_amount ordered_state phone0 = Num 20000"
proof -
  have "totalAmount [\<lparr>product_retailer_id = ''m519x5gv9s'', quantity = Num 2, item_price = Num 100\<rparr>]
          (Num 0) = Num 20000"
    by (simp add: number_eval parseInt_number_2 double_eval)
  then have "map_option amount (orderSessions ordered_state phone0) = Some (Num 20000)"
    unfolding ordered_state_def order_stored by simp
  then show ?thesis
    by (auto simp add: pending_amount_def or_number_def truthy_number_def split: option.splits)
qed

subsection \<open>The amount is not rounded\<close>

lemma totalAmount_eighth:
  "totalAmount [\<lparr>product_retailer_id = ''esltl7pftq'', quantity = Num 1, item_price = Num (1 / 8)\<rparr>]
     (Num 0) = Num (25 / 2)"
  by (simp add: number_eval parseInt_number_1 double_eval)

lemma double_of_1999: "double_of (1999 / 100) = Num (5626684784446013 / 281474976710656)"
  by (simp add: double_eval)

lemma double_of_58: "double_of (58 / 100) = Num (5224175567749775 / 9007199254740992)"
  by (simp add: double_eval)

lemma double_of_7: "double_of (7 / 100) = Num (1261007895663739 / 18014398509481984)"
  by (simp add: double_eval)

lemma totalAmount_1999:
  "totalAmount
     [\<lparr>product_retailer_id = ''esltl7pftq'', quantity = Num 1, item_price = double_of (1999 / 100)\<rparr>]
     (Num 0) = Num (8791694975696895 / 4398046511104)"
  unfolding double_of_1999
  by (simp add: number_eval parseInt_number_1 double_eval)

lemma totalAmount_ascending:
  "totalAmount
     [\<lparr>product_retailer_id = ''294l11gpcm'', quantity = Num 1, item_price = double_of (7 / 100)\<rparr>,
      \<lparr>product_retailer_id = ''m519x5gv9s'', quantity = Num 1, item_price = double_of (58 / 100)\<rparr>,
      \<lparr>product_retailer_id = ''esltl7pftq'', quantity = Num 1, item_price = double_of (1999 / 100)\<rparr>]
     (Num 0) = Num 2064"
  unfolding double_of_1999 double_of_58 double_of_7
  by (simp add: number_eval parseInt_number_1 double_eval)

lemma totalAmount_descending:
  "totalAmount
     [\<lparr>product_retailer_id = ''esltl7pftq'', quantity = Num 1, item_price = double_of (1999 / 100)\<rparr>,
      \<lparr>product_retailer_id = ''m519x5gv9s'', quantity = Num 1, item_price = double_of (58 / 100)\<rparr>,
      \<lparr>product_retailer_id = ''294l11gpcm'', quantity = Num 1, item_price = double_of (7 / 100)\<rparr>]
     (Num 0) = Num (4538783999459327 / 2199023255552)"
  unfolding double_of_1999 double_of_58 double_of_7
  by (simp add: number_eval parseInt_number_1 double_eval)

lemma spec_amount_eighth:
  "spec_amount [\<lparr>product_retailer_id = ''esltl7pftq'', quantity = Num 1, item_price = Num (1 / 8)\<rparr>]
   = 13"
  by (simp add: spec_amount_def exact_value_def floor_eq_iff)

lemma spec_amount_1999:
  "spec_amount
     [\<lparr>product_retailer_id = ''esltl7pftq'', quantity = Num 1, item_price = double_of (1999 / 100)\<rparr>]
   = 1999"
  unfolding double_of_1999
  by (simp add: spec_amount_def exact_value_def floor_eq_iff)

text \<open>
  Claim C1 says that a catalog order stores exactly \<open>\<Sum> round(price \<times> 100) \<times> quantity\<close> against
  the phone, whatever the order of the items. The loop of the handler adds
  \<^verbatim>\<open>priceRupees * 100 * qty\<close> and never rounds (\<^verbatim>\<open>sendWhatsAppOrderDetails\<close> does, with
  \<^verbatim>\<open>Math.round\<close>, for the same price). One item of price 0.125 rupees and quantity 1 makes the
  handler store 12.5 where the claim gives 13. One item of price 19.99 and quantity 1 makes it
  store 1998.9999999999998 where the claim gives 1999; and the items of prices 0.07, 0.58 and
  19.99 give 2064 in this order and 2063.9999999999995 in the reverse order.
\<close>

theorem catalog_order_amount_unrounded:
  "map_option amount
     (orderSessions
        (st_after (post_root env0 ready_state
           (Some (order_of phone0
              [\<lparr>product_retailer_id = ''esltl7pftq'', quantity = Num 1, item_price = Num (1 / 8)\<rparr>]))))
        phone0) = Some (Num (25 / 2))
   \<and> spec_amount
        [\<lparr>product_retailer_id = ''esltl7pftq'', quantity = Num 1, item_price = Num (1 / 8)\<rparr>] = 13
   \<and> map_option amount
       (orderSessions
          (st_after (post_root env0 ready_state
             (Some (order_of phone0
                [\<lparr>product_retailer_id = ''esltl7pftq'', quantity = Num 1,
                  item_price = double_of (1999 / 100)\<rparr>]))))
          phone0) = Some (Num (8791694975696895 / 4398046511104))
   \<and> spec_amount
        [\<lparr>product_retailer_id = ''esltl7pftq'', quantity = Num 1,
          item_price = double_of (1999 / 100)\<rparr>] = 1999
   \<and> totalAmount
        [\<lparr>product_retailer_id = ''294l11gpcm'', quantity = Num 1, item_price = double_of (7 / 100)\<rparr>,
         \<lparr>product_retailer_id = ''m519x5gv9s'', quantity = Num 1, item_price = double_of (58 / 100)\<rparr>,
         \<lparr>product_retailer_id = ''esltl7pftq'', quantity = Num 1, item_price = double_of (1999 / 100)\<rparr>]
        (Num 0) = Num 2064
   \<and> totalAmount
        [\<lparr>product_retailer_id = ''esltl7pftq'', quantity = Num 1, item_price = double_of (1999 / 100)\<rparr>,
         \<lparr>product_retailer_id = ''m519x5gv9s'', quantity = Num 1, item_price = double_of (58 / 100)\<rparr>,
         \<lparr>product_retailer_id = ''294l11gpcm'', quantity = Num 1, item_price = double_of (7 / 100)\<rparr>]
        (Num 0) = Num (4538783999459327 / 2199023255552)"
  unfolding order_stored
  by (intro conjI)
     (simp_all only: totalAmount_eighth spec_amount_eighth totalAmount_1999 spec_amount_1999
        totalAmount_ascending totalAmount_descending)

section \<open>Cash on delivery\<close>

lemma fst_cod_quote: "fst (cod_quote r) = quoted_paise r"
  by (simp add: cod_quote_def quoted_paise_def
      split: charges_outcome.splits charges_data.splits list.splits option.splits)

lemma snd_cod_quote: "snd (cod_quote r) = (quote_parsed r \<or> r = ChargesReturn RespFalsy)"
  by (simp add: cod_quote_def quote_parsed_def
      split: charges_outcome.splits charges_data.splits list.splits option.splits)

lemma or_number_idem [simp]: "or_number (or_number v (Num 0)) (Num 0) = or_number v (Num 0)"
  by (simp add: or_number_def truthy_number_def)

lemma cod_branch_session:
  "orderSessions (st_after (cod_branch e p c oid s0 st sent)) oid =
     Some (s0\<lparr>cod_error := Some (snd (cod_quote (chargesResp e))),
              amount := js_add (js_add (or_number (amount s0) (Num 0)) (Num 15000))
                          (fst (cod_quote (chargesResp e))),
              payment_mode := Some ''COD'',
              shipping_charge := Some (fst (cod_quote (chargesResp e)))\<rparr>)"
  by (simp add: cod_branch_def Let_def split_beta split: shipment_outcome.splits option.splits)

lemma post_root_nfm:
  "content msg = NfmReply cd \<Longrightarrow>
   post_root e st (Some msg) =
     flow_submission e (normalizePhone (msg_from msg)) cd
       (rearm_idle_timer e (normalizePhone (msg_from msg))
          (ensure_order_list (normalizePhone (msg_from msg)) st))"
  by (simp add: post_root_def Let_def)

lemma flow_submission_cod:
  "c_flow_token c \<noteq> Some ''test_101'' \<Longrightarrow>
   is_cod_mode (toLowerCase (or_str (c_payment_mode c) '''')) \<Longrightarrow>
   flow_submission e p (Some c) st =
     cod_branch e p c (new_orderId e) (new_session (new_orderId e) p (Some c) (orderSessions st p))
       (st\<lparr>orderSessions := (orderSessions st)
              (new_orderId e \<mapsto> new_session (new_orderId e) p (Some c) (orderSessions st p)),
           phoneToOrderIds := (phoneToOrderIds st)
              (p \<mapsto> (case phoneToOrderIds st p of None \<Rightarrow> [] | Some ids \<Rightarrow> ids) @ [new_orderId e])\<rparr>)
       [SendWhatsAppText p (ThanksReceived (new_orderId e))]"
  by (simp add: flow_submission_def new_orderId_def Let_def)

lemma cod_submissionE:
  assumes "is_cod_submission msg"
  obtains c where "content msg = NfmReply (Some c)" "c_flow_token c \<noteq> Some ''test_101''"
    "is_cod_mode (toLowerCase (or_str (c_payment_mode c) ''''))"
  using assms by (auto simp add: is_cod_submission_def split: msg_content.splits option.splits)

lemma content_cod_submission: "content cod_submission = NfmReply (Some customer0)"
  by (simp add: cod_submission_def)

lemma from_cod_submission: "msg_from cod_submission = phone0"
  by (simp add: cod_submission_def)

lemma customer0_not_test: "c_flow_token customer0 \<noteq> Some ''test_101''"
  by (simp add: customer0_def)

lemma customer0_cod: "is_cod_mode (toLowerCase (or_str (c_payment_mode customer0) ''''))"
  by (simp add: customer0_def or_str_def text_eval is_cod_mode_def)

lemma cod_submission_is_cod: "is_cod_submission cod_submission"
  by (simp add: is_cod_submission_def content_cod_submission customer0_not_test customer0_cod)

lemma post_root_cod_submission:
  "post_root e st (Some cod_submission) =
     cod_branch e phone0 customer0 (new_orderId e)
       (new_session (new_orderId e) phone0 (Some customer0) (orderSessions st phone0))
       (rearm_idle_timer e phone0 (ensure_order_list phone0 st)
          \<lparr>orderSessions := (orderSessions st)
             (new_orderId e \<mapsto> new_session (new_orderId e) phone0 (Some customer0) (orderSessions st phone0)),
           phoneToOrderIds := (phoneToOrderIds (rearm_idle_timer e phone0 (ensure_order_list phone0 st)))
             (phone0 \<mapsto>
                (case phoneToOrderIds (rearm_idle_timer e phone0 (ensure_order_list phone0 st)) phone0 of
                   None \<Rightarrow> [] | Some ids \<Rightarrow> ids) @ [new_orderId e])\<rparr>)
       [SendWhatsAppText phone0 (ThanksReceived (new_orderId e))]"
  by (simp add: post_root_nfm[OF content_cod_submission] from_cod_submission
      flow_submission_cod[OF customer0_not_test customer0_cod])

lemma new_orderId_env0 [simp]:
  "new_orderId (env0\<lparr>chargesResp := a, delhiveryResp := b\<rparr>) = ''OUO-48213''"
  "new_orderId (env0\<lparr>chargesResp := a\<rparr>) = ''OUO-48213''"
  "new_orderId (env0\<lparr>delhiveryResp := b\<rparr>) = ''OUO-48213''"
  "new_orderId env0 = ''OUO-48213''"
  by (simp_all add: new_orderId_def env0_def)

lemma cod_amount_stored:
  assumes "is_cod_submission msg"
  shows "map_option amount (orderSessions (st_after (post_root e st (Some msg))) (new_orderId e)) =
         Some (js_add (js_add (pending_amount st (normalizePhone (msg_from msg))) (Num 15000))
                 (quoted_paise (chargesResp e)))"
proof -
  from assms obtain c where c: "content msg = NfmReply (Some c)"
    "c_flow_token c \<noteq> Some ''test_101''"
    "is_cod_mode (toLowerCase (or_str (c_payment_mode c) ''''))"
    by (rule cod_submissionE)
  show ?thesis
    by (simp add: post_root_nfm[OF c(1)] flow_submission_cod[OF c(2,3)] cod_branch_session
        fst_cod_quote pending_amount_def new_session_def or_number_def truthy_number_def
        split: option.splits)
qed

lemma quoted_paise_50:
  "quoted_paise (ChargesReturn (RespArray (Some (Num 50) # qs))) = Num 5000"
  by (simp add: quoted_paise_def number_eval double_eval)

text \<open>
  Claim C2: after a COD submission (one that is not the flow builder's test payload) the
  session stored under the new order id holds the pending product subtotal plus 15000
  paise plus the quote, \<^verbatim>\<open>Math.round(total_amount * 100)\<close> of the first quote of the response,
  or plus 0 when the call failed or gave no such total; a quote of 50.00 adds 5000. The
  sums are those of JavaScript numbers: they are the exact sums whenever the subtotal and
  the quote are whole numbers of paise and the total is below \<open>2 ^ 53\<close>.
\<close>

theorem cod_final_amount:
  assumes "is_cod_submission msg"
  shows "map_option amount (orderSessions (st_after (post_root e st (Some msg))) (new_orderId e)) =
           Some (js_add (js_add (pending_amount st (normalizePhone (msg_from msg))) (Num 15000))
                   (quoted_paise (chargesResp e)))
       \<and> (\<forall>t qs. chargesResp e = ChargesReturn (RespArray (Some t # qs)) \<and> truthy_number t \<longrightarrow>
             quoted_paise (chargesResp e) = Math_round (js_mul t (Num 100)))
       \<and> (\<not> quote_parsed (chargesResp e) \<longrightarrow> quoted_paise (chargesResp e) = Num 0)
       \<and> (\<forall>qs. chargesResp e = ChargesReturn (RespArray (Some (Num 50) # qs)) \<longrightarrow>
             quoted_paise (chargesResp e) = Num 5000)
       \<and> (\<forall>n q. pending_amount st (normalizePhone (msg_from msg)) = Num (of_int n)
               \<and> quoted_paise (chargesResp e) = Num (of_int q)
               \<and> \<bar>n + 15000\<bar> < 2 ^ 53 \<and> \<bar>n + 15000 + q\<bar> < 2 ^ 53 \<longrightarrow>
             map_option amount (orderSessions (st_after (post_root e st (Some msg))) (new_orderId e))
               = Some (Num (of_int (n + 15000 + q))))"
proof (intro conjI allI impI)
  show "map_option amount (orderSessions (st_after (post_root e st (Some msg))) (new_orderId e)) =
           Some (js_add (js_add (pending_amount st (normalizePhone (msg_from msg))) (Num 15000))
                   (quoted_paise (chargesResp e)))"
    by (rule cod_amount_stored[OF assms])
next
  fix t qs
  assume "chargesResp e = ChargesReturn (RespArray (Some t # qs)) \<and> truthy_number t"
  then show "quoted_paise (chargesResp e) = Math_round (js_mul t (Num 100))"
    by (simp add: quoted_paise_def)
next
  assume "\<not> quote_parsed (chargesResp e)"
  then show "quoted_paise (chargesResp e) = Num 0"
    by (simp add: quoted_paise_def quote_parsed_def
        split: charges_outcome.splits charges_data.splits list.splits option.splits)
next
  fix qs
  assume "chargesResp e = ChargesReturn (RespArray (Some (Num 50) # qs))"
  then show "quoted_paise (chargesResp e) = Num 5000"
    by (simp add: quoted_paise_50)
next
  fix n q
  assume a: "pending_amount st (normalizePhone (msg_from msg)) = Num (of_int n)
               \<and> quoted_paise (chargesResp e) = Num (of_int q)
               \<and> \<bar>n + 15000\<bar> < 2 ^ 53 \<and> \<bar>n + 15000 + q\<bar> < 2 ^ 53"
  have "js_add (Num (of_int n)) (Num 15000) = Num (of_int (n + 15000))"
    using js_add_int[of n 15000] a by simp
  moreover have "js_add (Num (of_int (n + 15000))) (Num (of_int q)) = Num (of_int (n + 15000 + q))"
    using js_add_int[of "n + 15000" q] a by simp
  ultimately show
    "map_option amount (orderSessions (st_after (post_root e st (Some msg))) (new_orderId e))
       = Some (Num (of_int (n + 15000 + q)))"
    using a by (simp add: cod_amount_stored[OF assms])
qed

text \<open>
  Scenario B of the specification: 20000 paise are pending, the mode is
  \<^verbatim>\<open>"Cash on Delivery"\<close> and the quote is 50.00 rupees, which adds exactly 5000 paise.
\<close>

theorem cod_final_amount_witness:
  "is_cod_submission cod_submission
   \<and> pending_amount ordered_state (normalizePhone (msg_from cod_submission)) = Num (of_int 20000)
   \<and> quoted_paise (chargesResp env0) = Num (of_int 5000)
   \<and> map_option amount
        (orderSessions (st_after (post_root env0 ordered_state (Some cod_submission))) ''OUO-48213'')
      = Some (Num 40000)"
proof -
  have q: "quoted_paise (chargesResp env0) = Num (of_int 5000)"
    by (simp add: env0_def quoted_paise_50)
  have p: "pending_amount ordered_state (normalizePhone (msg_from cod_submission)) = Num (of_int 20000)"
    by (simp add: from_cod_submission pending_ordered_state)
  note th = cod_final_amount[OF cod_submission_is_cod, of env0 ordered_state]
  have "map_option amount
        (orderSessions (st_after (post_root env0 ordered_state (Some cod_submission))) (new_orderId env0))
      = Some (Num (of_int (20000 + 15000 + 5000)))"
    using th[THEN conjunct2, THEN conjunct2, THEN conjunct2, THEN conjunct2, rule_format, of 20000 5000]
      p q by simp
  then show ?thesis
    using p q cod_submission_is_cod by simp
qed

text \<open>
  Where the arithmetic of doubles shows: a quote of 1.005 rupees is 100.49999999999999
  paise before \<^verbatim>\<open>Math.round\<close> and adds 100 paise, and the COD fee and a quote of 5000 paise on
  a pending 1998.9999999999998 give 21999.
\<close>

lemma quoted_paise_1005:
  "quoted_paise (ChargesReturn (RespArray [Some (double_of (201 / 200))])) = Num 100"
  by (simp add: quoted_paise_def number_eval double_eval)

lemma amount_after_1999:
  "js_add (js_add (Num (8791694975696895 / 4398046511104)) (Num 15000)) (Num 5000) = Num 21999"
  by (simp add: number_eval double_eval)

lemma shipments_created_simps [simp]:
  "shipments_created [] = []"
  "shipments_created (x # xs) =
     (case x of CreateDelhiveryShipment sh \<Rightarrow> [sh] | _ \<Rightarrow> []) @ shipments_created xs"
  "shipments_created (xs @ ys) = shipments_created xs @ shipments_created ys"
  by (simp_all add: shipments_created_def)

lemma rows_appended_simps [simp]:
  "rows_appended [] = []"
  "rows_appended (x # xs) = (case x of AppendToSheet r \<Rightarrow> [r] | _ \<Rightarrow> []) @ rows_appended xs"
  "rows_appended (xs @ ys) = rows_appended xs @ rows_appended ys"
  by (simp_all add: rows_appended_def)

lemma texts_sent_simps [simp]:
  "texts_sent p [] = []"
  "texts_sent p (x # xs) =
     (case x of SendWhatsAppText q m \<Rightarrow> (if q = p then [m] else []) | _ \<Rightarrow> []) @ texts_sent p xs"
  "texts_sent p (xs @ ys) = texts_sent p xs @ texts_sent p ys"
  by (simp_all add: texts_sent_def)

lemma cod_branch_shipments:
  "shipments_created (effects (cod_branch e p c oid s0 st sent)) =
     shipments_created sent @
     [cod_shipment e p c
        (s0\<lparr>cod_error := Some (snd (cod_quote (chargesResp e))),
            amount := js_add (js_add (or_number (amount s0) (Num 0)) (Num 15000))
                        (fst (cod_quote (chargesResp e))),
            payment_mode := Some ''COD'',
            shipping_charge := Some (fst (cod_quote (chargesResp e)))\<rparr>)
        (cod_total_wgt (prototype st) (productItems s0) (Num 0))
        (cod_product_names (prototype st) (productItems s0) @ ''+ COD charge 150 + shipping charge'')]"
  by (simp add: cod_branch_def Let_def split_beta
      split: shipment_outcome.splits option.splits)

text \<open>
  Claim C10: the one shipment-creation request of a COD submission carries the same text
  in \<^verbatim>\<open>cod_amount\<close> and \<^verbatim>\<open>total_amount\<close>: \<^verbatim>\<open>String(Math.round(session.amount / 100))\<close>, where
  \<^verbatim>\<open>session.amount\<close> is the whole amount of the session (product subtotal, COD fee of 15000
  paise and quoted shipping).
\<close>

theorem cod_shipment_collects_grand_total:
  assumes "is_cod_submission msg"
  shows "map cod_amount (shipments_created (effects (post_root e st (Some msg)))) =
           [String_number (Math_round (js_div
              (js_add (js_add (pending_amount st (normalizePhone (msg_from msg))) (Num 15000))
                 (quoted_paise (chargesResp e))) 100))]
       \<and> map total_amount (shipments_created (effects (post_root e st (Some msg)))) =
           map cod_amount (shipments_created (effects (post_root e st (Some msg))))
       \<and> map_option amount (orderSessions (st_after (post_root e st (Some msg))) (new_orderId e)) =
           Some (js_add (js_add (pending_amount st (normalizePhone (msg_from msg))) (Num 15000))
                   (quoted_paise (chargesResp e)))"
proof -
  from assms obtain c where c: "content msg = NfmReply (Some c)"
    "c_flow_token c \<noteq> Some ''test_101''"
    "is_cod_mode (toLowerCase (or_str (c_payment_mode c) ''''))"
    by (rule cod_submissionE)
  have "map cod_amount (shipments_created (effects (post_root e st (Some msg)))) =
           [String_number (Math_round (js_div
              (js_add (js_add (pending_amount st (normalizePhone (msg_from msg))) (Num 15000))
                 (quoted_paise (chargesResp e))) 100))]
       \<and> map total_amount (shipments_created (effects (post_root e st (Some msg)))) =
           map cod_amount (shipments_created (effects (post_root e st (Some msg))))"
    by (simp add: post_root_nfm[OF c(1)] flow_submission_cod[OF c(2,3)] cod_branch_shipments
        cod_shipment_def fst_cod_quote pending_amount_def new_session_def or_number_def
        truthy_number_def split: option.splits)
  then show ?thesis
    using cod_amount_stored[OF assms, of e st] by (simp only: simp_thms)
qed

lemma String_number_400: "String_number (Num 400) = ''400''"
  by (simp add: String_eval double_eval)

text \<open>
  With 20000 paise pending and a quote of 50.00 rupees the request asks the courier to
  collect 400 rupees: 200 for the products, 150 COD fee and 50 shipping.
\<close>

theorem cod_shipment_collects_grand_total_witness:
  "is_cod_submission cod_submission
   \<and> map cod_amount
        (shipments_created (effects (post_root env0 ordered_state (Some cod_submission)))) = [''400'']
   \<and> map total_amount
        (shipments_created (effects (post_root env0 ordered_state (Some cod_submission)))) = [''400'']
   \<and> map_option amount
        (orderSessions (st_after (post_root env0 ordered_state (Some cod_submission))) ''OUO-48213'')
      = Some (Num 40000)"
proof -
  have q: "quoted_paise (chargesResp env0) = Num 5000"
    by (simp add: env0_def quoted_paise_50)
  have g: "js_add (js_add (Num 20000) (Num 15000)) (Num 5000) = Num 40000"
    by (simp add: number_eval double_eval)
  have r: "String_number (Math_round (js_div (Num 40000) 100)) = ''400''"
    by (simp add: number_eval double_eval String_number_400)
  note th = cod_shipment_collects_grand_total[OF cod_submission_is_cod, of env0 ordered_state]
  have a: "map cod_amount
      (shipments_created (effects (post_root env0 ordered_state (Some cod_submission)))) = [''400'']"
    using th[THEN conjunct1]
    by (simp add: q from_cod_submission pending_ordered_state g r)
  have b: "map total_amount
      (shipments_created (effects (post_root env0 ordered_state (Some cod_submission)))) = [''400'']"
    using th[THEN conjunct2, THEN conjunct1] unfolding a .
  have d: "map_option amount
        (orderSessions (st_after (post_root env0 ordered_state (Some cod_submission))) ''OUO-48213'')
      = Some (Num 40000)"
    using th[THEN conjunct2, THEN conjunct2]
    by (simp add: q from_cod_submission pending_ordered_state g)
  from a b d cod_submission_is_cod show ?thesis
    by (intro conjI)
qed

text \<open>
  A quote of 8.495 rupees is 849.4999999999999 paise before \<^verbatim>\<open>Math.round\<close> and adds 849
  paise; on 20000 paise pending the request then asks for 358 rupees. From \<open>10 ^ 21\<close> on
  \<^verbatim>\<open>String\<close> prints a number with an exponent.
\<close>

lemma quoted_paise_8495:
  "quoted_paise (ChargesReturn (RespArray [Some (double_of (1699 / 200))])) = Num 849"
  by (simp add: quoted_paise_def number_eval double_eval)

lemma String_number_358:
  "String_number (Math_round (js_div (js_add (js_add (Num 20000) (Num 15000)) (Num 849)) 100))
   = ''358''"
  by (simp add: number_eval double_eval String_eval)

lemma String_number_exponent: "String_number (Num (10 ^ 21)) = ''1e+21''"
  by (simp add: number_eval double_eval String_eval)

section \<open>The flag \<^verbatim>\<open>cod_error\<close>\<close>

text \<open>
  Claim C5 reads the flag by its name: true exactly when the rate lookup failed. The
  handler sets it to \<^verbatim>\<open>true\<close> first and to \<^verbatim>\<open>false\<close> where the lookup fails, and persists the
  order only while it is \<^verbatim>\<open>true\<close>. With a quote of 50.00 rupees, which parses, the flag is true.
\<close>

theorem cod_error_true_on_parsed_quote:
  "quote_parsed (chargesResp env0)
   \<and> map_option cod_error
        (orderSessions (st_after (post_root env0 ordered_state (Some cod_submission))) ''OUO-48213'')
      = Some (Some True)"
proof -
  have p: "quote_parsed (chargesResp env0)"
    by (simp add: quote_parsed_def env0_def truthy_number_def)
  have "map_option cod_error
        (orderSessions (st_after (post_root env0 ordered_state (Some cod_submission))) (new_orderId env0))
      = Some (Some True)"
    by (simp only: post_root_cod_submission cod_branch_session snd_cod_quote p)
       (simp add: new_session_def)
  with p show ?thesis by simp
qed

text \<open>
  Claim C5 as amended: after a COD submission the flag is false exactly when the rate
  lookup threw or returned a non-empty body from which no total could be read; it is true
  when the first quote of the body carried a usable total, and also when the body was empty
  (\<^verbatim>\<open>if (chargesResp)\<close> is then skipped, and the flag keeps the \<^verbatim>\<open>true\<close> of line 1339).
\<close>

theorem cod_error_flag_inverted:
  assumes "is_cod_submission msg"
  shows "map_option cod_error
           (orderSessions (st_after (post_root e st (Some msg))) (new_orderId e)) =
         Some (Some (quote_parsed (chargesResp e) \<or> chargesResp e = ChargesReturn RespFalsy))"
proof -
  from assms(1) obtain c where c: "content msg = NfmReply (Some c)"
    "c_flow_token c \<noteq> Some ''test_101''"
    "is_cod_mode (toLowerCase (or_str (c_payment_mode c) ''''))"
    by (rule cod_submissionE)
  show ?thesis
    by (simp add: post_root_nfm[OF c(1)] flow_submission_cod[OF c(2,3)] cod_branch_session
        snd_cod_quote new_session_def)
qed

text \<open>The rate lookup throws: the flag is false.\<close>

theorem cod_error_flag_inverted_witness:
  "is_cod_submission cod_submission
   \<and> map_option cod_error
        (orderSessions
           (st_after (post_root (env0\<lparr>chargesResp := ChargesThrow\<rparr>) ordered_state (Some cod_submission)))
           ''OUO-48213'')
      = Some (Some False)"
  using cod_error_flag_inverted[OF cod_submission_is_cod,
      of "env0\<lparr>chargesResp := ChargesThrow\<rparr>" ordered_state]
  by (simp add: cod_submission_is_cod quote_parsed_def)

section \<open>Acknowledging the webhook\<close>

text \<open>
  Which runs are acknowledged. Every arm of the \<^verbatim>\<open>if/else\<close> chain ends in
  \<^verbatim>\<open>res.sendStatus(200)\<close>, and so does the prepaid arm of a submission; a submission is left
  by an exception when \<^verbatim>\<open>customerData\<close> is \<^verbatim>\<open>null\<close>, and a COD submission when
  \<^verbatim>\<open>createDelhiveryShipment\<close> throws or returns \<^verbatim>\<open>null\<close>.
\<close>

lemma response_finish [simp]: "response (finish p st sent r u b br) = Status 200"
  by (simp add: finish_def)

lemma response_reminder_followup [simp]: "response (reminder_followup e p body st) = Status 200"
  by (simp add: reminder_followup_def)

lemma response_dispatch: "response (dispatch e p c st) = Status 200"
  unfolding dispatch_def Let_def
  by (simp only: if_distrib[of response] option.case_distrib[of response] response_finish
      response_reminder_followup option.case_eq_if if_cancel)

lemma response_prepaid_branch [simp]:
  "response (prepaid_branch e p c oid s0 st sent) = Status 200"
  by (simp add: prepaid_branch_def Let_def split_beta)

lemma response_cod_branch:
  "response (cod_branch e p c oid s0 st sent) =
     (case delhiveryResp e of
        ShipmentThrow \<Rightarrow> Unacknowledged GatewayError
      | ShipmentReturn None \<Rightarrow> Unacknowledged TypeError
      | ShipmentReturn (Some success) \<Rightarrow> Status 200)"
  by (simp add: cod_branch_def Let_def split_beta split: shipment_outcome.splits option.splits)

lemma response_post_root:
  "response (post_root e st req) =
     (case req of
        None \<Rightarrow> Status 200
      | Some msg \<Rightarrow>
          if is_cod_submission msg then
            (case delhiveryResp e of
               ShipmentThrow \<Rightarrow> Unacknowledged GatewayError
             | ShipmentReturn None \<Rightarrow> Unacknowledged TypeError
             | ShipmentReturn (Some success) \<Rightarrow> Status 200)
          else if content msg = NfmReply None then Unacknowledged TypeError
          else Status 200)"
proof (cases req)
  case None
  then show ?thesis by (simp add: post_root_def)
next
  case (Some msg)
  show ?thesis
  proof (cases "content msg")
    case (NfmReply cd)
    then show ?thesis
      using Some
      by (simp add: post_root_nfm flow_submission_def response_cod_branch is_cod_submission_def
          Let_def split: option.splits)
  qed (simp_all add: Some post_root_def Let_def response_dispatch is_cod_submission_def)
qed

lemma response_payments_webhook:
  "response (payments_webhook e st body) =
     (case payload body of
        None \<Rightarrow> Unacknowledged TypeError
      | Some p \<Rightarrow>
          let status = toLowerCase (or_str (event body) '''') in
          if lookup_session st p = Primitive \<and> \<not> str_includes status ''paid''
             \<and> (str_includes status ''failed'' \<or> str_includes status ''cancel''
                 \<or> str_includes status ''expired'')
          then Unacknowledged TypeError
          else Status 200)"
  by (simp add: payments_webhook_def Let_def split_beta split: option.splits resolved.splits)

lemma cod_branch_quote_throw:
  assumes "chargesResp e = ChargesThrow" and "delhiveryResp e = ShipmentReturn (Some success)"
  shows "response (cod_branch e p c oid s0 st sent) = Status 200
         \<and> rows_appended (effects (cod_branch e p c oid s0 st sent)) = rows_appended sent
         \<and> texts_sent p (effects (cod_branch e p c oid s0 st sent)) =
             texts_sent p sent @ [InvalidFlowData]"
  using assms by (simp add: cod_branch_def Let_def split_beta cod_quote_def)

lemma cod_branch_shipment_throw:
  "delhiveryResp e = ShipmentThrow \<Longrightarrow>
   response (cod_branch e p c oid s0 st sent) = Unacknowledged GatewayError
   \<and> rows_appended (effects (cod_branch e p c oid s0 st sent)) = rows_appended sent
   \<and> texts_sent p (effects (cod_branch e p c oid s0 st sent)) = texts_sent p sent"
  by (simp add: cod_branch_def Let_def split_beta)

text \<open>
  Claim C4 says every run of a webhook handler ends with status 200. In the COD branch
  \<^verbatim>\<open>await createDelhiveryShipment({ shipment })\<close> stands outside any \<^verbatim>\<open>try\<close>, and the helper
  rethrows: when the gateway call fails the exception leaves the handler before
  \<^verbatim>\<open>res.sendStatus(200)\<close>. (\<^verbatim>\<open>finalizePaidOrder\<close> wraps the same call in \<^verbatim>\<open>try/catch\<close>.)
\<close>

theorem cod_shipment_throw_unacknowledged:
  "response (post_root (env0\<lparr>delhiveryResp := ShipmentThrow\<rparr>) ordered_state (Some cod_submission))
     = Unacknowledged GatewayError"
  by (simp add: post_root_cod_submission cod_branch_shipment_throw)

text \<open>
  Claim C6 (scenario C): the rate quote throws. When the shipment call returns an object,
  the reply is the "invalid data" message and no row is appended (\<open>cod_branch_quote_throw\<close>).
  But when the shipment call throws as well (the network is down for both), the amount is
  the pending 20000 plus 15000 plus 0 and no row is appended, as claimed, and the handler is
  left before any reply: the only text sent is the receipt of the details, not the
  "invalid data" message, and the webhook is not acknowledged.
\<close>

theorem cod_quote_throw_no_invalid_data_message:
  "map_option amount
     (orderSessions
        (st_after (post_root (env0\<lparr>chargesResp := ChargesThrow, delhiveryResp := ShipmentThrow\<rparr>)
           ordered_state (Some cod_submission)))
        ''OUO-48213'') = Some (Num (20000 + 15000 + 0))
   \<and> rows_appended
        (effects (post_root (env0\<lparr>chargesResp := ChargesThrow, delhiveryResp := ShipmentThrow\<rparr>)
           ordered_state (Some cod_submission))) = []
   \<and> texts_sent phone0
        (effects (post_root (env0\<lparr>chargesResp := ChargesThrow, delhiveryResp := ShipmentThrow\<rparr>)
           ordered_state (Some cod_submission))) = [ThanksReceived ''OUO-48213'']
   \<and> response (post_root (env0\<lparr>chargesResp := ChargesThrow, delhiveryResp := ShipmentThrow\<rparr>)
        ordered_state (Some cod_submission)) = Unacknowledged GatewayError"
proof -
  have g: "js_add (js_add (Num 20000) (Num 15000)) (Num 0) = Num 35000"
    by (simp add: number_eval double_eval)
  have a: "map_option amount
     (orderSessions
        (st_after (post_root (env0\<lparr>chargesResp := ChargesThrow, delhiveryResp := ShipmentThrow\<rparr>)
           ordered_state (Some cod_submission)))
        (new_orderId (env0\<lparr>chargesResp := ChargesThrow, delhiveryResp := ShipmentThrow\<rparr>)))
      = Some (Num (20000 + 15000 + 0))"
    using cod_amount_stored[OF cod_submission_is_cod,
        of "env0\<lparr>chargesResp := ChargesThrow, delhiveryResp := ShipmentThrow\<rparr>" ordered_state]
    by (simp add: from_cod_submission pending_ordered_state quoted_paise_def g)
  have b: "rows_appended
        (effects (post_root (env0\<lparr>chargesResp := ChargesThrow, delhiveryResp := ShipmentThrow\<rparr>)
           ordered_state (Some cod_submission))) = []"
    by (simp add: post_root_cod_submission cod_branch_shipment_throw)
  have d: "texts_sent phone0
        (effects (post_root (env0\<lparr>chargesResp := ChargesThrow, delhiveryResp := ShipmentThrow\<rparr>)
           ordered_state (Some cod_submission))) = [ThanksReceived ''OUO-48213'']"
    by (simp add: post_root_cod_submission cod_branch_shipment_throw)
  have r: "response (post_root (env0\<lparr>chargesResp := ChargesThrow, delhiveryResp := ShipmentThrow\<rparr>)
        ordered_state (Some cod_submission)) = Unacknowledged GatewayError"
    by (simp add: post_root_cod_submission cod_branch_shipment_throw)
  from a b d r show ?thesis
    by simp
qed

section \<open>Resolving the session of a payment\<close>

lemma phoneToOrderIds_rearm [simp]:
  "phoneToOrderIds (rearm_idle_timer e p st) = phoneToOrderIds st"
  by (simp add: rearm_idle_timer_def setTimeout_def clearTimeout_def Let_def split: option.splits)

lemma phoneToOrderIds_ensure:
  "phoneToOrderIds (ensure_order_list p st) p =
     Some (case phoneToOrderIds st p of None \<Rightarrow> [] | Some ids \<Rightarrow> ids)"
  by (simp add: ensure_order_list_def split: option.splits)

lemma phoneToOrderIds_cod_branch [simp]:
  "phoneToOrderIds (st_after (cod_branch e p c oid s0 st sent)) = phoneToOrderIds st"
  by (simp add: cod_branch_def Let_def split_beta split: shipment_outcome.splits option.splits)

lemma prototype_cod_branch [simp]:
  "prototype (st_after (cod_branch e p c oid s0 st sent)) = prototype st"
  by (simp add: cod_branch_def Let_def split_beta split: shipment_outcome.splits option.splits)

lemma orderSessions_cod_branch_other:
  "k \<noteq> oid \<Longrightarrow>
   orderSessions (st_after (cod_branch e p c oid s0 st sent)) k = orderSessions st k"
  by (simp add: cod_branch_def Let_def split_beta split: shipment_outcome.splits option.splits)

lemma ordered_state_eq:
  "ordered_state =
     catalog_order phone0
       (Some \<lparr>catalog_id = Some ''1180224730488583'',
              product_items =
                [\<lparr>product_retailer_id = ''m519x5gv9s'', quantity = Num 2, item_price = Num 100\<rparr>]\<rparr>)
       (rearm_idle_timer env0 phone0 (ensure_order_list phone0 ready_state))"
proof -
  have "findIntentBasedResponse (intentBasedQA ready_state) ''order_received'' = None"
    by (simp add: ready_state_def order_received_no_intent)
  then show ?thesis
    by (simp add: ordered_state_def post_root_def order_of_def Let_def dispatch_order finish_def)
qed

lemma phoneToOrderIds_ordered_state: "phoneToOrderIds ordered_state phone0 = Some []"
  by (simp add: ordered_state_eq catalog_order_def phoneToOrderIds_ensure ready_state_def
      init_state_def)

lemma ordered_state_other: "k \<noteq> phone0 \<Longrightarrow> orderSessions ordered_state k = None"
  by (simp add: ordered_state_eq catalog_order_def ready_state_def init_state_def)

lemma prototype_ordered_state:
  "prototype ordered_state = \<lparr>added_payment_status = None, added_shipping_charge = None\<rparr>"
  by (simp add: ordered_state_eq catalog_order_def ready_state_def init_state_def)

lemma submitted_state_session:
  "orderSessions submitted_state ''OUO-48213'' =
     Some \<lparr>orderId = Some ''OUO-48213'', phone = Some phone0, customer = Some customer0,
           step = Some 4, catalogId = None,
           productItems =
             [\<lparr>product_retailer_id = ''m519x5gv9s'', quantity = Num 2, item_price = Num 100\<rparr>],
           amount = Num 40000, cod_error = Some True, payment_mode = Some ''COD'',
           shipping_charge = Some (Num 5000), payment_status = None\<rparr>"
proof -
  have o: "orderSessions ordered_state phone0 =
      Some (blank_session
        \<lparr>catalogId := Some ''1180224730488583'',
         productItems :=
           [\<lparr>product_retailer_id = ''m519x5gv9s'', quantity = Num 2, item_price = Num 100\<rparr>],
         amount := Num 20000\<rparr>)"
    by (simp add: ordered_state_eq catalog_order_def ready_state_def init_state_def
        number_eval parseInt_number_2 double_eval)
  have q: "cod_quote (chargesResp env0) = (Num 5000, True)"
    by (simp add: cod_quote_def env0_def number_eval double_eval)
  have g: "js_add (js_add (Num 20000) (Num 15000)) (Num 5000) = Num 40000"
    by (simp add: number_eval double_eval)
  have "orderSessions submitted_state (new_orderId env0) =
     Some \<lparr>orderId = Some ''OUO-48213'', phone = Some phone0, customer = Some customer0,
           step = Some 4, catalogId = None,
           productItems =
             [\<lparr>product_retailer_id = ''m519x5gv9s'', quantity = Num 2, item_price = Num 100\<rparr>],
           amount = Num 40000, cod_error = Some True, payment_mode = Some ''COD'',
           shipping_charge = Some (Num 5000), payment_status = None\<rparr>"
    by (simp only: submitted_state_def post_root_cod_submission cod_branch_session)
       (simp add: new_session_def o q blank_session_def or_number_def truthy_number_def g)
  then show ?thesis by simp
qed

lemma submitted_state_ids: "phoneToOrderIds submitted_state phone0 = Some [''OUO-48213'']"
  by (simp add: submitted_state_def post_root_cod_submission phoneToOrderIds_ensure
      phoneToOrderIds_ordered_state)

lemma submitted_state_other:
  "k \<noteq> phone0 \<Longrightarrow> k \<noteq> ''OUO-48213'' \<Longrightarrow> orderSessions submitted_state k = None"
  by (simp add: submitted_state_def post_root_cod_submission orderSessions_cod_branch_other
      ordered_state_other)

lemma prototype_submitted_state:
  "prototype submitted_state = \<lparr>added_payment_status = None, added_shipping_charge = None\<rparr>"
  by (simp add: submitted_state_def post_root_cod_submission prototype_ordered_state)

lemma normalize_contact: "normalizePhone ''+91 98765 43210'' = phone0"
  by (simp add: normalizePhone_def phone0_def isDigit_def)

subsection \<open>Sessions that the table holds\<close>

text \<open>
  The reference id is the first present (non-empty) one of \<^verbatim>\<open>payment_link.reference_id\<close>,
  \<^verbatim>\<open>payment.reference_id\<close> and \<^verbatim>\<open>payment.notes.orderId\<close>. A session stored under it is the
  session of the webhook; when the table holds nothing under it and it is no key of
  \<^verbatim>\<open>Object.prototype\<close>, the session is the one of the last order id of the payer's phone.
\<close>

lemma referenceId_of_order:
  "referenceId_of p =
     (if truthy (payment_link_reference_id p) then payment_link_reference_id p
      else if truthy (payment_reference_id p) then payment_reference_id p
      else if truthy (payment_notes_orderId p) then payment_notes_orderId p
      else None)"
  by (simp add: referenceId_of_def)

lemma lookup_session_stored:
  assumes "referenceId_of p = Some r" and "orderSessions st r = Some s"
  shows "lookup_session st p = Session r s"
  using assms by (simp add: lookup_session_def resolve_def lookup_def)

lemma lookup_session_fallback:
  assumes "referenceId_of p = Some r" and "resolve st r = NoSession"
    and "payer_phone p \<noteq> []" and "phoneToOrderIds st (payer_phone p) = Some ids" and "ids \<noteq> []"
  shows "lookup_session st p = resolve st (last ids)"
  using assms by (simp add: lookup_session_def Let_def)

lemma payments_webhook_paid:
  assumes "payload body = Some p" and "lookup_session st p = Session k s"
    and "str_includes (toLowerCase (or_str (event body) '''')) ''paid''"
  shows "st_after (payments_webhook e st body) =
           st\<lparr>orderSessions := (orderSessions st)(k \<mapsto> fst (finalizePaidOrder e (prototype st) s))\<rparr>
       \<and> effects (payments_webhook e st body) = snd (finalizePaidOrder e (prototype st) s)
       \<and> response (payments_webhook e st body) = Status 200"
  using assms by (simp add: payments_webhook_def Let_def split_beta)

lemma payments_webhook_no_session:
  assumes "payload body = Some p" and "lookup_session st p = NoSession"
  shows "payments_webhook e st body =
           \<lparr>st_after = st, effects = [], response = Status 200, branch = PaymentWebhook\<rparr>"
  using assms by (simp add: payments_webhook_def Let_def)

subsection \<open>A reference id that names a member of \<^verbatim>\<open>Object.prototype\<close>\<close>

lemma paid_event: "str_includes (toLowerCase (or_str (Some ''payment_link.paid'') '''')) ''paid''"
  by (simp add: or_str_def text_eval)

lemma prepaid_quote_env0: "prepaid_quote (chargesResp env0) = Num 5000"
  by (simp add: prepaid_quote_def env0_def number_eval double_eval)

lemma finalize_blank:
  "finalizePaidOrder env0 \<lparr>added_payment_status = None, added_shipping_charge = None\<rparr> blank_session =
     (blank_session\<lparr>payment_status := Some Paid, shipping_charge := Some (Num 5000)\<rparr>,
      [SendWhatsAppText '''' PaymentSuccessful,
       GetDelhiveryCharges \<lparr>dest_pin = '''', cgm = Num 0, pt = ''Pre-paid''\<rparr>,
       CreateDelhiveryShipment
         \<lparr>sh_name = ''Customer'', sh_add = '''', sh_pin = '''', sh_city = '''', sh_state = '''',
          sh_phone = '''', sh_order = ''Order_0'', sh_payment_mode = ''Prepaid'',
          products_desc = ''+ shipping charge'', cod_amount = ''0'', total_amount = ''NaN'',
          weight = WeightBlank\<rparr>,
       SendWhatsAppText '''' ShipmentCreated,
       AppendToSheet
         \<lparr>row_name = '''', row_phone = '''', row_email = '''', row_address = '''',
          row_pincode = '''', row_items = [], row_mode = ''Prepaid'', row_status = ''Paid'',
          row_amount = NaN, row_shipping = Some (Num 50), row_cod = Some (Num 0),
          row_orderId = None\<rparr>])"
proof -
  have t: "trim '' '' = ''''"
    by (simp add: text_eval)
  have d: "String_digits 0 = ''0''"
    by (simp add: String_digits.simps digitChar_def)
  have n: "now env0 = 0" "delhiveryResp env0 = ShipmentReturn (Some True)"
    by (simp_all add: env0_def)
  show ?thesis
    by (simp add: finalizePaidOrder_def prepaid_quote_env0 blank_session_def or_str_def
        customer_pin_def paid_shipment_def paid_row_def customer_field_def order_label_def t d
        n js_div_def Math_round_def String_number_def double_eval)
qed

text \<open>
  Claim C7 says that when no session is stored under the reference id the handler looks the
  session up by the payer's phone. On the state with the one order \<^verbatim>\<open>OUO-48213\<close> of phone
  919876543210, a paid notification with the reference id \<^verbatim>\<open>constructor\<close> and the contact
  \<^verbatim>\<open>+91 98765 43210\<close> should then finalize that order. The table holds nothing under
  \<^verbatim>\<open>constructor\<close>, but \<^verbatim>\<open>orderSessions['constructor']\<close> is the function \<^verbatim>\<open>Object\<close>, which is
  truthy: the handler takes it for the session, confirms a payment to no recipient, creates
  a shipment for \<^verbatim>\<open>Customer\<close> with the total \<^verbatim>\<open>NaN\<close> and appends a \<^verbatim>\<open>Paid\<close> row without an order
  id, and the order of the payer stays unpaid.
\<close>

theorem prototype_member_taken_for_session:
  "orderSessions submitted_state ''constructor'' = None
   \<and> referenceId_of (contact_payload ''constructor'' ''+91 98765 43210'') = Some ''constructor''
   \<and> phoneToOrderIds submitted_state
        (payer_phone (contact_payload ''constructor'' ''+91 98765 43210'')) = Some [''OUO-48213'']
   \<and> lookup_session submitted_state (contact_payload ''constructor'' ''+91 98765 43210'')
      = PrototypeMember ''constructor''
   \<and> effects (payments_webhook env0 submitted_state
        \<lparr>event = Some ''payment_link.paid'',
         payload = Some (contact_payload ''constructor'' ''+91 98765 43210'')\<rparr>)
      = [SendWhatsAppText '''' PaymentSuccessful,
         GetDelhiveryCharges \<lparr>dest_pin = '''', cgm = Num 0, pt = ''Pre-paid''\<rparr>,
         CreateDelhiveryShipment
           \<lparr>sh_name = ''Customer'', sh_add = '''', sh_pin = '''', sh_city = '''', sh_state = '''',
            sh_phone = '''', sh_order = ''Order_0'', sh_payment_mode = ''Prepaid'',
            products_desc = ''+ shipping charge'', cod_amount = ''0'', total_amount = ''NaN'',
            weight = WeightBlank\<rparr>,
         SendWhatsAppText '''' ShipmentCreated,
         AppendToSheet
           \<lparr>row_name = '''', row_phone = '''', row_email = '''', row_address = '''',
            row_pincode = '''', row_items = [], row_mode = ''Prepaid'', row_status = ''Paid'',
            row_amount = NaN, row_shipping = Some (Num 50), row_cod = Some (Num 0),
            row_orderId = None\<rparr>]
   \<and> st_after (payments_webhook env0 submitted_state
        \<lparr>event = Some ''payment_link.paid'',
         payload = Some (contact_payload ''constructor'' ''+91 98765 43210'')\<rparr>) = submitted_state
   \<and> map_option payment_status (orderSessions submitted_state ''OUO-48213'') = Some None"
proof -
  let ?p = "contact_payload ''constructor'' ''+91 98765 43210''"
  have none: "orderSessions submitted_state ''constructor'' = None"
    by (simp add: submitted_state_other phone0_def)
  have r: "referenceId_of ?p = Some ''constructor''"
    by (simp add: referenceId_of_def contact_payload_def payment_link_reference_id_def
        payment_reference_id_def truthy_def)
  have ph: "payer_phone ?p = phone0"
    by (simp add: payer_phone_def contact_payload_def or_str_def normalize_contact Let_def
        truthy_def)
  have l: "lookup_session submitted_state ?p = PrototypeMember ''constructor''"
    by (simp add: lookup_session_def r resolve_def lookup_def none Object_prototype_def)
  have w: "payments_webhook env0 submitted_state
        \<lparr>event = Some ''payment_link.paid'', payload = Some ?p\<rparr> =
      \<lparr>st_after = submitted_state,
       effects = snd (finalizePaidOrder env0
          \<lparr>added_payment_status = None, added_shipping_charge = None\<rparr> blank_session),
       response = Status 200, branch = PaymentWebhook\<rparr>"
    using paid_event
    by (simp add: payments_webhook_def l Let_def split_beta prototype_submitted_state)
  show ?thesis
    unfolding w finalize_blank
    by (simp add: none r ph submitted_state_ids l submitted_state_session)
qed

text \<open>
  The same notification with the reference id of the order finds the session that the
  table holds, marks it paid and appends its row.
\<close>

lemma payment_by_reference:
  "lookup_session submitted_state (link_payload ''OUO-48213'') =
     Session ''OUO-48213'' (the (orderSessions submitted_state ''OUO-48213''))
   \<and> map_option payment_status
        (orderSessions
           (st_after (payments_webhook env0 submitted_state
              \<lparr>event = Some ''payment_link.paid'', payload = Some (link_payload ''OUO-48213'')\<rparr>))
           ''OUO-48213'') = Some (Some Paid)
   \<and> map row_orderId
        (rows_appended
           (effects (payments_webhook env0 submitted_state
              \<lparr>event = Some ''payment_link.paid'', payload = Some (link_payload ''OUO-48213'')\<rparr>)))
      = [Some ''OUO-48213'']"
proof -
  have r: "referenceId_of (link_payload ''OUO-48213'') = Some ''OUO-48213''"
    by (simp add: referenceId_of_def link_payload_def payment_link_reference_id_def truthy_def)
  note l = lookup_session_stored[OF r submitted_state_session]
  have p: "payload \<lparr>event = Some ''payment_link.paid'', payload = Some (link_payload ''OUO-48213'')\<rparr>
           = Some (link_payload ''OUO-48213'')"
    by simp
  have e: "str_includes
      (toLowerCase (or_str (event \<lparr>event = Some ''payment_link.paid'',
         payload = Some (link_payload ''OUO-48213'')\<rparr>) '''')) ''paid''"
    using paid_event by simp
  note w = payments_webhook_paid[OF p l e, of env0]
  show ?thesis
    unfolding w[THEN conjunct1] w[THEN conjunct2, THEN conjunct1]
    by (simp add: l submitted_state_session finalizePaidOrder_def Let_def paid_row_def
        rows_appended_def)
qed

section \<open>Order ids\<close>

lemma orderIds_announced_simps [simp]:
  "orderIds_announced [] = []"
  "orderIds_announced (x # xs) =
     (case x of SendWhatsAppText p (ThanksReceived oid) \<Rightarrow> [oid] | _ \<Rightarrow> []) @ orderIds_announced xs"
  "orderIds_announced (xs @ ys) = orderIds_announced xs @ orderIds_announced ys"
  by (simp_all add: orderIds_announced_def)

lemma announced_cod_branch:
  "orderIds_announced (effects (cod_branch e p c oid s0 st sent)) = orderIds_announced sent"
  by (simp add: cod_branch_def Let_def split_beta split: shipment_outcome.splits option.splits)

lemma announced_prepaid_branch:
  "orderIds_announced (effects (prepaid_branch e p c oid s0 st sent)) = orderIds_announced sent"
  by (simp add: prepaid_branch_def sendWhatsAppOrderDetails_def Let_def split_beta)

lemma announced_flow_submission:
  assumes "case cd of None \<Rightarrow> True | Some c \<Rightarrow> c_flow_token c \<noteq> Some ''test_101''"
  shows "orderIds_announced (effects (flow_submission e p cd st)) = [new_orderId e]"
proof (cases cd)
  case None
  then show ?thesis
    by (simp add: flow_submission_def Let_def new_orderId_def)
next
  case (Some c)
  with assms have "c_flow_token c \<noteq> Some ''test_101''" by simp
  with Some show ?thesis
    by (simp add: flow_submission_def Let_def new_orderId_def announced_cod_branch
        announced_prepaid_branch)
qed

lemma announced_post_root:
  assumes "is_submission msg"
  shows "orderIds_announced (effects (post_root e st (Some msg))) = [new_orderId e]"
proof -
  from assms obtain cd where cd: "content msg = NfmReply cd"
    "case cd of None \<Rightarrow> True | Some c \<Rightarrow> c_flow_token c \<noteq> Some ''test_101''"
    by (auto simp add: is_submission_def split: msg_content.splits option.splits)
  show ?thesis
    by (simp add: post_root_nfm[OF cd(1)] announced_flow_submission[OF cd(2)])
qed

lemma announced_run:
  "list_all (\<lambda>x. is_submission (snd x)) xs \<Longrightarrow>
   orderIds_announced (snd (run (submissions xs) st)) = map (\<lambda>x. new_orderId (fst x)) xs"
proof (induction xs arbitrary: st)
  case Nil
  then show ?case by (simp add: submissions_def)
next
  case (Cons x xs)
  from Cons.prems have x: "is_submission (snd x)" and xs: "list_all (\<lambda>x. is_submission (snd x)) xs"
    by simp_all
  have "orderIds_announced (snd (run (submissions (x # xs)) st)) =
        orderIds_announced (effects (post_root (fst x) st (Some (snd x))))
        @ orderIds_announced
            (snd (run (submissions xs) (st_after (post_root (fst x) st (Some (snd x))))))"
    by (simp add: submissions_def split_beta Let_def)
  then show ?case
    by (simp add: announced_post_root[OF x] Cons.IH[OF xs])
qed

lemma orderId_format_new: "five_digits (uid e) \<Longrightarrow> orderId_format (new_orderId e)"
  by (simp add: five_digits_def orderId_format_def new_orderId_def)

lemma distinct_new_orderIds:
  "distinct (map (\<lambda>x. new_orderId (fst x)) xs) = distinct (map (\<lambda>x. uid (fst x)) xs)"
proof -
  have "map (\<lambda>x. new_orderId (fst x)) xs = map ((@) ''OUO-'') (map (\<lambda>x. uid (fst x)) xs)"
    by (simp add: new_orderId_def)
  moreover have "inj_on ((@) ''OUO-'') A" for A :: "string set"
    by (simp add: inj_on_def)
  ultimately show ?thesis
    by (simp only: distinct_map) simp
qed

text \<open>There are only \<open>10\<^sup>5\<close> strings of five digits.\<close>

lemma too_many_draws:
  assumes "list_all five_digits us" and "100000 < length us"
  shows "\<not> distinct us"
proof
  assume d: "distinct us"
  define D where "D = set ''0123456789''"
  define S where "S = {xs. set xs \<subseteq> D \<and> length xs = 5}"
  have sub: "set us \<subseteq> S"
    using assms(1) unfolding S_def D_def list_all_iff five_digits_def isDigit_def by blast
  have finD: "finite D"
    by (simp add: D_def)
  have fin: "finite S"
    unfolding S_def by (rule finite_lists_length_eq[OF finD])
  have ten: "card D = 10"
    unfolding D_def by (subst distinct_card) simp_all
  have "card S = card D ^ 5"
    unfolding S_def by (rule card_lists_length_eq[OF finD])
  then have c: "card S = 100000"
    by (simp only: ten) simp
  have "length us = card (set us)"
    using d by (simp add: distinct_card)
  also have "\<dots> \<le> card S"
    by (rule card_mono[OF fin sub])
  finally have "length us \<le> card S" .
  with assms(2) c show False
    by linarith
qed

text \<open>
  Claim C8 says that any number of submissions get pairwise distinct order ids. An id is
  \<^verbatim>\<open>OUO-\<close> and five digits drawn at random by a fresh generator, and nothing compares it
  with the ids in use: two submissions that draw the same digits get the same id.
\<close>

theorem same_draw_same_orderId:
  "list_all (\<lambda>x. is_submission (snd x) \<and> five_digits (uid (fst x)))
     [(env0, cod_submission), (env0, cod_submission)]
   \<and> orderIds_announced
        (snd (run (submissions [(env0, cod_submission), (env0, cod_submission)]) ordered_state))
      = [''OUO-48213'', ''OUO-48213'']
   \<and> \<not> distinct
        (orderIds_announced
           (snd (run (submissions [(env0, cod_submission), (env0, cod_submission)]) ordered_state)))"
proof -
  have s: "is_submission cod_submission"
    by (simp add: is_submission_def content_cod_submission customer0_not_test)
  have f: "five_digits (uid env0)"
    by (simp add: five_digits_def env0_def isDigit_def)
  have a: "orderIds_announced
        (snd (run (submissions [(env0, cod_submission), (env0, cod_submission)]) ordered_state))
      = [''OUO-48213'', ''OUO-48213'']"
    by (subst announced_run) (simp_all add: s)
  show ?thesis
    unfolding a using s f by simp
qed

text \<open>
  Claim C8 as amended: \<open>N\<close> submissions (none of them the test payload), each drawing five
  digits, announce \<open>N\<close> order ids, the ids of the draws in order; each has the format
  \<^verbatim>\<open>OUO-<5 digits>\<close>; they are pairwise distinct exactly when the draws are; and more than
  100000 of them are never pairwise distinct.
\<close>

theorem orderIds_of_submissions:
  assumes "list_all (\<lambda>x. is_submission (snd x) \<and> five_digits (uid (fst x))) xs"
  shows "orderIds_announced (snd (run (submissions xs) st)) = map (\<lambda>x. new_orderId (fst x)) xs
       \<and> length (orderIds_announced (snd (run (submissions xs) st))) = length xs
       \<and> list_all orderId_format (orderIds_announced (snd (run (submissions xs) st)))
       \<and> (distinct (orderIds_announced (snd (run (submissions xs) st)))
            \<longleftrightarrow> distinct (map (\<lambda>x. uid (fst x)) xs))
       \<and> (100000 < length xs \<longrightarrow>
            \<not> distinct (orderIds_announced (snd (run (submissions xs) st))))"
proof -
  from assms have sub: "list_all (\<lambda>x. is_submission (snd x)) xs"
    and dig: "list_all five_digits (map (\<lambda>x. uid (fst x)) xs)"
    by (simp_all add: list_all_iff)
  have a: "orderIds_announced (snd (run (submissions xs) st)) = map (\<lambda>x. new_orderId (fst x)) xs"
    by (rule announced_run[OF sub])
  have b: "list_all orderId_format (map (\<lambda>x. new_orderId (fst x)) xs)"
    using assms by (simp add: list_all_iff orderId_format_new)
  have c: "100000 < length xs \<longrightarrow> \<not> distinct (map (\<lambda>x. uid (fst x)) xs)"
    using too_many_draws[OF dig] by simp
  show ?thesis
    unfolding a using b c by (simp add: distinct_new_orderIds)
qed

text \<open>Two submissions that draw 48213 and 48214.\<close>

theorem orderIds_of_submissions_witness:
  "list_all (\<lambda>x. is_submission (snd x) \<and> five_digits (uid (fst x)))
     [(env0, cod_submission), (env0\<lparr>uid := ''48214''\<rparr>, cod_submission)]
   \<and> orderIds_announced
        (snd (run (submissions [(env0, cod_submission), (env0\<lparr>uid := ''48214''\<rparr>, cod_submission)])
           ordered_state))
      = [''OUO-48213'', ''OUO-48214'']
   \<and> list_all orderId_format [''OUO-48213'', ''OUO-48214'']
   \<and> distinct [''OUO-48213'', ''OUO-48214'']"
proof -
  have s: "is_submission cod_submission"
    by (simp add: is_submission_def content_cod_submission customer0_not_test)
  have f: "five_digits (uid env0)" "five_digits (uid (env0\<lparr>uid := ''48214''\<rparr>))"
    by (simp_all add: five_digits_def env0_def isDigit_def)
  have h: "list_all (\<lambda>x. is_submission (snd x) \<and> five_digits (uid (fst x)))
     [(env0, cod_submission), (env0\<lparr>uid := ''48214''\<rparr>, cod_submission)]"
    using s f by simp
  have n: "new_orderId (env0\<lparr>uid := ''48214''\<rparr>) = ''OUO-48214''"
    by (simp add: new_orderId_def)
  note th = orderIds_of_submissions[OF h, of ordered_state]
  have a: "orderIds_announced
        (snd (run (submissions [(env0, cod_submission), (env0\<lparr>uid := ''48214''\<rparr>, cod_submission)])
           ordered_state))
      = [''OUO-48213'', ''OUO-48214'']"
    using th[THEN conjunct1] by (simp add: n)
  have b: "list_all orderId_format [''OUO-48213'', ''OUO-48214'']"
    using th[THEN conjunct2, THEN conjunct2, THEN conjunct1] unfolding a .
  have d: "distinct [''OUO-48213'', ''OUO-48214'']"
    by simp
  from h a b d show ?thesis by (intro conjI)
qed

section \<open>The dispatcher follows the order of the source\<close>

lemma branch_cod_branch [simp]:
  "branch (cod_branch e p c oid s0 st sent) = FlowSubmission"
  by (simp add: cod_branch_def Let_def split_beta split: shipment_outcome.splits option.splits)

lemma branch_prepaid_branch [simp]:
  "branch (prepaid_branch e p c oid s0 st sent) = FlowSubmission"
  by (simp add: prepaid_branch_def Let_def split_beta)

lemma branch_flow_submission [simp]:
  "branch (flow_submission e p cd st) = FlowSubmission"
  by (simp add: flow_submission_def Let_def split: option.splits)

lemma branch_finish [simp]: "branch (finish p st sent r u b br) = br"
  by (simp add: finish_def)

lemma branch_reminder_followup [simp]:
  "branch (reminder_followup e p body st) = ReminderFollowup"
  by (simp add: reminder_followup_def)

lemma if_disj_chain: "(if a \<or> b then x else y) = (if a then x else if b then x else y)"
  by simp

lemma branch_dispatch:
  assumes "\<not> is_flow_submission msg"
    and "intentBasedQA st' = intentBasedQA st"
    and "remindedUsers st' = remindedUsers st"
    and "completedUsers st' = completedUsers st"
  shows "branch (dispatch e (normalizePhone (msg_from msg)) (content msg) st') =
         first_match (code_priority st msg)"
proof -
  have nf: "is_flow_submission msg = False"
    using assms(1) by simp
  show ?thesis
    unfolding dispatch_def code_priority_def Let_def is_menu_def is_greeting_def is_order_event_def
      awaits_followup_def assms(2,3,4) nf
    by (simp only: if_distrib[of branch] option.case_distrib[of branch] branch_finish
        branch_reminder_followup first_match.simps option.case_eq_if if_cancel if_disj_chain
        if_True if_False)
qed

text \<open>
  Claim C3 puts the AWB pattern before the intent table. The source tests the table first:
  the text \<^verbatim>\<open>track your order 12345678901234\<close> holds a 14-digit number, the order of the
  specification gives it to the AWB case, and the handler answers with the canned text of
  \<^verbatim>\<open>track your order\<close> and sends no tracking link.
\<close>

theorem awb_text_with_intent_phrase:
  "awbMatch (msgBody_of (content (text_from phone0 ''track your order 12345678901234'')))
     = Some ''12345678901234''
   \<and> first_match (spec_priority ready_state (text_from phone0 ''track your order 12345678901234''))
     = AwbRegex
   \<and> branch (post_root env0 ready_state (Some (text_from phone0 ''track your order 12345678901234'')))
     = IntentTable
   \<and> effects (post_root env0 ready_state (Some (text_from phone0 ''track your order 12345678901234'')))
     = [SendWhatsAppText phone0 (Plain ''Please type your 14 digit AWB in chat'')]"
proof -
  let ?m = "''track your order 12345678901234''"
  have n: "trim (toLowerCase ?m) = ?m"
    by (simp add: text_eval)
  have b: "msgBody_of (content (text_from phone0 ?m)) = ?m"
    by (simp add: text_from_def msgBody_of_def n)
  have a: "awbMatch ?m = Some ''12345678901234''"
    by (simp add: awbMatch_def awbAt_def isWordChar_def isLetter_def isDigit_def)
  have k: "map_of parseIntentBasedQA ?m = None"
    unfolding map_of_None_keys table_keys by simp
  have pm: "partialMatch parseIntentBasedQA ?m =
      Some \<lparr>answer = ''Please type your 14 digit AWB in chat'', intents = []\<rparr>"
    by (simp add: parseIntentBasedQA_def startsWith_def)
  have f: "findIntentBasedResponse (intentBasedQA ready_state) ?m =
      Some \<lparr>answer = ''Please type your 14 digit AWB in chat'', intents = []\<rparr>"
    by (simp add: findIntentBasedResponse_def ready_state_def n k pm)
  have nm: "\<not> is_menu ?m" "\<not> is_greeting ?m"
    by (simp_all add: is_menu_def is_greeting_def)
  have s: "first_match (spec_priority ready_state (text_from phone0 ?m)) = AwbRegex"
    unfolding spec_priority_def Let_def b
    by (simp add: nm a is_order_event_def is_flow_submission_def text_from_def msgBody_of_def n)
  have d: "dispatch env0 phone0 (TextMsg ?m)
             (rearm_idle_timer env0 phone0 (ensure_order_list phone0 ready_state)) =
           finish phone0 (rearm_idle_timer env0 phone0 (ensure_order_list phone0 ready_state)) []
             (Plain ''Please type your 14 digit AWB in chat'') False [] IntentTable"
    using f by (simp add: dispatch_def msgBody_of_def n Let_def ready_state_def buttons_of_def)
  have p: "post_root env0 ready_state (Some (text_from phone0 ?m)) =
           finish phone0 (rearm_idle_timer env0 phone0 (ensure_order_list phone0 ready_state)) []
             (Plain ''Please type your 14 digit AWB in chat'') False [] IntentTable"
    by (simp add: post_root_def text_from_def Let_def d)
  show ?thesis
    unfolding b p using a s by (simp add: finish_def)
qed

text \<open>
  Claim C3 as amended: the handler takes the first case that matches in the order
  delivery-details submission, main menu, intent table, AWB pattern, greeting, the
  keyword replies (sourcing story, nutrition info, view products, have a query, how are
  you, fine, thanks, praise), catalog order, reminder follow-up, AI fallback; exactly one
  case handles a message. Payment notifications arrive on a route of their own.
\<close>

theorem dispatch_follows_code_priority:
  "branch (post_root e st (Some msg)) = first_match (code_priority st msg)"
proof (cases "is_flow_submission msg")
  case True
  then obtain cd where "content msg = NfmReply cd"
    by (auto simp add: is_flow_submission_def split: msg_content.splits)
  with True show ?thesis
    by (simp add: post_root_nfm code_priority_def Let_def)
next
  case False
  then have "post_root e st (Some msg) =
      dispatch e (normalizePhone (msg_from msg)) (content msg)
        (rearm_idle_timer e (normalizePhone (msg_from msg))
           (ensure_order_list (normalizePhone (msg_from msg)) st))"
    by (simp add: post_root_def Let_def is_flow_submission_def split: msg_content.splits)
  then show ?thesis
    by (simp add: branch_dispatch[OF False])
qed

text \<open>A text that is only a 14-digit number reaches the AWB case.\<close>

theorem dispatch_follows_code_priority_witness:
  "branch (post_root env0 ready_state (Some (text_from phone0 ''12345678901234''))) = AwbRegex"
proof -
  let ?m = "''12345678901234''"
  have n: "trim (toLowerCase ?m) = ?m"
    by (simp add: text_eval)
  have b: "msgBody_of (content (text_from phone0 ?m)) = ?m"
    by (simp add: text_from_def msgBody_of_def n)
  have a: "awbMatch ?m = Some ''12345678901234''"
    by (simp add: awbMatch_def awbAt_def isWordChar_def isLetter_def isDigit_def)
  have k: "map_of parseIntentBasedQA ?m = None"
    unfolding map_of_None_keys table_keys by simp
  have pm: "partialMatch parseIntentBasedQA ?m = None"
    unfolding partialMatch_None table_keys by (simp add: startsWith_def)
  have f: "findIntentBasedResponse (intentBasedQA ready_state) ?m = None"
    by (simp add: findIntentBasedResponse_def ready_state_def n k pm text_eval)
  have c: "first_match (code_priority ready_state (text_from phone0 ?m)) = AwbRegex"
    unfolding code_priority_def Let_def b
    by (simp add: f a is_menu_def is_flow_submission_def text_from_def)
  show ?thesis
    using dispatch_follows_code_priority[of env0 ready_state "text_from phone0 ?m"] c by simp
qed

section \<open>One reminder per idle period\<close>

subsection \<open>What a handler leaves alone\<close>

lemma st_after_finish [simp]: "st_after (finish p st sent r u b br) = st"
  by (simp add: finish_def)

lemma effects_finish [simp]:
  "effects (finish p st sent r u b br) =
     sent @ [if u \<and> b \<noteq> [] then SendWhatsAppInteractiveMessage p r b else SendWhatsAppText p r]"
  by (simp add: finish_def)

lemma timers_ensure [simp]:
  "timers (ensure_order_list p st) = timers st"
  "idleTimers (ensure_order_list p st) = idleTimers st"
  "next_timer (ensure_order_list p st) = next_timer st"
  by (simp_all add: ensure_order_list_def split: option.splits)

lemma timers_catalog_order [simp]:
  "timers (catalog_order p d st) = timers st"
  "idleTimers (catalog_order p d st) = idleTimers st"
  "next_timer (catalog_order p d st) = next_timer st"
  "completedUsers (catalog_order p d st) = completedUsers st"
  by (simp_all add: catalog_order_def Let_def)

lemma timers_reminder_followup [simp]:
  "timers (st_after (reminder_followup e p body st)) = timers st"
  "idleTimers (st_after (reminder_followup e p body st)) = idleTimers st"
  "next_timer (st_after (reminder_followup e p body st)) = next_timer st"
  by (simp_all add: reminder_followup_def)

lemma completed_reminder_followup:
  "completedUsers st \<subseteq> completedUsers (st_after (reminder_followup e p body st))"
  by (auto simp add: reminder_followup_def)

lemma timers_cod_branch [simp]:
  "timers (st_after (cod_branch e p c oid s0 st sent)) = timers st"
  "idleTimers (st_after (cod_branch e p c oid s0 st sent)) = idleTimers st"
  "next_timer (st_after (cod_branch e p c oid s0 st sent)) = next_timer st"
  "completedUsers (st_after (cod_branch e p c oid s0 st sent)) = completedUsers st"
  by (simp_all add: cod_branch_def Let_def split_beta split: shipment_outcome.splits option.splits)

lemma timers_prepaid_branch [simp]:
  "timers (st_after (prepaid_branch e p c oid s0 st sent)) = timers st"
  "idleTimers (st_after (prepaid_branch e p c oid s0 st sent)) = idleTimers st"
  "next_timer (st_after (prepaid_branch e p c oid s0 st sent)) = next_timer st"
  "completedUsers (st_after (prepaid_branch e p c oid s0 st sent)) = completedUsers st"
  by (simp_all add: prepaid_branch_def Let_def split_beta)

lemma timers_flow_submission [simp]:
  "timers (st_after (flow_submission e p cd st)) = timers st"
  "idleTimers (st_after (flow_submission e p cd st)) = idleTimers st"
  "next_timer (st_after (flow_submission e p cd st)) = next_timer st"
  "completedUsers (st_after (flow_submission e p cd st)) = completedUsers st"
  by (simp_all add: flow_submission_def Let_def split: option.splits)

lemma timers_dispatch [simp]:
  "timers (st_after (dispatch e p c st)) = timers st"
  "idleTimers (st_after (dispatch e p c st)) = idleTimers st"
  "next_timer (st_after (dispatch e p c st)) = next_timer st"
  unfolding dispatch_def Let_def
  by (simp_all only: if_distrib[of st_after] if_distrib[of timers] if_distrib[of idleTimers]
      if_distrib[of next_timer] option.case_distrib[of st_after] option.case_distrib[of timers]
      option.case_distrib[of idleTimers] option.case_distrib[of next_timer]
      st_after_finish timers_catalog_order timers_reminder_followup option.case_eq_if if_cancel)

lemma completed_dispatch:
  "completedUsers st \<subseteq> completedUsers (st_after (dispatch e p c st))"
  unfolding dispatch_def Let_def
  by (simp only: if_distrib[of st_after] if_distrib[of completedUsers]
      if_distrib[of "(\<subseteq>) (completedUsers st)"]
      option.case_distrib[of st_after] option.case_distrib[of completedUsers]
      st_after_finish timers_catalog_order completed_reminder_followup option.case_eq_if
      if_cancel order_refl)

lemma timers_payments_webhook [simp]:
  "timers (st_after (payments_webhook e st body)) = timers st"
  "idleTimers (st_after (payments_webhook e st body)) = idleTimers st"
  "next_timer (st_after (payments_webhook e st body)) = next_timer st"
  "completedUsers (st_after (payments_webhook e st body)) = completedUsers st"
  by (simp_all add: payments_webhook_def Let_def split_beta split: option.splits resolved.splits)

lemma timers_post_root:
  "timers (st_after (post_root e st (Some msg))) =
     timers (rearm_idle_timer e (normalizePhone (msg_from msg)) st)"
  "idleTimers (st_after (post_root e st (Some msg))) =
     idleTimers (rearm_idle_timer e (normalizePhone (msg_from msg)) st)"
  "next_timer (st_after (post_root e st (Some msg))) =
     next_timer (rearm_idle_timer e (normalizePhone (msg_from msg)) st)"
  by (simp_all add: post_root_def Let_def rearm_idle_timer_def setTimeout_def clearTimeout_def
      split: msg_content.splits option.splits)

lemma completed_post_root:
  "completedUsers st \<subseteq> completedUsers (st_after (post_root e st req))"
proof (cases req)
  case None
  then show ?thesis by (simp add: post_root_def)
next
  case (Some msg)
  have "completedUsers st \<subseteq>
        completedUsers (st_after (dispatch e p c (rearm_idle_timer e p (ensure_order_list p st))))"
    for p c
    using completed_dispatch[of "rearm_idle_timer e p (ensure_order_list p st)" e p c] by simp
  with Some show ?thesis
    by (simp add: post_root_def Let_def split: msg_content.splits)
qed

subsection \<open>No reminder but from the timer\<close>

lemma reminders_to_simps [simp]:
  "reminders_to p [] = 0"
  "reminders_to p (x # xs) = (if x = SendWhatsAppText p IdleReminder then 1 else 0) + reminders_to p xs"
  "reminders_to p (xs @ ys) = reminders_to p xs + reminders_to p ys"
  by (simp_all add: reminders_to_def)

lemma reminders_finish:
  "r \<noteq> IdleReminder \<Longrightarrow> reminders_to q (effects (finish p st sent r u b br)) = reminders_to q sent"
  by simp

lemma reminders_reminder_followup [simp]:
  "reminders_to q (effects (reminder_followup e p body st)) = 0"
  by (simp add: reminder_followup_def)

lemma reminders_cod_branch:
  "reminders_to q (effects (cod_branch e p c oid s0 st sent)) = reminders_to q sent"
  by (simp add: cod_branch_def Let_def split_beta split: shipment_outcome.splits option.splits)

lemma reminders_prepaid_branch:
  "reminders_to q (effects (prepaid_branch e p c oid s0 st sent)) = reminders_to q sent"
  by (simp add: prepaid_branch_def sendWhatsAppOrderDetails_def Let_def split_beta)

lemma reminders_flow_submission [simp]:
  "reminders_to q (effects (flow_submission e p cd st)) = 0"
  by (simp add: flow_submission_def Let_def reminders_cod_branch reminders_prepaid_branch
      split: option.splits)

lemma if_both: "Q x \<Longrightarrow> Q y \<Longrightarrow> Q (if c then x else y)"
  by simp

lemma option_both: "Q a \<Longrightarrow> (\<And>x. Q (f x)) \<Longrightarrow> Q (case v of None \<Rightarrow> a | Some x \<Rightarrow> f x)"
  by (cases v) simp_all

lemma reminders_dispatch [simp]:
  "reminders_to q (effects (dispatch e p c st)) = 0"
  unfolding dispatch_def Let_def
  by (intro if_both[where Q = "\<lambda>out. reminders_to q (effects out) = 0"]
        option_both[where Q = "\<lambda>out. reminders_to q (effects out) = 0"])
     (simp_all split: option.splits)

lemma reminders_post_root [simp]:
  "reminders_to q (effects (post_root e st req)) = 0"
  by (simp add: post_root_def Let_def split: option.splits msg_content.splits)

lemma reminders_payments_webhook [simp]:
  "reminders_to q (effects (payments_webhook e st body)) = 0"
  by (simp add: payments_webhook_def finalizePaidOrder_def Let_def split_beta
      split: option.splits shipment_outcome.splits resolved.splits)

subsection \<open>Arming and firing\<close>

lemma rearm_completed:
  "p \<in> completedUsers st \<Longrightarrow> rearm_idle_timer e p st = st"
  by (simp add: rearm_idle_timer_def)

lemma rearm_fields:
  assumes "p \<notin> completedUsers st"
  shows "timers (rearm_idle_timer e p st) =
           (case idleTimers st p of
              None \<Rightarrow> timers st
            | Some h \<Rightarrow> filter (\<lambda>t. timer_id t \<noteq> h) (timers st))
           @ [\<lparr>timer_id = next_timer st, timer_phone = p, timer_due = now e + idle_delay\<rparr>]"
    and "idleTimers (rearm_idle_timer e p st) = (idleTimers st)(p \<mapsto> next_timer st)"
    and "next_timer (rearm_idle_timer e p st) = Suc (next_timer st)"
  using assms
  by (simp_all add: rearm_idle_timer_def setTimeout_def clearTimeout_def Let_def split: option.splits)

lemma timer_invD:
  assumes "timer_inv st" and "t \<in> set (timers st)"
  shows "idleTimers st (timer_phone t) = Some (timer_id t)" and "timer_id t < next_timer st"
  using assms by (simp_all add: timer_inv_def list_all_iff)

lemma timer_inv_distinct: "timer_inv st \<Longrightarrow> distinct (map timer_id (timers st))"
  by (simp add: timer_inv_def)

lemma kept_after_clear:
  assumes "timer_inv st"
  shows "filter (\<lambda>t. timer_phone t = p)
           (case idleTimers st p of
              None \<Rightarrow> timers st
            | Some h \<Rightarrow> filter (\<lambda>t. timer_id t \<noteq> h) (timers st)) = []"
proof (cases "idleTimers st p")
  case None
  then have "\<forall>t \<in> set (timers st). timer_phone t \<noteq> p"
    using timer_invD(1)[OF assms] by auto
  with None show ?thesis
    by (simp add: filter_empty_conv)
next
  case (Some h)
  then have "\<forall>t \<in> set (timers st). timer_phone t = p \<longrightarrow> timer_id t = h"
    using timer_invD(1)[OF assms] by auto
  with Some show ?thesis
    by (auto simp add: filter_empty_conv)
qed

lemma pending_after_rearm:
  assumes "timer_inv st" and "p \<notin> completedUsers st"
  shows "pending_for p (rearm_idle_timer e p st) =
           [\<lparr>timer_id = next_timer st, timer_phone = p, timer_due = now e + idle_delay\<rparr>]"
  by (simp add: pending_for_def rearm_fields(1)[OF assms(2)] kept_after_clear[OF assms(1)])

lemma timer_inv_rearm:
  assumes "timer_inv st"
  shows "timer_inv (rearm_idle_timer e p st)"
proof (cases "p \<in> completedUsers st")
  case True
  with assms show ?thesis by (simp add: rearm_completed)
next
  case False
  let ?old = "case idleTimers st p of
                None \<Rightarrow> timers st
              | Some h \<Rightarrow> filter (\<lambda>t. timer_id t \<noteq> h) (timers st)"
  have sub: "set ?old \<subseteq> set (timers st)"
    by (auto split: option.splits)
  have nop: "\<forall>t \<in> set ?old. timer_phone t \<noteq> p"
    using kept_after_clear[OF assms, of p] by (simp add: filter_empty_conv)
  have old_ok: "\<forall>t \<in> set ?old.
      ((idleTimers st)(p \<mapsto> next_timer st)) (timer_phone t) = Some (timer_id t)
      \<and> timer_id t < Suc (next_timer st)"
  proof
    fix t assume t: "t \<in> set ?old"
    with sub have "t \<in> set (timers st)" by blast
    from timer_invD[OF assms this] nop t
    show "((idleTimers st)(p \<mapsto> next_timer st)) (timer_phone t) = Some (timer_id t)
          \<and> timer_id t < Suc (next_timer st)"
      by auto
  qed
  have d_old: "distinct (map timer_id ?old)"
    using timer_inv_distinct[OF assms] by (auto split: option.splits simp add: distinct_map_filter)
  have fresh: "next_timer st \<notin> timer_id ` set ?old"
  proof
    assume "next_timer st \<in> timer_id ` set ?old"
    then obtain t where "t \<in> set ?old" "timer_id t = next_timer st" by auto
    with sub timer_invD(2)[OF assms, of t] show False by auto
  qed
  show ?thesis
    unfolding timer_inv_def rearm_fields[OF False]
    using old_ok d_old fresh by (simp add: list_all_iff)
qed

lemma at_most_one_pending:
  assumes "timer_inv st"
  shows "length (pending_for p st) \<le> 1"
proof -
  have "distinct (map f xs) \<Longrightarrow> \<forall>x \<in> set xs. Q x \<longrightarrow> f x = k \<Longrightarrow> length (filter Q xs) \<le> 1"
    for f :: "timer \<Rightarrow> nat" and xs Q k
  proof (induction xs)
    case Nil
    then show ?case by simp
  next
    case (Cons x xs)
    show ?case
    proof (cases "Q x")
      case True
      with Cons.prems have k: "f x = k" and fresh: "f x \<notin> f ` set xs"
        by simp_all
      have "\<forall>y \<in> set xs. \<not> Q y"
      proof (intro ballI notI)
        fix y assume y: "y \<in> set xs" "Q y"
        with Cons.prems(2) have "f y = k" by simp
        with k y(1) have "f x \<in> f ` set xs" by (simp add: image_iff) metis
        with fresh show False ..
      qed
      then have "filter Q xs = []"
        by (simp add: filter_empty_conv)
      with True show ?thesis by simp
    next
      case False
      with Cons show ?thesis by simp
    qed
  qed
  note one = this
  have same: "\<forall>t \<in> set (timers st). timer_phone t = p \<longrightarrow> timer_id t = the (idleTimers st p)"
    using timer_invD(1)[OF assms] by auto
  show ?thesis
    unfolding pending_for_def
    by (rule one[OF timer_inv_distinct[OF assms] same])
qed

lemma fire_all_frame:
  "timers (fst (fire_all ts st)) = timers st
   \<and> idleTimers (fst (fire_all ts st)) = idleTimers st
   \<and> next_timer (fst (fire_all ts st)) = next_timer st
   \<and> completedUsers (fst (fire_all ts st)) = completedUsers st"
  by (induction ts arbitrary: st) (simp_all add: idle_callback_def split_beta Let_def)

lemma fire_all_reminders:
  "reminders_to p (snd (fire_all ts st)) =
     (if p \<in> completedUsers st then 0 else length (filter (\<lambda>t. timer_phone t = p) ts))"
proof (induction ts arbitrary: st)
  case Nil
  then show ?case by simp
next
  case (Cons t ts)
  have c: "completedUsers (fst (idle_callback (timer_phone t) st)) = completedUsers st"
    by (simp add: idle_callback_def)
  show ?case
    by (simp add: split_beta Let_def Cons.IH c) (auto simp add: idle_callback_def)
qed

lemma advance_clock_frame:
  "timers (fst (advance_clock T st)) = filter (\<lambda>t. T < timer_due t) (timers st)"
  "idleTimers (fst (advance_clock T st)) = idleTimers st"
  "next_timer (fst (advance_clock T st)) = next_timer st"
  "completedUsers (fst (advance_clock T st)) = completedUsers st"
  by (simp_all add: advance_clock_def fire_all_frame)

lemma advance_clock_reminders:
  "reminders_to p (snd (advance_clock T st)) =
     (if p \<in> completedUsers st then 0
      else length (filter (\<lambda>t. timer_due t \<le> T) (pending_for p st)))"
proof -
  have "filter (\<lambda>t. timer_phone t = p) (filter (\<lambda>t. timer_due t \<le> T) (timers st)) =
        filter (\<lambda>t. timer_due t \<le> T) (pending_for p st)"
    by (simp add: pending_for_def conj_commute)
  then show ?thesis
    by (simp add: advance_clock_def fire_all_reminders)
qed

lemma timer_inv_advance_clock:
  assumes "timer_inv st"
  shows "timer_inv (fst (advance_clock T st))"
  using assms
  by (simp add: timer_inv_def advance_clock_frame list_all_iff distinct_map_filter)

lemma timer_inv_cong:
  "timers a = timers b \<Longrightarrow> idleTimers a = idleTimers b \<Longrightarrow> next_timer a = next_timer b \<Longrightarrow>
   timer_inv a = timer_inv b"
  by (simp add: timer_inv_def)

lemma timer_inv_post_root:
  assumes "timer_inv st"
  shows "timer_inv (st_after (post_root e st req))"
proof (cases req)
  case None
  with assms show ?thesis by (simp add: post_root_def)
next
  case (Some msg)
  have "timer_inv (st_after (post_root e st (Some msg))) =
        timer_inv (rearm_idle_timer e (normalizePhone (msg_from msg)) st)"
    by (rule timer_inv_cong) (rule timers_post_root)+
  with Some timer_inv_rearm[OF assms] show ?thesis by simp
qed

lemma timer_inv_payments_webhook:
  "timer_inv st \<Longrightarrow> timer_inv (st_after (payments_webhook e st body))"
  by (simp add: timer_inv_def)

lemma timer_inv_handle_event:
  "timer_inv st \<Longrightarrow> timer_inv (fst (handle_event ev st))"
  by (cases ev) (simp_all add: timer_inv_post_root timer_inv_payments_webhook timer_inv_advance_clock)

lemma timer_inv_run: "timer_inv st \<Longrightarrow> timer_inv (fst (run evs st))"
proof (induction evs arbitrary: st)
  case Nil
  then show ?case by simp
next
  case (Cons ev evs)
  from Cons.IH[OF timer_inv_handle_event[OF Cons.prems, of ev]]
  show ?case by (simp add: split_beta Let_def)
qed

lemma timer_inv_init: "timer_inv init_state"
  by (simp add: timer_inv_def init_state_def)

lemma pending_post_root:
  assumes "timer_inv st" and "normalizePhone (msg_from msg) \<notin> completedUsers st"
  shows "pending_for (normalizePhone (msg_from msg)) (st_after (post_root e st (Some msg))) =
           [\<lparr>timer_id = next_timer st, timer_phone = normalizePhone (msg_from msg),
             timer_due = now e + idle_delay\<rparr>]"
  using pending_after_rearm[OF assms, of e]
  by (simp add: pending_for_def timers_post_root)

lemma pending_advance_clock:
  "pending_for p (fst (advance_clock T st)) = filter (\<lambda>t. T < timer_due t) (pending_for p st)"
  by (simp add: pending_for_def advance_clock_frame conj_commute)

text \<open>
  Claim C9. In every state that the server reaches, and at every point of the run below,
  a phone has at most one pending idle timer. Two messages from a phone \<open>P\<close>, the second
  within the delay of the first, leave one timer for \<open>P\<close> after each, due 30 minutes after
  that message; and when \<open>P\<close> has not completed its details by then, the whole run (the
  two messages and the clock up to a time \<open>T\<close> past the second delay) sends \<open>P\<close> exactly
  one reminder.
\<close>

theorem idle_timer_fires_once:
  assumes reach: "st = fst (run evs init_state)"
    and p1: "normalizePhone (msg_from m1) = P"
    and p2: "normalizePhone (msg_from m2) = P"
    and window: "now e2 < now e1 + idle_delay"
    and later: "now e2 + idle_delay \<le> T"
    and nc: "P \<notin> completedUsers (fst (run (two_messages e1 m1 e2 m2 T) st))"
  shows "length (pending_for q (fst (run (take n (two_messages e1 m1 e2 m2 T)) st))) \<le> 1
       \<and> map timer_due (pending_for P (fst (run [Inbound e1 (Some m1)] st))) = [now e1 + idle_delay]
       \<and> map timer_due
            (pending_for P
               (fst (run [Inbound e1 (Some m1), ClockReaches (now e2), Inbound e2 (Some m2)] st)))
          = [now e2 + idle_delay]
       \<and> reminders_to P (snd (run (two_messages e1 m1 e2 m2 T) st)) = 1"
proof -
  define s1 where "s1 = st_after (post_root e1 st (Some m1))"
  define s2 where "s2 = fst (advance_clock (now e2) s1)"
  define s3 where "s3 = st_after (post_root e2 s2 (Some m2))"
  define s4 where "s4 = fst (advance_clock T s3)"
  have inv0: "timer_inv st"
    unfolding reach by (rule timer_inv_run[OF timer_inv_init])
  have inv1: "timer_inv s1"
    unfolding s1_def by (rule timer_inv_post_root[OF inv0])
  have inv2: "timer_inv s2"
    unfolding s2_def by (rule timer_inv_advance_clock[OF inv1])
  have final: "fst (run (two_messages e1 m1 e2 m2 T) st) = s4"
    by (simp add: two_messages_def split_beta Let_def s1_def s2_def s3_def s4_def)
  have c4: "P \<notin> completedUsers s4"
    using nc by (simp add: final)
  then have c3: "P \<notin> completedUsers s3"
    by (simp add: s4_def advance_clock_frame)
  then have c2: "P \<notin> completedUsers s2"
    using completed_post_root[of s2 e2 "Some m2"] by (auto simp add: s3_def)
  then have c1: "P \<notin> completedUsers s1"
    by (simp add: s2_def advance_clock_frame)
  then have c0: "P \<notin> completedUsers st"
    using completed_post_root[of st e1 "Some m1"] by (auto simp add: s1_def)
  have pend1: "pending_for P s1 =
      [\<lparr>timer_id = next_timer st, timer_phone = P, timer_due = now e1 + idle_delay\<rparr>]"
    using pending_post_root[OF inv0, of m1 e1] c0 by (simp add: p1 s1_def)
  have pend2: "pending_for P s2 = pending_for P s1"
    using window by (simp add: s2_def pending_advance_clock pend1)
  have pend3: "pending_for P s3 =
      [\<lparr>timer_id = next_timer s2, timer_phone = P, timer_due = now e2 + idle_delay\<rparr>]"
    using pending_post_root[OF inv2, of m2 e2] c2 by (simp add: p2 s3_def)
  have r1: "reminders_to P (snd (advance_clock (now e2) s1)) = 0"
    using window c1 by (simp add: advance_clock_reminders pend1)
  have r2: "reminders_to P (snd (advance_clock T s3)) = 1"
    using later c3 by (simp add: advance_clock_reminders pend3)
  have total: "reminders_to P (snd (run (two_messages e1 m1 e2 m2 T) st)) = 1"
    using r1 r2
    by (simp add: two_messages_def split_beta Let_def s1_def[symmetric] s2_def[symmetric]
        s3_def[symmetric])
  have a: "length (pending_for q (fst (run (take n (two_messages e1 m1 e2 m2 T)) st))) \<le> 1"
    by (rule at_most_one_pending[OF timer_inv_run[OF inv0]])
  have b: "map timer_due (pending_for P (fst (run [Inbound e1 (Some m1)] st))) = [now e1 + idle_delay]"
    using pend1 by (simp add: s1_def split_beta Let_def)
  have c: "map timer_due
            (pending_for P
               (fst (run [Inbound e1 (Some m1), ClockReaches (now e2), Inbound e2 (Some m2)] st)))
          = [now e2 + idle_delay]"
    using pend3 by (simp add: s1_def s2_def s3_def split_beta Let_def)
  from a b c total show ?thesis
    by (intro conjI)
qed

lemma reminded_flow_submission [simp]:
  "remindedUsers (st_after (flow_submission e p cd st)) = remindedUsers st"
  by (simp add: flow_submission_def cod_branch_def prepaid_branch_def Let_def split_beta
      split: option.splits shipment_outcome.splits)

lemma reminded_catalog_order [simp]:
  "remindedUsers (catalog_order p d st) = remindedUsers st"
  by (simp add: catalog_order_def Let_def)

lemma users_dispatch_not_reminded:
  assumes "p \<notin> remindedUsers st"
  shows "completedUsers (st_after (dispatch e p c st)) = completedUsers st"
    and "remindedUsers (st_after (dispatch e p c st)) = remindedUsers st"
proof -
  have nr: "(p \<in> remindedUsers st) = False"
    using assms by simp
  show "completedUsers (st_after (dispatch e p c st)) = completedUsers st"
    unfolding dispatch_def Let_def nr
    by (simp only: if_distrib[of st_after] if_distrib[of completedUsers]
        option.case_distrib[of st_after] option.case_distrib[of completedUsers]
        st_after_finish timers_catalog_order option.case_eq_if simp_thms if_False if_cancel)
  show "remindedUsers (st_after (dispatch e p c st)) = remindedUsers st"
    unfolding dispatch_def Let_def nr
    by (simp only: if_distrib[of st_after] if_distrib[of remindedUsers]
        option.case_distrib[of st_after] option.case_distrib[of remindedUsers]
        st_after_finish reminded_catalog_order option.case_eq_if simp_thms if_False if_cancel)
qed

lemma users_post_root_not_reminded:
  assumes "normalizePhone (msg_from msg) \<notin> remindedUsers st"
  shows "completedUsers (st_after (post_root e st (Some msg))) = completedUsers st"
    and "remindedUsers (st_after (post_root e st (Some msg))) = remindedUsers st"
proof -
  let ?p = "normalizePhone (msg_from msg)"
  let ?st = "rearm_idle_timer e ?p (ensure_order_list ?p st)"
  have nr: "?p \<notin> remindedUsers ?st"
    using assms by simp
  show "completedUsers (st_after (post_root e st (Some msg))) = completedUsers st"
    using users_dispatch_not_reminded(1)[OF nr]
    by (simp add: post_root_def Let_def split: msg_content.splits)
  show "remindedUsers (st_after (post_root e st (Some msg))) = remindedUsers st"
    using users_dispatch_not_reminded(2)[OF nr]
    by (simp add: post_root_def Let_def split: msg_content.splits)
qed

text \<open>
  On the fresh server, two greetings from 919876543210 ten minutes apart: after the first
  the timer is due at 30 minutes, after the second at 40 minutes, and by minute 40 the
  phone has got one reminder.
\<close>

theorem idle_timer_fires_once_witness:
  "init_state = fst (run [] init_state)
   \<and> now (env0\<lparr>now := 600000\<rparr>) < now env0 + idle_delay
   \<and> map timer_due
        (pending_for phone0 (fst (run [Inbound env0 (Some (text_from phone0 ''hi''))] init_state)))
      = [1800000]
   \<and> map timer_due
        (pending_for phone0
           (fst (run [Inbound env0 (Some (text_from phone0 ''hi'')), ClockReaches 600000,
                      Inbound (env0\<lparr>now := 600000\<rparr>) (Some (text_from phone0 ''hi''))] init_state)))
      = [2400000]
   \<and> reminders_to phone0
        (snd (run (two_messages env0 (text_from phone0 ''hi'') (env0\<lparr>now := 600000\<rparr>)
                     (text_from phone0 ''hi'') 2400000) init_state)) = 1"
proof -
  let ?hi = "text_from phone0 ''hi''"
  let ?e2 = "env0\<lparr>now := 600000\<rparr>"
  define s1 where "s1 = st_after (post_root env0 init_state (Some ?hi))"
  define s2 where "s2 = fst (advance_clock 600000 s1)"
  define s3 where "s3 = st_after (post_root ?e2 s2 (Some ?hi))"
  define s4 where "s4 = fst (advance_clock 2400000 s3)"
  have r0: "init_state = fst (run [] init_state)"
    by simp
  have p: "normalizePhone (msg_from ?hi) = phone0"
    by (simp add: text_from_def)
  have n1: "now env0 = 0" and n2: "now ?e2 = 600000"
    by (simp_all add: env0_def)
  have w: "now ?e2 < now env0 + idle_delay"
    by (simp add: n1 idle_delay_def)
  have l: "now ?e2 + idle_delay \<le> 2400000"
    by (simp add: idle_delay_def)
  have u1: "completedUsers s1 = {}" "remindedUsers s1 = {}"
    unfolding s1_def
    by (simp_all add: users_post_root_not_reminded p init_state_def)
  have t1: "timers s1 = [\<lparr>timer_id = 0, timer_phone = phone0, timer_due = 1800000\<rparr>]"
    unfolding s1_def
    by (simp add: timers_post_root p rearm_fields init_state_def n1 idle_delay_def)
  have f1: "advance_clock 600000 s1 = (s1, [])"
    by (simp add: advance_clock_def t1)
  have u2: "completedUsers s2 = {}" "remindedUsers s2 = {}"
    by (simp_all add: s2_def f1 u1)
  have u3: "completedUsers s3 = {}"
    unfolding s3_def
    by (simp add: users_post_root_not_reminded p u2)
  have u4: "completedUsers s4 = {}"
    by (simp add: s4_def advance_clock_frame u3)
  have final: "fst (run (two_messages env0 ?hi ?e2 ?hi 2400000) init_state) = s4"
    by (simp add: two_messages_def split_beta Let_def s1_def s2_def s3_def s4_def)
  have nc: "phone0 \<notin> completedUsers (fst (run (two_messages env0 ?hi ?e2 ?hi 2400000) init_state))"
    by (simp add: final u4)
  note th = idle_timer_fires_once[OF r0 p p w l nc, unfolded n1 n2]
  have a: "map timer_due (pending_for phone0 (fst (run [Inbound env0 (Some ?hi)] init_state)))
      = [1800000]"
    using th[THEN conjunct2, THEN conjunct1] by (simp add: idle_delay_def)
  have b: "map timer_due
        (pending_for phone0
           (fst (run [Inbound env0 (Some ?hi), ClockReaches 600000, Inbound ?e2 (Some ?hi)] init_state)))
      = [2400000]"
    using th[THEN conjunct2, THEN conjunct2, THEN conjunct1] by (simp add: idle_delay_def)
  have c: "reminders_to phone0 (snd (run (two_messages env0 ?hi ?e2 ?hi 2400000) init_state)) = 1"
    using th[THEN conjunct2, THEN conjunct2, THEN conjunct2] .
  from r0 w a b c show ?thesis
    by (intro conjI)
qed

end
